theory Spec2Isabelle
  imports Complex_Main
begin

section \<open>C-Volley: the simulation core of blobby\_volley.c\<close>

text \<open>
  The game keeps its whole state in file-level variables and advances it once per
  frame in \<^verbatim>\<open>UpdateGame\<close>. The embedding collects those variables in the record
  \<open>Game\<close> and turns every function that mutates them into a function from \<open>Game\<close>
  to \<open>Game\<close>. What raylib polls (\<^verbatim>\<open>IsKeyDown\<close>, \<^verbatim>\<open>IsKeyPressed\<close>,
  \<^verbatim>\<open>GetRandomValue\<close>) is an explicit \<open>Input\<close> of the tick.

  C \<^verbatim>\<open>float\<close> values are embedded as \<open>real\<close>: comparisons and branches are those
  of the source, and the functions of the frame compute without the rounding of float
  arithmetic. Where a property depends on the rounding, at the speed clamp, the block is
  embedded a second time with the rounding explicit (\<open>clamp_speed_fl\<close>). C \<^verbatim>\<open>int\<close> values
  are embedded as \<open>int\<close>; the counters of the game stay far below \<open>2^31\<close>.
  Sound, music, textures and colours only feed the drawing code and are left out.
\<close>

subsection \<open>Constants (the \<^verbatim>\<open>#define\<close>s, lines 31-64, 114, 142)\<close>

text \<open>Macros are abbreviations: they expand where they are used, as in C.\<close>

abbreviation (input) SCREEN_WIDTH :: int where "SCREEN_WIDTH \<equiv> 1024"
abbreviation (input) SCREEN_HEIGHT :: int where "SCREEN_HEIGHT \<equiv> 768"
abbreviation (input) PLAYER_GRAVITY :: real where "PLAYER_GRAVITY \<equiv> 0.8"
abbreviation (input) BALL_GRAVITY :: real where "BALL_GRAVITY \<equiv> 0.4"
abbreviation (input) BALL_BOUNCE_DAMPING :: real where "BALL_BOUNCE_DAMPING \<equiv> 1"
abbreviation (input) GROUND_LEVEL :: int where "GROUND_LEVEL \<equiv> SCREEN_HEIGHT - 50"
abbreviation (input) PLAYER_RADIUS :: real where "PLAYER_RADIUS \<equiv> 50"
abbreviation (input) BALL_RADIUS :: real where "BALL_RADIUS \<equiv> 35"
abbreviation (input) PLAYER_MOVE_SPEED :: real where "PLAYER_MOVE_SPEED \<equiv> 4"
abbreviation (input) PLAYER_JUMP_FORCE :: real where "PLAYER_JUMP_FORCE \<equiv> - 12"
abbreviation (input) PLAYER_MAX_VELOCITY_Y :: real where "PLAYER_MAX_VELOCITY_Y \<equiv> 15"
abbreviation (input) BALL_MAX_SPEED :: real where "BALL_MAX_SPEED \<equiv> 15"
abbreviation (input) NET_X :: int where "NET_X \<equiv> SCREEN_WIDTH div 2"
abbreviation (input) NET_HEIGHT :: real where "NET_HEIGHT \<equiv> 140"
abbreviation (input) NET_WIDTH :: real where "NET_WIDTH \<equiv> 10"
abbreviation (input) WIN_SCORE :: int where "WIN_SCORE \<equiv> 10"
abbreviation (input) TRAIL_LENGTH :: nat where "TRAIL_LENGTH \<equiv> 3"
abbreviation (input) AI_REACTION_DISTANCE :: real where "AI_REACTION_DISTANCE \<equiv> 150"
abbreviation (input) AI_JUMP_THRESHOLD :: real where "AI_JUMP_THRESHOLD \<equiv> 60"
abbreviation (input) AI_POSITION_TOLERANCE :: real where "AI_POSITION_TOLERANCE \<equiv> 20"
abbreviation (input) AI_JUMP_COOLDOWN :: int where "AI_JUMP_COOLDOWN \<equiv> 30"
abbreviation (input) MAX_PARTICLES :: nat where "MAX_PARTICLES \<equiv> 100"
abbreviation (input) SCORE_DELAY_FRAMES :: int where "SCORE_DELAY_FRAMES \<equiv> 120"

subsection \<open>Types (lines 69-112) and the global variables (lines 122-154)\<close>

datatype GameState = MENU | PLAYING | GAMEOVER | CREDITS

datatype GameMode = SINGLE_PLAYER | TWO_PLAYER

datatype PlayerSide = LEFT | RIGHT

record Vector2 =
  x :: real
  y :: real

text \<open>
  \<^verbatim>\<open>Player\<close>, \<^verbatim>\<open>Ball\<close> and \<^verbatim>\<open>Particle\<close> all start with \<^verbatim>\<open>position\<close> and
  \<^verbatim>\<open>velocity\<close>, and the first two continue with \<^verbatim>\<open>radius\<close>. The shared fields
  are parent records, so each field keeps the one name it has in the source.
\<close>

record Body =
  position :: Vector2
  velocity :: Vector2

record Circle = Body +
  radius :: real

record Player = Circle +
  side :: PlayerSide
  score :: int
  onGround :: bool

record Ball = Circle +
  trail :: "Vector2 list"
  trailCount :: int
  rotation :: real

record Particle = Body +
  alpha :: real
  life :: real
  active :: bool

record Game =
  gameState :: GameState
  gameMode :: GameMode
  pause :: bool
  framesCounter :: int
  player1 :: Player
  player2 :: Player
  ball :: Ball
  particles :: "Particle list"
  aiJumpCooldown :: int
  servingSide :: PlayerSide
  scoreDelayTimer :: int
  menuSelection :: int
  creditsScroll :: real
  shouldExitGame :: bool
  matchTimer :: int

text \<open>
  What one frame reads from raylib. \<open>random_ai\<close> is the value of
  \<^verbatim>\<open>GetRandomValue(0, 100)\<close> in \<^verbatim>\<open>UpdateAI\<close>; \<open>random_particle i\<close> holds the three
  values \<^verbatim>\<open>GetRandomValue(-60, -120)\<close>, \<^verbatim>\<open>GetRandomValue(2, 6)\<close> and
  \<^verbatim>\<open>GetRandomValue(0, 1)\<close> drawn for the \<open>i\<close>-th particle of a burst.
\<close>

record Input =
  KEY_A_down :: bool
  KEY_D_down :: bool
  KEY_W_pressed :: bool
  KEY_LEFT_down :: bool
  KEY_RIGHT_down :: bool
  KEY_UP_pressed :: bool
  KEY_DOWN_pressed :: bool
  KEY_ENTER_pressed :: bool
  KEY_P_pressed :: bool
  KEY_ESCAPE_pressed :: bool
  random_ai :: int
  random_particle :: "nat \<Rightarrow> int \<times> int \<times> int"

subsection \<open>The two raylib collision tests\<close>

text \<open>
  Modelled from the spec: \<^verbatim>\<open>CheckCollisionCircles\<close> belongs to raylib and is not under
  src/; the spec calls it the circle-circle intersection test. Two circles intersect when
  the squared distance of their centres is at most the square of the sum of the radii.
\<close>

definition CheckCollisionCircles :: "Vector2 \<Rightarrow> real \<Rightarrow> Vector2 \<Rightarrow> real \<Rightarrow> bool" where
  "CheckCollisionCircles center1 radius1 center2 radius2 =
     ((x center2 - x center1) * (x center2 - x center1)
        + (y center2 - y center1) * (y center2 - y center1)
      \<le> (radius1 + radius2) * (radius1 + radius2))"

record Rectangle =
  rec_x :: real
  rec_y :: real
  width :: real
  height :: real

text \<open>
  Modelled from the spec: \<^verbatim>\<open>CheckCollisionCircleRec\<close> belongs to raylib and is not under
  src/; the spec calls it the circle-rectangle intersection test. The circle is compared
  with the rectangle through the distances of its centre from the rectangle's centre: too
  far on one axis is a miss, within the half extent on one axis is a hit, and otherwise the
  nearest corner decides.
\<close>

definition CheckCollisionCircleRec :: "Vector2 \<Rightarrow> real \<Rightarrow> Rectangle \<Rightarrow> bool" where
  "CheckCollisionCircleRec center r rec =
     (let dx = \<bar>x center - (rec_x rec + width rec / 2)\<bar>;
          dy = \<bar>y center - (rec_y rec + height rec / 2)\<bar>
      in if dx > width rec / 2 + r then False
         else if dy > height rec / 2 + r then False
         else if dx \<le> width rec / 2 then True
         else if dy \<le> height rec / 2 then True
         else (dx - width rec / 2) * (dx - width rec / 2)
                + (dy - height rec / 2) * (dy - height rec / 2) \<le> r * r)"

subsection \<open>\<^verbatim>\<open>ResetBall\<close> (lines 284-299) and \<^verbatim>\<open>InitGame\<close> (lines 230-263)\<close>

definition ResetBall :: "Game \<Rightarrow> Game" where
  "ResetBall g =
     g\<lparr>ball := (ball g)
        \<lparr>position :=
           (if servingSide g = LEFT
            then \<lparr>x = real_of_int (SCREEN_WIDTH div 4), y = 100\<rparr>
            else \<lparr>x = real_of_int (SCREEN_WIDTH * 3 div 4), y = 100\<rparr>),
         velocity := \<lparr>x = 0, y = 0\<rparr>,
         trailCount := 0,
         rotation := 0\<rparr>\<rparr>"

text \<open>The zero-initialised statics (\<^verbatim>\<open>= { 0 }\<close>) that \<^verbatim>\<open>InitGame\<close> starts from.\<close>

definition zero_Vector2 :: Vector2 where
  "zero_Vector2 = \<lparr>x = 0, y = 0\<rparr>"

definition zero_Particle :: Particle where
  "zero_Particle =
     \<lparr>position = zero_Vector2, velocity = zero_Vector2, alpha = 0, life = 0, active = False\<rparr>"

definition zero_Ball :: Ball where
  "zero_Ball =
     \<lparr>position = zero_Vector2, velocity = zero_Vector2, radius = 0,
      trail = replicate TRAIL_LENGTH zero_Vector2, trailCount = 0, rotation = 0\<rparr>"

definition InitGame :: Game where
  "InitGame = ResetBall
     \<lparr>gameState = MENU,
      gameMode = SINGLE_PLAYER,
      pause = False,
      framesCounter = 0,
      player1 =
        \<lparr>position = \<lparr>x = real_of_int (SCREEN_WIDTH div 4),
                      y = real_of_int GROUND_LEVEL - PLAYER_RADIUS\<rparr>,
         velocity = \<lparr>x = 0, y = 0\<rparr>, radius = PLAYER_RADIUS,
         side = LEFT, score = 0, onGround = True\<rparr>,
      player2 =
        \<lparr>position = \<lparr>x = real_of_int (SCREEN_WIDTH * 3 div 4),
                      y = real_of_int GROUND_LEVEL - PLAYER_RADIUS\<rparr>,
         velocity = \<lparr>x = 0, y = 0\<rparr>, radius = PLAYER_RADIUS,
         side = RIGHT, score = 0, onGround = True\<rparr>,
      ball = zero_Ball\<lparr>radius := BALL_RADIUS, trailCount := 0\<rparr>,
      particles = replicate MAX_PARTICLES zero_Particle,
      aiJumpCooldown = 0,
      servingSide = LEFT,
      scoreDelayTimer = 0,
      menuSelection = 0,
      creditsScroll = 0,
      shouldExitGame = False,
      matchTimer = 0\<rparr>"

subsection \<open>\<^verbatim>\<open>UpdatePlayerControls\<close> (lines 302-374)\<close>

text \<open>Lines 305-318 and 342-355: the two direction keys of one player.\<close>

definition move_keys :: "bool \<Rightarrow> bool \<Rightarrow> Player \<Rightarrow> Player" where
  "move_keys left right p =
     (if left then
        p\<lparr>position := (position p)\<lparr>x := x (position p) - PLAYER_MOVE_SPEED\<rparr>,
          velocity := (velocity p)\<lparr>x := - PLAYER_MOVE_SPEED\<rparr>\<rparr>
      else if right then
        p\<lparr>position := (position p)\<lparr>x := x (position p) + PLAYER_MOVE_SPEED\<rparr>,
          velocity := (velocity p)\<lparr>x := PLAYER_MOVE_SPEED\<rparr>\<rparr>
      else p\<lparr>velocity := (velocity p)\<lparr>x := 0\<rparr>\<rparr>)"

text \<open>Lines 321-327 and 357-362: the jump key.\<close>

definition jump_key :: "bool \<Rightarrow> Player \<Rightarrow> Player" where
  "jump_key pressed p =
     (if pressed \<and> onGround p
      then p\<lparr>velocity := (velocity p)\<lparr>y := PLAYER_JUMP_FORCE\<rparr>, onGround := False\<rparr>
      else p)"

text \<open>Lines 330-337: keep player 1 left of the net.\<close>

definition keep_left_side :: "Player \<Rightarrow> Player" where
  "keep_left_side p =
     (let p1 = (if x (position p) - radius p < 0
                then p\<lparr>position := (position p)\<lparr>x := radius p\<rparr>\<rparr> else p)
      in if x (position p1) + radius p1 > real_of_int NET_X - NET_WIDTH / 2
         then p1\<lparr>position := (position p1)\<lparr>x := real_of_int NET_X - NET_WIDTH / 2 - radius p1\<rparr>\<rparr>
         else p1)"

text \<open>Lines 365-372 and, again, 422-429: keep player 2 right of the net.\<close>

definition keep_right_side :: "Player \<Rightarrow> Player" where
  "keep_right_side p =
     (let p1 = (if x (position p) - radius p < real_of_int NET_X + NET_WIDTH / 2
                then p\<lparr>position := (position p)\<lparr>x := real_of_int NET_X + NET_WIDTH / 2 + radius p\<rparr>\<rparr>
                else p)
      in if x (position p1) + radius p1 > real_of_int SCREEN_WIDTH
         then p1\<lparr>position := (position p1)\<lparr>x := real_of_int SCREEN_WIDTH - radius p1\<rparr>\<rparr>
         else p1)"

definition UpdatePlayerControls :: "Input \<Rightarrow> Game \<Rightarrow> Game" where
  "UpdatePlayerControls inp g =
     (let g1 = g\<lparr>player1 :=
                  keep_left_side (jump_key (KEY_W_pressed inp)
                    (move_keys (KEY_A_down inp) (KEY_D_down inp) (player1 g)))\<rparr>
      in if gameMode g1 = TWO_PLAYER
         then g1\<lparr>player2 :=
                  keep_right_side (jump_key (KEY_UP_pressed inp)
                    (move_keys (KEY_LEFT_down inp) (KEY_RIGHT_down inp) (player2 g1)))\<rparr>
         else g1)"

subsection \<open>\<^verbatim>\<open>UpdateAI\<close> (lines 377-450)\<close>

text \<open>Line 380.\<close>

definition ai_cooldown :: "Game \<Rightarrow> Game" where
  "ai_cooldown g =
     (if aiJumpCooldown g > 0 then g\<lparr>aiJumpCooldown := aiJumpCooldown g - 1\<rparr> else g)"

text \<open>Lines 383-384.\<close>

definition ballComingToward :: "Game \<Rightarrow> bool" where
  "ballComingToward g =
     ((x (velocity (ball g)) > 0 \<and> x (position (ball g)) < real_of_int NET_X)
      \<or> x (position (ball g)) \<ge> real_of_int NET_X)"

text \<open>Lines 388-398: the branch taken when the ball is not coming.\<close>

definition ai_return_to_center :: "Player \<Rightarrow> Player" where
  "ai_return_to_center p =
     (let targetX = real_of_int (NET_X + (SCREEN_WIDTH - NET_X) div 2);
          p1 = (if x (position p) < targetX - AI_POSITION_TOLERANCE
                then p\<lparr>position := (position p)\<lparr>x := x (position p) + PLAYER_MOVE_SPEED * 0.6\<rparr>\<rparr>
                else if x (position p) > targetX + AI_POSITION_TOLERANCE
                then p\<lparr>position := (position p)\<lparr>x := x (position p) - PLAYER_MOVE_SPEED * 0.6\<rparr>\<rparr>
                else p)
      in p1\<lparr>velocity := (velocity p1)\<lparr>x := 0\<rparr>\<rparr>)"

text \<open>Lines 406-419: move toward the ball's x.\<close>

definition ai_chase :: "real \<Rightarrow> Player \<Rightarrow> Player" where
  "ai_chase distanceX p =
     (if distanceX < - AI_POSITION_TOLERANCE then
        p\<lparr>position := (position p)\<lparr>x := x (position p) - PLAYER_MOVE_SPEED * 0.8\<rparr>,
          velocity := (velocity p)\<lparr>x := - PLAYER_MOVE_SPEED * 0.8\<rparr>\<rparr>
      else if distanceX > AI_POSITION_TOLERANCE then
        p\<lparr>position := (position p)\<lparr>x := x (position p) + PLAYER_MOVE_SPEED * 0.8\<rparr>,
          velocity := (velocity p)\<lparr>x := PLAYER_MOVE_SPEED * 0.8\<rparr>\<rparr>
      else p\<lparr>velocity := (velocity p)\<lparr>x := 0\<rparr>\<rparr>)"

text \<open>Lines 432-449: the jump decision; \<open>rnd\<close> is \<^verbatim>\<open>GetRandomValue(0, 100)\<close>.\<close>

definition ai_jump :: "int \<Rightarrow> real \<Rightarrow> Game \<Rightarrow> Game" where
  "ai_jump rnd distanceX g =
     (let distanceY = y (position (player2 g)) - y (position (ball g));
          horizontalDist = \<bar>distanceX\<bar>;
          shouldJump = (horizontalDist < AI_REACTION_DISTANCE
                        \<and> distanceY > - AI_JUMP_THRESHOLD
                        \<and> distanceY < 100
                        \<and> aiJumpCooldown g = 0
                        \<and> onGround (player2 g))
      in if shouldJump \<and> rnd > 20
         then g\<lparr>player2 := (player2 g)
                  \<lparr>velocity := (velocity (player2 g))\<lparr>y := PLAYER_JUMP_FORCE * 0.9\<rparr>,
                   onGround := False\<rparr>,
                aiJumpCooldown := AI_JUMP_COOLDOWN\<rparr>
         else g)"

definition UpdateAI :: "int \<Rightarrow> Game \<Rightarrow> Game" where
  "UpdateAI rnd g =
     (let g1 = ai_cooldown g
      in if \<not> ballComingToward g1
         then g1\<lparr>player2 := ai_return_to_center (player2 g1)\<rparr>
         else (let distanceX = x (position (ball g1)) - x (position (player2 g1))
               in ai_jump rnd distanceX
                    (g1\<lparr>player2 := keep_right_side (ai_chase distanceX (player2 g1))\<rparr>)))"

subsection \<open>\<^verbatim>\<open>UpdateBallTrail\<close> (lines 453-466)\<close>

text \<open>The loop \<^verbatim>\<open>for (i = TRAIL_LENGTH - 1; i > 0; i--) trail[i] = trail[i - 1]\<close>.\<close>

fun shift_trail :: "nat \<Rightarrow> Vector2 list \<Rightarrow> Vector2 list" where
  "shift_trail 0 t = t"
| "shift_trail (Suc i) t = shift_trail i (t[Suc i := t ! i])"

definition UpdateBallTrail :: "Ball \<Rightarrow> Ball" where
  "UpdateBallTrail b =
     (let b1 = b\<lparr>trail := (shift_trail (TRAIL_LENGTH - 1) (trail b))[0 := position b]\<rparr>
      in if trailCount b1 < int TRAIL_LENGTH then b1\<lparr>trailCount := trailCount b1 + 1\<rparr> else b1)"

subsection \<open>The particle system (lines 1320-1372)\<close>

text \<open>
  Lines 1329-1341: what a claimed slot is set to. \<^verbatim>\<open>DEG2RAD\<close> is \<open>pi / 180\<close>; the
  triple holds the three random values.
\<close>

definition new_particle :: "Vector2 \<Rightarrow> int \<times> int \<times> int \<Rightarrow> Particle \<Rightarrow> Particle" where
  "new_particle pos rnd p =
     (case rnd of (a, s, m) \<Rightarrow>
        (let angle = real_of_int a * (pi / 180); speed = real_of_int s
         in p\<lparr>active := True, position := pos,
              velocity := \<lparr>x = cos angle * speed * (if m \<noteq> 0 then 1 else - 1),
                            y = sin angle * speed\<rparr>,
              alpha := 1, life := 1\<rparr>))"

text \<open>
  The inner loop, lines 1325-1345, from slot \<open>j\<close> on: the index of the first inactive
  slot, or \<open>None\<close> when the scan reaches \<^verbatim>\<open>MAX_PARTICLES\<close>.
\<close>

function find_inactive :: "Particle list \<Rightarrow> nat \<Rightarrow> nat option" where
  "find_inactive ps j =
     (if j < MAX_PARTICLES
      then (if \<not> active (ps ! j) then Some j else find_inactive ps (j + 1))
      else None)"
  by pat_completeness auto
termination
  by (relation "measure (\<lambda>(ps, j). MAX_PARTICLES - j)") auto

declare find_inactive.simps [simp del]

text \<open>The outer loop, lines 1322-1346, from iteration \<open>i\<close> on.\<close>

function spawn_loop ::
  "Vector2 \<Rightarrow> int \<Rightarrow> (nat \<Rightarrow> int \<times> int \<times> int) \<Rightarrow> nat \<Rightarrow> Particle list \<Rightarrow> Particle list" where
  "spawn_loop pos count rnd i ps =
     (if int i < count \<and> i < MAX_PARTICLES
      then spawn_loop pos count rnd (i + 1)
             (case find_inactive ps 0 of
                Some j \<Rightarrow> ps[j := new_particle pos (rnd i) (ps ! j)]
              | None \<Rightarrow> ps)
      else ps)"
  by pat_completeness auto
termination
  by (relation "measure (\<lambda>(pos, count, rnd, i, ps). MAX_PARTICLES - i)") auto

declare spawn_loop.simps [simp del]

definition SpawnGroundParticles ::
  "Vector2 \<Rightarrow> int \<Rightarrow> (nat \<Rightarrow> int \<times> int \<times> int) \<Rightarrow> Game \<Rightarrow> Game" where
  "SpawnGroundParticles pos count rnd g = g\<lparr>particles := spawn_loop pos count rnd 0 (particles g)\<rparr>"

text \<open>Lines 1354-1370: the body of the update loop, for one slot.\<close>

definition update_particle :: "Particle \<Rightarrow> Particle" where
  "update_particle p =
     (if active p then
        (let p1 = p\<lparr>velocity := (velocity p)\<lparr>y := y (velocity p) + 0.3\<rparr>\<rparr>;
             p2 = p1\<lparr>position := \<lparr>x = x (position p1) + x (velocity p1),
                                   y = y (position p1) + y (velocity p1)\<rparr>\<rparr>;
             p3 = p2\<lparr>life := life p2 - 0.02\<rparr>;
             p4 = p3\<lparr>alpha := life p3\<rparr>
         in if life p4 \<le> 0 \<or> y (position p4) > real_of_int (GROUND_LEVEL + 20)
            then p4\<lparr>active := False\<rparr> else p4)
      else p)"

text \<open>The loop of \<^verbatim>\<open>UpdateParticles\<close>, lines 1352-1371, from slot \<open>i\<close> on.\<close>

function update_loop :: "nat \<Rightarrow> Particle list \<Rightarrow> Particle list" where
  "update_loop i ps =
     (if i < MAX_PARTICLES then update_loop (i + 1) (ps[i := update_particle (ps ! i)]) else ps)"
  by pat_completeness auto
termination
  by (relation "measure (\<lambda>(i, ps). MAX_PARTICLES - i)") auto

declare update_loop.simps [simp del]

definition UpdateParticles :: "Game \<Rightarrow> Game" where
  "UpdateParticles g = g\<lparr>particles := update_loop 0 (particles g)\<rparr>"

subsection \<open>\<^verbatim>\<open>UpdateGame\<close>, the \<^verbatim>\<open>PLAYING\<close> case (lines 556-848)\<close>

text \<open>
  The body of \<^verbatim>\<open>if (!pause)\<close> is one long sequence of blocks. Each block is a
  function of its own here, named after what the block's comment says, and
  \<open>playing_frame\<close> below runs them in the order of the source.
\<close>

text \<open>
  Lines 589-624 for one player: add the velocity to the position, add gravity, clamp the
  fall speed, land on the ground. The source interleaves the two players statement by
  statement; no statement of one player reads the other.
\<close>

definition player_integrate :: "Player \<Rightarrow> Player" where
  "player_integrate p =
     p\<lparr>position := \<lparr>x = x (position p) + x (velocity p),
                     y = y (position p) + y (velocity p)\<rparr>\<rparr>"

definition player_gravity :: "Player \<Rightarrow> Player" where
  "player_gravity p =
     (let p1 = p\<lparr>velocity := (velocity p)\<lparr>y := y (velocity p) + PLAYER_GRAVITY\<rparr>\<rparr>
      in if y (velocity p1) > PLAYER_MAX_VELOCITY_Y
         then p1\<lparr>velocity := (velocity p1)\<lparr>y := PLAYER_MAX_VELOCITY_Y\<rparr>\<rparr>
         else p1)"

definition player_ground :: "Player \<Rightarrow> Player" where
  "player_ground p =
     (if y (position p) + radius p \<ge> real_of_int GROUND_LEVEL
      then p\<lparr>position := (position p)\<lparr>y := real_of_int GROUND_LEVEL - radius p\<rparr>,
             velocity := (velocity p)\<lparr>y := 0\<rparr>,
             onGround := True\<rparr>
      else p\<lparr>onGround := False\<rparr>)"

definition player_physics :: "Player \<Rightarrow> Player" where
  "player_physics p = player_ground (player_gravity (player_integrate p))"

definition players_physics :: "Game \<Rightarrow> Game" where
  "players_physics g =
     g\<lparr>player1 := player_physics (player1 g), player2 := player_physics (player2 g)\<rparr>"

text \<open>Lines 627-634: the score delay timer.\<close>

definition score_delay :: "Game \<Rightarrow> Game" where
  "score_delay g =
     (if scoreDelayTimer g > 0
      then (let g1 = g\<lparr>scoreDelayTimer := scoreDelayTimer g - 1\<rparr>
            in if scoreDelayTimer g1 = 0 then ResetBall g1 else g1)
      else g)"

text \<open>
  Lines 637-652: ball integration, gravity, rotation, and the trail on every second
  frame.
\<close>

definition ball_integrate :: "Ball \<Rightarrow> Ball" where
  "ball_integrate b =
     (let b1 = b\<lparr>position := \<lparr>x = x (position b) + x (velocity b),
                               y = y (position b) + y (velocity b)\<rparr>\<rparr>
      in b1\<lparr>velocity := (velocity b1)\<lparr>y := y (velocity b1) + BALL_GRAVITY\<rparr>\<rparr>)"

definition ball_rotate :: "Ball \<Rightarrow> Ball" where
  "ball_rotate b =
     (let speed = sqrt (x (velocity b) * x (velocity b))
      in b\<lparr>rotation := rotation b + (speed / radius b) * 35\<rparr>)"

definition ball_physics :: "Game \<Rightarrow> Game" where
  "ball_physics g =
     (let g1 = g\<lparr>ball := ball_rotate (ball_integrate (ball g))\<rparr>
      in if framesCounter g1 mod 2 = 0 then g1\<lparr>ball := UpdateBallTrail (ball g1)\<rparr> else g1)"

text \<open>Lines 655-671: left wall, right wall, ceiling.\<close>

definition ball_walls :: "Ball \<Rightarrow> Ball" where
  "ball_walls b =
     (let b1 = (if x (position b) - radius b \<le> 0
                then b\<lparr>position := (position b)\<lparr>x := radius b\<rparr>,
                       velocity := (velocity b)\<lparr>x := x (velocity b) * (- BALL_BOUNCE_DAMPING)\<rparr>\<rparr>
                else b);
          b2 = (if x (position b1) + radius b1 \<ge> real_of_int SCREEN_WIDTH
                then b1\<lparr>position := (position b1)\<lparr>x := real_of_int SCREEN_WIDTH - radius b1\<rparr>,
                        velocity := (velocity b1)\<lparr>x := x (velocity b1) * (- BALL_BOUNCE_DAMPING)\<rparr>\<rparr>
                else b1)
      in if y (position b2) - radius b2 \<le> 0
         then b2\<lparr>position := (position b2)\<lparr>y := radius b2\<rparr>,
                 velocity := (velocity b2)\<lparr>y := y (velocity b2) * (- BALL_BOUNCE_DAMPING)\<rparr>\<rparr>
         else b2)"

text \<open>Lines 674-697: the net.\<close>

definition netRect :: Rectangle where
  "netRect = \<lparr>rec_x = real_of_int NET_X - NET_WIDTH / 2,
              rec_y = real_of_int GROUND_LEVEL - NET_HEIGHT,
              width = NET_WIDTH, height = NET_HEIGHT\<rparr>"

definition ball_net :: "Ball \<Rightarrow> Ball" where
  "ball_net b =
     (if CheckCollisionCircleRec (position b) (radius b) netRect
      then (let b1 = b\<lparr>velocity := \<lparr>x = x (velocity b) * (- BALL_BOUNCE_DAMPING),
                                     y = y (velocity b) * 0.9\<rparr>\<rparr>
            in if x (position b1) < real_of_int NET_X
               then b1\<lparr>position := (position b1)\<lparr>x := rec_x netRect - radius b1\<rparr>\<rparr>
               else b1\<lparr>position := (position b1)\<lparr>x := rec_x netRect + width netRect + radius b1\<rparr>\<rparr>)
      else b)"

text \<open>
  Lines 703-749 (player 1) and 756-802 (player 2) are the same block with the other
  player. Its statements, in order:
\<close>

text \<open>Lines 704-715: the normal from the player's centre to the ball's, normalised
  unless its length is zero.\<close>

definition collision_normal :: "Player \<Rightarrow> Ball \<Rightarrow> Vector2" where
  "collision_normal p b =
     (let normal = \<lparr>x = x (position b) - x (position p), y = y (position b) - y (position p)\<rparr>;
          length = sqrt (x normal * x normal + y normal * y normal)
      in if length > 0 then \<lparr>x = x normal / length, y = y normal / length\<rparr> else normal)"

text \<open>Lines 718-720: reflect the velocity.\<close>

definition reflect_velocity :: "Vector2 \<Rightarrow> Ball \<Rightarrow> Ball" where
  "reflect_velocity normal b =
     (let dotProduct = x (velocity b) * x normal + y (velocity b) * y normal
      in b\<lparr>velocity := \<lparr>x = x (velocity b) - 2 * dotProduct * x normal,
                         y = y (velocity b) - 2 * dotProduct * y normal\<rparr>\<rparr>)"

text \<open>Lines 723-724: the energy loss.\<close>

definition energy_loss :: "Ball \<Rightarrow> Ball" where
  "energy_loss b = b\<lparr>velocity := \<lparr>x = x (velocity b) * 0.95, y = y (velocity b) * 0.95\<rparr>\<rparr>"

text \<open>Lines 727-734: the player's velocity influence and the boost of a jumping blob.\<close>

definition velocity_influence :: "Player \<Rightarrow> Ball \<Rightarrow> Ball" where
  "velocity_influence p b =
     (let b1 = b\<lparr>velocity := \<lparr>x = x (velocity b) + x (velocity p) * 0.7,
                               y = y (velocity b) + y (velocity p) * 0.5\<rparr>\<rparr>
      in if y (velocity p) < - 5
         then b1\<lparr>velocity := (velocity b1)\<lparr>y := y (velocity b1) - 3\<rparr>\<rparr>
         else b1)"

text \<open>Lines 737-743: clamp the ball speed. Like every other float computation of the
  embedding this is the exact arithmetic of the expressions; \<open>clamp_speed_fl\<close> below is
  the same block with the rounding of the float format.\<close>

definition clamp_speed :: "Ball \<Rightarrow> Ball" where
  "clamp_speed b =
     (let speed = sqrt (x (velocity b) * x (velocity b) + y (velocity b) * y (velocity b))
      in if speed > BALL_MAX_SPEED
         then b\<lparr>velocity := \<lparr>x = (x (velocity b) / speed) * BALL_MAX_SPEED,
                              y = (y (velocity b) / speed) * BALL_MAX_SPEED\<rparr>\<rparr>
         else b)"

text \<open>Lines 746-747: push the ball out of the blob.\<close>

definition push_out :: "Player \<Rightarrow> Vector2 \<Rightarrow> Ball \<Rightarrow> Ball" where
  "push_out p normal b =
     b\<lparr>position := \<lparr>x = x (position p) + x normal * (radius p + radius b),
                     y = y (position p) + y normal * (radius p + radius b)\<rparr>\<rparr>"

definition player_ball_collision :: "Player \<Rightarrow> Ball \<Rightarrow> Ball" where
  "player_ball_collision p b =
     (let normal = collision_normal p b
      in push_out p normal
           (clamp_speed (velocity_influence p (energy_loss (reflect_velocity normal b)))))"

text \<open>Lines 700-750 and 753-803: the guarded blocks.\<close>

definition ball_player1 :: "Game \<Rightarrow> Game" where
  "ball_player1 g =
     (if scoreDelayTimer g = 0
         \<and> CheckCollisionCircles (position (ball g)) (radius (ball g))
              (position (player1 g)) (radius (player1 g))
      then g\<lparr>ball := player_ball_collision (player1 g) (ball g)\<rparr>
      else g)"

definition ball_player2 :: "Game \<Rightarrow> Game" where
  "ball_player2 g =
     (if scoreDelayTimer g = 0
         \<and> CheckCollisionCircles (position (ball g)) (radius (ball g))
              (position (player2 g)) (radius (player2 g))
      then g\<lparr>ball := player_ball_collision (player2 g) (ball g)\<rparr>
      else g)"

text \<open>Lines 819-844: who scored, and whether the match is over.\<close>

definition process_score :: "Game \<Rightarrow> Game" where
  "process_score g =
     (let g1 = (if x (position (ball g)) < real_of_int NET_X
                then g\<lparr>player2 := (player2 g)\<lparr>score := score (player2 g) + 1\<rparr>,
                       servingSide := RIGHT\<rparr>
                else g\<lparr>player1 := (player1 g)\<lparr>score := score (player1 g) + 1\<rparr>,
                       servingSide := LEFT\<rparr>)
      in if score (player1 g1) \<ge> WIN_SCORE \<or> score (player2 g1) \<ge> WIN_SCORE
         then g1\<lparr>gameState := GAMEOVER\<rparr>
         else g1\<lparr>scoreDelayTimer := SCORE_DELAY_FRAMES\<rparr>)"

text \<open>
  Lines 806-846: the ball on the ground. The bounce (lines 809-810), the particle burst
  at the impact point (lines 813-814) and the scoring, which is skipped during the score
  delay (lines 817-845).
\<close>

definition ground_bounce :: "Game \<Rightarrow> Game" where
  "ground_bounce g =
     g\<lparr>ball := (ball g)
        \<lparr>position := (position (ball g))\<lparr>y := real_of_int GROUND_LEVEL - radius (ball g)\<rparr>,
         velocity := (velocity (ball g))\<lparr>y := y (velocity (ball g)) * (- BALL_BOUNCE_DAMPING)\<rparr>\<rparr>\<rparr>"

definition ground_particles :: "(nat \<Rightarrow> int \<times> int \<times> int) \<Rightarrow> Game \<Rightarrow> Game" where
  "ground_particles rnd g =
     SpawnGroundParticles \<lparr>x = x (position (ball g)), y = real_of_int GROUND_LEVEL\<rparr> 15 rnd g"

definition score_unless_delay :: "Game \<Rightarrow> Game" where
  "score_unless_delay g = (if scoreDelayTimer g = 0 then process_score g else g)"

definition ball_ground :: "(nat \<Rightarrow> int \<times> int \<times> int) \<Rightarrow> Game \<Rightarrow> Game" where
  "ball_ground rnd g =
     (if y (position (ball g)) + radius (ball g) \<ge> real_of_int GROUND_LEVEL
      then score_unless_delay (ground_particles rnd (ground_bounce g))
      else g)"

text \<open>
  Lines 574-803: everything of an unpaused frame that comes before the ground check,
  block after block: first what comes before the two player-ball blocks (lines 574-697),
  then these two (lines 700-803). \<^verbatim>\<open>UpdateAI\<close> runs in single-player mode only (lines
  583-586); walls, ceiling and net (lines 655-697) touch the ball alone.
\<close>

definition count_match_time :: "Game \<Rightarrow> Game" where
  "count_match_time g = g\<lparr>matchTimer := matchTimer g + 1\<rparr>"

definition ai_if_single :: "Input \<Rightarrow> Game \<Rightarrow> Game" where
  "ai_if_single inp g = (if gameMode g = SINGLE_PLAYER then UpdateAI (random_ai inp) g else g)"

definition ball_walls_net :: "Game \<Rightarrow> Game" where
  "ball_walls_net g = g\<lparr>ball := ball_net (ball_walls (ball g))\<rparr>"

definition before_players :: "Input \<Rightarrow> Game \<Rightarrow> Game" where
  "before_players inp g =
     ball_walls_net (ball_physics (score_delay (players_physics
       (ai_if_single inp (UpdatePlayerControls inp (UpdateParticles (count_match_time g)))))))"

definition before_ground :: "Input \<Rightarrow> Game \<Rightarrow> Game" where
  "before_ground inp g = ball_player2 (ball_player1 (before_players inp g))"

definition playing_frame :: "Input \<Rightarrow> Game \<Rightarrow> Game" where
  "playing_frame inp g = ball_ground (random_particle inp) (before_ground inp g)"

text \<open>Lines 558-571: pause toggle, Escape, and the frame itself.\<close>

definition toggle_pause :: "Input \<Rightarrow> Game \<Rightarrow> Game" where
  "toggle_pause inp g = (if KEY_P_pressed inp then g\<lparr>pause := \<not> pause g\<rparr> else g)"

definition playing_case :: "Input \<Rightarrow> Game \<Rightarrow> Game" where
  "playing_case inp g =
     (if KEY_ESCAPE_pressed inp then (toggle_pause inp g)\<lparr>gameState := MENU, menuSelection := 0\<rparr>
      else if \<not> pause (toggle_pause inp g) then playing_frame inp (toggle_pause inp g)
      else toggle_pause inp g)"

subsection \<open>\<^verbatim>\<open>UpdateGame\<close>, the other cases (lines 514-554, 850-878) and the switch\<close>

text \<open>Lines 517-526: menu navigation.\<close>

definition menu_navigate :: "Input \<Rightarrow> Game \<Rightarrow> Game" where
  "menu_navigate inp g =
     (let g1 = (if KEY_UP_pressed inp
                then (let m = menuSelection g - 1 in g\<lparr>menuSelection := (if m < 0 then 3 else m)\<rparr>)
                else g)
      in if KEY_DOWN_pressed inp
         then (let m = menuSelection g1 + 1 in g1\<lparr>menuSelection := (if m > 3 then 0 else m)\<rparr>)
         else g1)"

text \<open>Lines 529-553: Enter starts a match, shows the credits, or exits.\<close>

definition menu_enter :: "Game \<Rightarrow> Game" where
  "menu_enter g =
     (if menuSelection g = 0 \<or> menuSelection g = 1 then
        ResetBall (g\<lparr>gameMode := (if menuSelection g = 0 then SINGLE_PLAYER else TWO_PLAYER),
                     gameState := PLAYING,
                     player1 := (player1 g)\<lparr>score := 0\<rparr>,
                     player2 := (player2 g)\<lparr>score := 0\<rparr>,
                     matchTimer := 0\<rparr>)
      else if menuSelection g = 2 then
        g\<lparr>gameState := CREDITS, creditsScroll := real_of_int SCREEN_HEIGHT\<rparr>
      else if menuSelection g = 3 then g\<lparr>shouldExitGame := True\<rparr>
      else g)"

definition menu_case :: "Input \<Rightarrow> Game \<Rightarrow> Game" where
  "menu_case inp g =
     (if KEY_ENTER_pressed inp then menu_enter (menu_navigate inp g) else menu_navigate inp g)"

definition gameover_case :: "Input \<Rightarrow> Game \<Rightarrow> Game" where
  "gameover_case inp g =
     (if KEY_ENTER_pressed inp
      then g\<lparr>gameState := MENU, menuSelection := 0,
             player1 := (player1 g)\<lparr>score := 0\<rparr>,
             player2 := (player2 g)\<lparr>score := 0\<rparr>,
             matchTimer := 0\<rparr>
      else g)"

definition credits_case :: "Input \<Rightarrow> Game \<Rightarrow> Game" where
  "credits_case inp g =
     (let g1 = g\<lparr>creditsScroll := creditsScroll g - 2\<rparr>;
          g2 = (if creditsScroll g1 \<le> - 800 then g1\<lparr>creditsScroll := - 800\<rparr> else g1)
      in if KEY_ENTER_pressed inp \<or> KEY_ESCAPE_pressed inp
         then g2\<lparr>gameState := MENU, menuSelection := 0\<rparr>
         else g2)"

text \<open>Line 471 and the \<^verbatim>\<open>switch\<close> of line 512.\<close>

definition count_frame :: "Game \<Rightarrow> Game" where
  "count_frame g = g\<lparr>framesCounter := framesCounter g + 1\<rparr>"

definition UpdateGame :: "Input \<Rightarrow> Game \<Rightarrow> Game" where
  "UpdateGame inp g =
     (case gameState (count_frame g) of
        MENU \<Rightarrow> menu_case inp (count_frame g)
      | PLAYING \<Rightarrow> playing_case inp (count_frame g)
      | GAMEOVER \<Rightarrow> gameover_case inp (count_frame g)
      | CREDITS \<Rightarrow> credits_case inp (count_frame g))"

text \<open>A run of frames, one input per frame.\<close>

fun run :: "Input list \<Rightarrow> Game \<Rightarrow> Game" where
  "run [] g = g"
| "run (inp # inps) g = run inps (UpdateGame inp g)"

subsection \<open>Notions for the statements\<close>

text \<open>
  A frame runs the simulation when the game is in \<^verbatim>\<open>PLAYING\<close>, Escape is not pressed and,
  after the pause key has been handled, the game is not paused. \<open>frame_start\<close> is the
  state such a frame hands to the body of \<^verbatim>\<open>if (!pause)\<close>.
\<close>

definition frame_runs :: "Input \<Rightarrow> Game \<Rightarrow> bool" where
  "frame_runs inp g =
     (gameState g = PLAYING \<and> \<not> KEY_ESCAPE_pressed inp \<and> \<not> pause (toggle_pause inp g))"

definition frame_start :: "Input \<Rightarrow> Game \<Rightarrow> Game" where
  "frame_start inp g = toggle_pause inp (count_frame g)"

text \<open>The ball as the ground check of line 806 finds it, and the test of that line.\<close>

definition ball_at_ground_check :: "Input \<Rightarrow> Game \<Rightarrow> Ball" where
  "ball_at_ground_check inp g = ball (before_ground inp (frame_start inp g))"

definition reaches_ground :: "Ball \<Rightarrow> bool" where
  "reaches_ground b = (y (position b) + radius b \<ge> real_of_int GROUND_LEVEL)"

text \<open>The magnitude of the ball's velocity: the exact value of the expression of line 737.\<close>

definition ball_speed :: "Ball \<Rightarrow> real" where
  "ball_speed b = sqrt (x (velocity b) * x (velocity b) + y (velocity b) * y (velocity b))"

text \<open>
  The scores of a match in progress: between 0 and \<^verbatim>\<open>WIN_SCORE\<close>, and below
  \<^verbatim>\<open>WIN_SCORE\<close> in every state but \<^verbatim>\<open>GAMEOVER\<close>.
\<close>

definition scores_in_play :: "Game \<Rightarrow> bool" where
  "scores_in_play g =
     (0 \<le> score (player1 g) \<and> score (player1 g) \<le> WIN_SCORE
      \<and> 0 \<le> score (player2 g) \<and> score (player2 g) \<le> WIN_SCORE
      \<and> (gameState g \<noteq> GAMEOVER \<longrightarrow>
            score (player1 g) < WIN_SCORE \<and> score (player2 g) < WIN_SCORE))"

text \<open>
  A blob that jumps from the ground with \<^verbatim>\<open>PLAYER_JUMP_FORCE\<close> and loses
  \<^verbatim>\<open>PLAYER_GRAVITY\<close> of its upward speed per frame stays far below the height at
  which the ball is served: its centre never rises above \<open>y = 488\<close>.
\<close>

definition jumps_from_ground :: "Player \<Rightarrow> bool" where
  "jumps_from_ground p =
     (radius p = PLAYER_RADIUS
      \<and> PLAYER_JUMP_FORCE \<le> y (velocity p)
      \<and> 488 \<le> y (position p) + 15 * min (y (velocity p)) 0
      \<and> (onGround p \<longrightarrow> real_of_int GROUND_LEVEL - PLAYER_RADIUS \<le> y (position p)))"

text \<open>The number of active slots of the particle pool.\<close>

definition active_count :: "Particle list \<Rightarrow> nat" where
  "active_count ps = length (filter active ps)"

definition inactive_count :: "Particle list \<Rightarrow> nat" where
  "inactive_count ps = length (filter (\<lambda>p. \<not> active p) ps)"

text \<open>\<^verbatim>\<open>UpdateAI\<close> frame after frame, one random value per frame.\<close>

fun ai_frames :: "int list \<Rightarrow> Game \<Rightarrow> Game" where
  "ai_frames [] g = g"
| "ai_frames (r # rs) g = ai_frames rs (UpdateAI r g)"

text \<open>The horizontal midpoint of the right half, line 389.\<close>

abbreviation (input) ai_targetX :: real where
  "ai_targetX \<equiv> real_of_int (NET_X + (SCREEN_WIDTH - NET_X) div 2)"

subsection \<open>Inputs and states of the examples\<close>

definition no_keys :: Input where
  "no_keys =
     \<lparr>KEY_A_down = False, KEY_D_down = False, KEY_W_pressed = False,
      KEY_LEFT_down = False, KEY_RIGHT_down = False, KEY_UP_pressed = False,
      KEY_DOWN_pressed = False, KEY_ENTER_pressed = False, KEY_P_pressed = False,
      KEY_ESCAPE_pressed = False, random_ai = 50, random_particle = (\<lambda>i. (- 90, 4, 1))\<rparr>"

definition hold_A :: Input where
  "hold_A = no_keys\<lparr>KEY_A_down := True\<rparr>"

definition hold_D :: Input where
  "hold_D = no_keys\<lparr>KEY_D_down := True\<rparr>"

text \<open>
  From the start of the program: Down selects the two-player entry of the menu and
  Enter starts the match.
\<close>

definition start_two_player :: Game where
  "start_two_player =
     run [no_keys\<lparr>KEY_DOWN_pressed := True\<rparr>, no_keys\<lparr>KEY_ENTER_pressed := True\<rparr>] InitGame"

text \<open>
  Player 1 then walks to the net and lets the served ball drop: in the 55th frame of
  the match it lands on the left half.
\<close>

definition before_first_landing :: Game where
  "before_first_landing = run (replicate 54 hold_D) start_two_player"

definition first_landing :: Game where
  "first_landing = UpdateGame hold_D before_first_landing"

definition hold_LEFT :: Input where
  "hold_LEFT = no_keys\<lparr>KEY_LEFT_down := True\<rparr>"

text \<open>
  A two-player state in which player 2, walking left at the net, meets the ball low at
  its side and pushes it out exactly onto the net centre line.
\<close>

definition centre_line_example :: Game where
  "centre_line_example =
     \<lparr>gameState = PLAYING, gameMode = TWO_PLAYER, pause = False, framesCounter = 700,
      player1 = \<lparr>position = \<lparr>x = 256, y = 668\<rparr>, velocity = \<lparr>x = 0, y = 0\<rparr>,
                 radius = 50, side = LEFT, score = 2, onGround = True\<rparr>,
      player2 = \<lparr>position = \<lparr>x = 567, y = 668\<rparr>, velocity = \<lparr>x = 0, y = 0\<rparr>,
                 radius = 50, side = RIGHT, score = 3, onGround = True\<rparr>,
      ball = \<lparr>position = \<lparr>x = 560, y = 672\<rparr>, velocity = \<lparr>x = 0, y = 0\<rparr>, radius = 35,
              trail = [\<lparr>x = 560, y = 672\<rparr>, \<lparr>x = 560, y = 672\<rparr>, \<lparr>x = 560, y = 672\<rparr>],
              trailCount = 3, rotation = 0\<rparr>,
      particles = replicate MAX_PARTICLES zero_Particle,
      aiJumpCooldown = 0, servingSide = RIGHT, scoreDelayTimer = 0, menuSelection = 1,
      creditsScroll = 0, shouldExitGame = False, matchTimer = 698\<rparr>"

text \<open>
  Match point for player 1 at 9 to 7: the ball is about to land on the right half, out
  of the reach of player 2.
\<close>

definition match_point_example :: Game where
  "match_point_example =
     \<lparr>gameState = PLAYING, gameMode = TWO_PLAYER, pause = False, framesCounter = 4000,
      player1 = \<lparr>position = \<lparr>x = 256, y = 668\<rparr>, velocity = \<lparr>x = 0, y = 0\<rparr>,
                 radius = 50, side = LEFT, score = 9, onGround = True\<rparr>,
      player2 = \<lparr>position = \<lparr>x = 900, y = 668\<rparr>, velocity = \<lparr>x = 0, y = 0\<rparr>,
                 radius = 50, side = RIGHT, score = 7, onGround = True\<rparr>,
      ball = \<lparr>position = \<lparr>x = 700, y = 675\<rparr>, velocity = \<lparr>x = 2, y = 12\<rparr>, radius = 35,
              trail = [\<lparr>x = 698, y = 663\<rparr>, \<lparr>x = 694, y = 640\<rparr>, \<lparr>x = 690, y = 618\<rparr>],
              trailCount = 3, rotation = 120\<rparr>,
      particles = replicate MAX_PARTICLES zero_Particle,
      aiJumpCooldown = 0, servingSide = LEFT, scoreDelayTimer = 0, menuSelection = 1,
      creditsScroll = 0, shouldExitGame = False, matchTimer = 3998\<rparr>"

text \<open>
  From the start of a two-player match with no key touched, the served ball drops onto
  the head of player 1: the 50th frame is the first in which they touch.
\<close>

definition before_first_hit :: Game where
  "before_first_hit = run (replicate 49 no_keys) start_two_player"

text \<open>
  The reflection law in the words of the specification: the distance of the two centres,
  the unit vector from the player's centre to the ball's centre, the dot product, the
  mirror formula \<open>v' = v - 2 (v \<cdot> n) n\<close>, and the ball that has the mirrored velocity.
\<close>

definition centre_distance :: "Player \<Rightarrow> Ball \<Rightarrow> real" where
  "centre_distance p b =
     sqrt ((x (position b) - x (position p)) * (x (position b) - x (position p))
           + (y (position b) - y (position p)) * (y (position b) - y (position p)))"

definition unit_normal :: "Player \<Rightarrow> Ball \<Rightarrow> Vector2" where
  "unit_normal p b =
     \<lparr>x = (x (position b) - x (position p)) / centre_distance p b,
      y = (y (position b) - y (position p)) / centre_distance p b\<rparr>"

definition dot_product :: "Vector2 \<Rightarrow> Vector2 \<Rightarrow> real" where
  "dot_product v n = x v * x n + y v * y n"

definition mirror :: "Vector2 \<Rightarrow> Vector2 \<Rightarrow> Vector2" where
  "mirror v n = \<lparr>x = x v - 2 * dot_product v n * x n, y = y v - 2 * dot_product v n * y n\<rparr>"

definition reflected :: "Player \<Rightarrow> Ball \<Rightarrow> Ball" where
  "reflected p b = b\<lparr>velocity := mirror (velocity b) (unit_normal p b)\<rparr>"

text \<open>
  The guards of the two player-ball blocks (lines 700-701 and 753-754), and the states
  that a frame hands to them: the player-1 block gets the state after the net collision,
  the player-2 block the state that the player-1 block leaves.
\<close>

definition player1_hits :: "Game \<Rightarrow> bool" where
  "player1_hits g =
     (scoreDelayTimer g = 0
      \<and> CheckCollisionCircles (position (ball g)) (radius (ball g))
           (position (player1 g)) (radius (player1 g)))"

definition player2_hits :: "Game \<Rightarrow> bool" where
  "player2_hits g =
     (scoreDelayTimer g = 0
      \<and> CheckCollisionCircles (position (ball g)) (radius (ball g))
           (position (player2 g)) (radius (player2 g)))"

definition at_player1_check :: "Input \<Rightarrow> Game \<Rightarrow> Game" where
  "at_player1_check inp g = before_players inp (frame_start inp g)"

definition at_player2_check :: "Input \<Rightarrow> Game \<Rightarrow> Game" where
  "at_player2_check inp g = ball_player1 (at_player1_check inp g)"

text \<open>
  The clamp of lines 737-743 with the rounding of float arithmetic. The source computes
  in \<^verbatim>\<open>float\<close>: the machine stores the result of every operation rounded. Here \<open>fl\<close> is
  that rounding, applied to the exact result of each operation of the source
  (\<^verbatim>\<open>BALL_MAX_SPEED\<close> is a float itself). \<open>speed_fl\<close> is the \<^verbatim>\<open>speed\<close> of line 737.
  With the identity for \<open>fl\<close> the two functions are \<open>ball_speed\<close> and \<open>clamp_speed\<close>.
\<close>

definition speed_fl :: "(real \<Rightarrow> real) \<Rightarrow> Ball \<Rightarrow> real" where
  "speed_fl fl b =
     fl (sqrt (fl (fl (x (velocity b) * x (velocity b)) + fl (y (velocity b) * y (velocity b)))))"

definition clamp_speed_fl :: "(real \<Rightarrow> real) \<Rightarrow> Ball \<Rightarrow> Ball" where
  "clamp_speed_fl fl b =
     (if speed_fl fl b > BALL_MAX_SPEED
      then b\<lparr>velocity := \<lparr>x = fl (fl (x (velocity b) / speed_fl fl b) * BALL_MAX_SPEED),
                           y = fl (fl (y (velocity b) / speed_fl fl b) * BALL_MAX_SPEED)\<rparr>\<rparr>
      else b)"

text \<open>
  What the binary32 format guarantees of its rounding, in every rounding mode: a result
  of magnitude up to ten million (far from overflow) is stored with an error of at most
  \<^verbatim>\<open>2^-23\<close> of its magnitude, or of at most \<^verbatim>\<open>2^-149\<close> where it is subnormal.
\<close>

definition binary32_accurate :: "(real \<Rightarrow> real) \<Rightarrow> bool" where
  "binary32_accurate fl =
     (\<forall>t. \<bar>t\<bar> \<le> 10000000 \<longrightarrow> \<bar>fl t - t\<bar> \<le> \<bar>t\<bar> / 2 ^ 23 + 1 / 2 ^ 149)"

text \<open>
  Rounding to the nearest binary32 number, on the numbers that the clamp meets for the
  velocity \<open>(10, -24)\<close>. The squares 100 and 576, their sum 676 and its root 26 are
  binary32 numbers and stay as they are. The quotients \<open>10 / 26\<close> and \<open>-24 / 26\<close> and
  the products of their rounded values with 15 are not, and go to their binary32
  neighbours; so do the numbers that line 737 would meet, were it run again on the clamped
  velocity: the two squares, their sum, and the root of the rounded sum (the first case).
\<close>

definition binary32_example :: "real \<Rightarrow> real" where
  "binary32_example t =
     (if 0 \<le> t \<and> t * t = 14745601 / 65536 then 15728641 / 1048576
      else if t = 5 / 13 then 12905551 / 33554432
      else if t = - (12 / 13) then - (15486661 / 16777216)
      else if t = 193583265 / 33554432 then 6049477 / 1048576
      else if t = - (232299915 / 16777216) then - (14518745 / 1048576)
      else if t = 36596171973529 / 1099511627776 then 8725207 / 262144
      else if t = 210793956375025 / 1099511627776 then 12564299 / 65536
      else if t = 58982403 / 262144 then 14745601 / 65536
      else t)"

text \<open>A ball faster than \<^verbatim>\<open>BALL_MAX_SPEED\<close>: its speed is 26.\<close>

definition fast_ball_example :: Ball where
  "fast_ball_example =
     \<lparr>position = \<lparr>x = 300, y = 400\<rparr>, velocity = \<lparr>x = 10, y = - 24\<rparr>, radius = 35,
      trail = [\<lparr>x = 290, y = 424\<rparr>, \<lparr>x = 280, y = 447\<rparr>, \<lparr>x = 270, y = 470\<rparr>],
      trailCount = 3, rotation = 0\<rparr>"

text \<open>
  A single-player state at the serve: the ball rests above the left half, and the AI
  player stands at \<open>x = 900\<close>, more than 150 away from it.
\<close>

definition ai_idle_example :: Game where
  "ai_idle_example =
     \<lparr>gameState = PLAYING, gameMode = SINGLE_PLAYER, pause = False, framesCounter = 2,
      player1 = \<lparr>position = \<lparr>x = 256, y = 668\<rparr>, velocity = \<lparr>x = 0, y = 0\<rparr>,
                 radius = 50, side = LEFT, score = 0, onGround = True\<rparr>,
      player2 = \<lparr>position = \<lparr>x = 900, y = 668\<rparr>, velocity = \<lparr>x = 4, y = 0\<rparr>,
                 radius = 50, side = RIGHT, score = 0, onGround = True\<rparr>,
      ball = \<lparr>position = \<lparr>x = 256, y = 100\<rparr>, velocity = \<lparr>x = 0, y = 0\<rparr>, radius = 35,
              trail = [\<lparr>x = 0, y = 0\<rparr>, \<lparr>x = 0, y = 0\<rparr>, \<lparr>x = 0, y = 0\<rparr>],
              trailCount = 0, rotation = 0\<rparr>,
      particles = replicate MAX_PARTICLES zero_Particle,
      aiJumpCooldown = 0, servingSide = LEFT, scoreDelayTimer = 0, menuSelection = 0,
      creditsScroll = 0, shouldExitGame = False, matchTimer = 0\<rparr>"

text \<open>
  The same with the serve on the right: the ball rests at \<open>x = 950\<close> and the AI player
  stands at the midpoint \<open>x = 768\<close> of its half, 182 away from the ball.
\<close>

definition ai_right_example :: Game where
  "ai_right_example =
     \<lparr>gameState = PLAYING, gameMode = SINGLE_PLAYER, pause = False, framesCounter = 2,
      player1 = \<lparr>position = \<lparr>x = 256, y = 668\<rparr>, velocity = \<lparr>x = 0, y = 0\<rparr>,
                 radius = 50, side = LEFT, score = 0, onGround = True\<rparr>,
      player2 = \<lparr>position = \<lparr>x = 768, y = 668\<rparr>, velocity = \<lparr>x = 0, y = 0\<rparr>,
                 radius = 50, side = RIGHT, score = 0, onGround = True\<rparr>,
      ball = \<lparr>position = \<lparr>x = 950, y = 100\<rparr>, velocity = \<lparr>x = 0, y = 0\<rparr>, radius = 35,
              trail = [\<lparr>x = 0, y = 0\<rparr>, \<lparr>x = 0, y = 0\<rparr>, \<lparr>x = 0, y = 0\<rparr>],
              trailCount = 0, rotation = 0\<rparr>,
      particles = replicate MAX_PARTICLES zero_Particle,
      aiJumpCooldown = 0, servingSide = RIGHT, scoreDelayTimer = 0, menuSelection = 0,
      creditsScroll = 0, shouldExitGame = False, matchTimer = 0\<rparr>"

text \<open>How far a blob's centre is outside the tolerance band around the AI's target.\<close>

definition outside_band :: "Player \<Rightarrow> real" where
  "outside_band p = max 0 (\<bar>x (position p) - ai_targetX\<bar> - AI_POSITION_TOLERANCE)"

text \<open>
  From the start of a two-player match, player 1 walks to the left for 26 frames and
  arrives at the left wall.
\<close>

definition at_left_wall :: Game where
  "at_left_wall = run (replicate 26 hold_A) start_two_player"

subsection \<open>Which variables each block leaves alone\<close>

lemma move_keys_keeps [simp]:
  "score (move_keys l r p) = score p" "radius (move_keys l r p) = radius p"
  "side (move_keys l r p) = side p" "onGround (move_keys l r p) = onGround p"
  "y (position (move_keys l r p)) = y (position p)"
  "y (velocity (move_keys l r p)) = y (velocity p)"
  by (simp_all add: move_keys_def)

lemma jump_key_keeps [simp]:
  "score (jump_key k p) = score p" "radius (jump_key k p) = radius p"
  "side (jump_key k p) = side p" "position (jump_key k p) = position p"
  "x (velocity (jump_key k p)) = x (velocity p)"
  by (simp_all add: jump_key_def)

lemma keep_left_side_keeps [simp]:
  "score (keep_left_side p) = score p" "radius (keep_left_side p) = radius p"
  "side (keep_left_side p) = side p" "velocity (keep_left_side p) = velocity p"
  "onGround (keep_left_side p) = onGround p"
  "y (position (keep_left_side p)) = y (position p)"
  by (simp_all add: keep_left_side_def Let_def)

lemma keep_right_side_keeps [simp]:
  "score (keep_right_side p) = score p" "radius (keep_right_side p) = radius p"
  "side (keep_right_side p) = side p" "velocity (keep_right_side p) = velocity p"
  "onGround (keep_right_side p) = onGround p"
  "y (position (keep_right_side p)) = y (position p)"
  by (simp_all add: keep_right_side_def Let_def)

lemma ai_return_to_center_keeps [simp]:
  "score (ai_return_to_center p) = score p" "radius (ai_return_to_center p) = radius p"
  "side (ai_return_to_center p) = side p" "onGround (ai_return_to_center p) = onGround p"
  "y (position (ai_return_to_center p)) = y (position p)"
  "y (velocity (ai_return_to_center p)) = y (velocity p)"
  by (simp_all add: ai_return_to_center_def Let_def)

lemma ai_chase_keeps [simp]:
  "score (ai_chase d p) = score p" "radius (ai_chase d p) = radius p"
  "side (ai_chase d p) = side p" "onGround (ai_chase d p) = onGround p"
  "y (position (ai_chase d p)) = y (position p)"
  "y (velocity (ai_chase d p)) = y (velocity p)"
  by (simp_all add: ai_chase_def)

lemma player_physics_keeps [simp]:
  "score (player_physics p) = score p" "radius (player_physics p) = radius p"
  "side (player_physics p) = side p"
  by (simp_all add: player_physics_def player_ground_def player_gravity_def player_integrate_def Let_def)


lemma count_frame_keeps [simp]:
  "gameState (count_frame g) = gameState g" "gameMode (count_frame g) = gameMode g"
  "pause (count_frame g) = pause g" "player1 (count_frame g) = player1 g"
  "player2 (count_frame g) = player2 g" "ball (count_frame g) = ball g"
  "particles (count_frame g) = particles g" "servingSide (count_frame g) = servingSide g"
  "scoreDelayTimer (count_frame g) = scoreDelayTimer g"
  "framesCounter (count_frame g) = framesCounter g + 1"
  by (simp_all add: count_frame_def)

lemma toggle_pause_keeps [simp]:
  "gameState (toggle_pause inp g) = gameState g" "gameMode (toggle_pause inp g) = gameMode g"
  "player1 (toggle_pause inp g) = player1 g" "player2 (toggle_pause inp g) = player2 g"
  "ball (toggle_pause inp g) = ball g" "particles (toggle_pause inp g) = particles g"
  "servingSide (toggle_pause inp g) = servingSide g"
  "scoreDelayTimer (toggle_pause inp g) = scoreDelayTimer g"
  "framesCounter (toggle_pause inp g) = framesCounter g"
  by (simp_all add: toggle_pause_def)

lemma count_match_time_keeps [simp]:
  "gameState (count_match_time g) = gameState g" "gameMode (count_match_time g) = gameMode g"
  "pause (count_match_time g) = pause g" "player1 (count_match_time g) = player1 g"
  "player2 (count_match_time g) = player2 g" "ball (count_match_time g) = ball g"
  "particles (count_match_time g) = particles g"
  "servingSide (count_match_time g) = servingSide g"
  "scoreDelayTimer (count_match_time g) = scoreDelayTimer g"
  "framesCounter (count_match_time g) = framesCounter g"
  by (simp_all add: count_match_time_def)

lemma UpdateParticles_keeps [simp]:
  "gameState (UpdateParticles g) = gameState g" "gameMode (UpdateParticles g) = gameMode g"
  "pause (UpdateParticles g) = pause g" "player1 (UpdateParticles g) = player1 g"
  "player2 (UpdateParticles g) = player2 g" "ball (UpdateParticles g) = ball g"
  "servingSide (UpdateParticles g) = servingSide g"
  "scoreDelayTimer (UpdateParticles g) = scoreDelayTimer g"
  "framesCounter (UpdateParticles g) = framesCounter g"
  by (simp_all add: UpdateParticles_def)

lemma UpdatePlayerControls_keeps [simp]:
  "gameState (UpdatePlayerControls inp g) = gameState g"
  "gameMode (UpdatePlayerControls inp g) = gameMode g"
  "pause (UpdatePlayerControls inp g) = pause g"
  "ball (UpdatePlayerControls inp g) = ball g"
  "particles (UpdatePlayerControls inp g) = particles g"
  "servingSide (UpdatePlayerControls inp g) = servingSide g"
  "scoreDelayTimer (UpdatePlayerControls inp g) = scoreDelayTimer g"
  "framesCounter (UpdatePlayerControls inp g) = framesCounter g"
  "score (player1 (UpdatePlayerControls inp g)) = score (player1 g)"
  "score (player2 (UpdatePlayerControls inp g)) = score (player2 g)"
  "radius (player1 (UpdatePlayerControls inp g)) = radius (player1 g)"
  "radius (player2 (UpdatePlayerControls inp g)) = radius (player2 g)"
  by (simp_all add: UpdatePlayerControls_def Let_def)

lemma ai_jump_keeps [simp]:
  "gameState (ai_jump r d g) = gameState g" "gameMode (ai_jump r d g) = gameMode g"
  "pause (ai_jump r d g) = pause g" "player1 (ai_jump r d g) = player1 g"
  "ball (ai_jump r d g) = ball g" "particles (ai_jump r d g) = particles g"
  "servingSide (ai_jump r d g) = servingSide g"
  "scoreDelayTimer (ai_jump r d g) = scoreDelayTimer g"
  "framesCounter (ai_jump r d g) = framesCounter g"
  "score (player2 (ai_jump r d g)) = score (player2 g)"
  "radius (player2 (ai_jump r d g)) = radius (player2 g)"
  "position (player2 (ai_jump r d g)) = position (player2 g)"
  "x (velocity (player2 (ai_jump r d g))) = x (velocity (player2 g))"
  by (simp_all add: ai_jump_def Let_def)

lemma ai_cooldown_keeps [simp]:
  "gameState (ai_cooldown g) = gameState g" "gameMode (ai_cooldown g) = gameMode g"
  "pause (ai_cooldown g) = pause g" "player1 (ai_cooldown g) = player1 g"
  "player2 (ai_cooldown g) = player2 g"
  "ball (ai_cooldown g) = ball g" "particles (ai_cooldown g) = particles g"
  "servingSide (ai_cooldown g) = servingSide g"
  "scoreDelayTimer (ai_cooldown g) = scoreDelayTimer g"
  "framesCounter (ai_cooldown g) = framesCounter g"
  by (simp_all add: ai_cooldown_def)

lemma UpdateAI_keeps [simp]:
  "gameState (UpdateAI r g) = gameState g" "gameMode (UpdateAI r g) = gameMode g"
  "pause (UpdateAI r g) = pause g" "player1 (UpdateAI r g) = player1 g"
  "ball (UpdateAI r g) = ball g" "particles (UpdateAI r g) = particles g"
  "servingSide (UpdateAI r g) = servingSide g"
  "scoreDelayTimer (UpdateAI r g) = scoreDelayTimer g"
  "framesCounter (UpdateAI r g) = framesCounter g"
  "score (player2 (UpdateAI r g)) = score (player2 g)"
  "radius (player2 (UpdateAI r g)) = radius (player2 g)"
  by (simp_all add: UpdateAI_def Let_def)

lemma ai_if_single_keeps [simp]:
  "gameState (ai_if_single inp g) = gameState g" "gameMode (ai_if_single inp g) = gameMode g"
  "pause (ai_if_single inp g) = pause g" "player1 (ai_if_single inp g) = player1 g"
  "ball (ai_if_single inp g) = ball g" "particles (ai_if_single inp g) = particles g"
  "servingSide (ai_if_single inp g) = servingSide g"
  "scoreDelayTimer (ai_if_single inp g) = scoreDelayTimer g"
  "framesCounter (ai_if_single inp g) = framesCounter g"
  "score (player2 (ai_if_single inp g)) = score (player2 g)"
  "radius (player2 (ai_if_single inp g)) = radius (player2 g)"
  by (simp_all add: ai_if_single_def)

lemma players_physics_keeps [simp]:
  "gameState (players_physics g) = gameState g" "gameMode (players_physics g) = gameMode g"
  "pause (players_physics g) = pause g"
  "ball (players_physics g) = ball g" "particles (players_physics g) = particles g"
  "servingSide (players_physics g) = servingSide g"
  "scoreDelayTimer (players_physics g) = scoreDelayTimer g"
  "framesCounter (players_physics g) = framesCounter g"
  "score (player1 (players_physics g)) = score (player1 g)"
  "score (player2 (players_physics g)) = score (player2 g)"
  "radius (player1 (players_physics g)) = radius (player1 g)"
  "radius (player2 (players_physics g)) = radius (player2 g)"
  by (simp_all add: players_physics_def)

lemma ResetBall_keeps [simp]:
  "gameState (ResetBall g) = gameState g" "gameMode (ResetBall g) = gameMode g"
  "pause (ResetBall g) = pause g" "player1 (ResetBall g) = player1 g"
  "player2 (ResetBall g) = player2 g" "particles (ResetBall g) = particles g"
  "servingSide (ResetBall g) = servingSide g"
  "scoreDelayTimer (ResetBall g) = scoreDelayTimer g"
  "framesCounter (ResetBall g) = framesCounter g"
  "radius (ball (ResetBall g)) = radius (ball g)"
  by (simp_all add: ResetBall_def)

lemma score_delay_keeps [simp]:
  "gameState (score_delay g) = gameState g" "gameMode (score_delay g) = gameMode g"
  "pause (score_delay g) = pause g" "player1 (score_delay g) = player1 g"
  "player2 (score_delay g) = player2 g" "particles (score_delay g) = particles g"
  "servingSide (score_delay g) = servingSide g"
  "framesCounter (score_delay g) = framesCounter g"
  "radius (ball (score_delay g)) = radius (ball g)"
  by (simp_all add: score_delay_def Let_def)

lemma score_delay_timer:
  "scoreDelayTimer (score_delay g) =
     (if scoreDelayTimer g > 0 then scoreDelayTimer g - 1 else scoreDelayTimer g)"
  by (simp add: score_delay_def Let_def)

lemma UpdateBallTrail_keeps [simp]:
  "position (UpdateBallTrail b) = position b" "velocity (UpdateBallTrail b) = velocity b"
  "radius (UpdateBallTrail b) = radius b" "rotation (UpdateBallTrail b) = rotation b"
  by (simp_all add: UpdateBallTrail_def Let_def)

lemma ball_physics_keeps [simp]:
  "gameState (ball_physics g) = gameState g" "gameMode (ball_physics g) = gameMode g"
  "pause (ball_physics g) = pause g" "player1 (ball_physics g) = player1 g"
  "player2 (ball_physics g) = player2 g" "particles (ball_physics g) = particles g"
  "servingSide (ball_physics g) = servingSide g"
  "scoreDelayTimer (ball_physics g) = scoreDelayTimer g"
  "framesCounter (ball_physics g) = framesCounter g"
  "radius (ball (ball_physics g)) = radius (ball g)"
  by (simp_all add: ball_physics_def ball_rotate_def ball_integrate_def Let_def)

lemma ball_walls_keeps [simp]: "radius (ball_walls b) = radius b"
  by (simp add: ball_walls_def Let_def)

lemma ball_net_keeps [simp]: "radius (ball_net b) = radius b"
  by (simp add: ball_net_def Let_def)

lemma ball_walls_net_keeps [simp]:
  "gameState (ball_walls_net g) = gameState g" "gameMode (ball_walls_net g) = gameMode g"
  "pause (ball_walls_net g) = pause g" "player1 (ball_walls_net g) = player1 g"
  "player2 (ball_walls_net g) = player2 g" "particles (ball_walls_net g) = particles g"
  "servingSide (ball_walls_net g) = servingSide g"
  "scoreDelayTimer (ball_walls_net g) = scoreDelayTimer g"
  "framesCounter (ball_walls_net g) = framesCounter g"
  "radius (ball (ball_walls_net g)) = radius (ball g)"
  by (simp_all add: ball_walls_net_def)

lemma player_ball_collision_keeps [simp]: "radius (player_ball_collision p b) = radius b"
  by (simp add: player_ball_collision_def push_out_def clamp_speed_def velocity_influence_def
        energy_loss_def reflect_velocity_def Let_def)

lemma ball_player1_keeps [simp]:
  "gameState (ball_player1 g) = gameState g" "gameMode (ball_player1 g) = gameMode g"
  "pause (ball_player1 g) = pause g" "player1 (ball_player1 g) = player1 g"
  "player2 (ball_player1 g) = player2 g" "particles (ball_player1 g) = particles g"
  "servingSide (ball_player1 g) = servingSide g"
  "scoreDelayTimer (ball_player1 g) = scoreDelayTimer g"
  "framesCounter (ball_player1 g) = framesCounter g"
  "radius (ball (ball_player1 g)) = radius (ball g)"
  by (simp_all add: ball_player1_def)

lemma ball_player2_keeps [simp]:
  "gameState (ball_player2 g) = gameState g" "gameMode (ball_player2 g) = gameMode g"
  "pause (ball_player2 g) = pause g" "player1 (ball_player2 g) = player1 g"
  "player2 (ball_player2 g) = player2 g" "particles (ball_player2 g) = particles g"
  "servingSide (ball_player2 g) = servingSide g"
  "scoreDelayTimer (ball_player2 g) = scoreDelayTimer g"
  "framesCounter (ball_player2 g) = framesCounter g"
  "radius (ball (ball_player2 g)) = radius (ball g)"
  by (simp_all add: ball_player2_def)

lemma before_players_keeps [simp]:
  "gameState (before_players inp g) = gameState g"
  "gameMode (before_players inp g) = gameMode g"
  "pause (before_players inp g) = pause g"
  "servingSide (before_players inp g) = servingSide g"
  "framesCounter (before_players inp g) = framesCounter g"
  "score (player1 (before_players inp g)) = score (player1 g)"
  "score (player2 (before_players inp g)) = score (player2 g)"
  "radius (player1 (before_players inp g)) = radius (player1 g)"
  "radius (player2 (before_players inp g)) = radius (player2 g)"
  "radius (ball (before_players inp g)) = radius (ball g)"
  by (simp_all add: before_players_def)

lemma before_players_timer:
  "scoreDelayTimer (before_players inp g) =
     (if scoreDelayTimer g > 0 then scoreDelayTimer g - 1 else scoreDelayTimer g)"
  by (simp add: before_players_def score_delay_timer)

lemma before_ground_keeps [simp]:
  "gameState (before_ground inp g) = gameState g"
  "gameMode (before_ground inp g) = gameMode g"
  "pause (before_ground inp g) = pause g"
  "servingSide (before_ground inp g) = servingSide g"
  "framesCounter (before_ground inp g) = framesCounter g"
  "player1 (before_ground inp g) = player1 (before_players inp g)"
  "player2 (before_ground inp g) = player2 (before_players inp g)"
  "particles (before_ground inp g) = particles (before_players inp g)"
  "radius (ball (before_ground inp g)) = radius (ball g)"
  by (simp_all add: before_ground_def)

lemma before_ground_timer:
  "scoreDelayTimer (before_ground inp g) =
     (if scoreDelayTimer g > 0 then scoreDelayTimer g - 1 else scoreDelayTimer g)"
  by (simp add: before_ground_def before_players_timer)

lemma ground_bounce_keeps [simp]:
  "gameState (ground_bounce g) = gameState g" "gameMode (ground_bounce g) = gameMode g"
  "pause (ground_bounce g) = pause g" "player1 (ground_bounce g) = player1 g"
  "player2 (ground_bounce g) = player2 g" "particles (ground_bounce g) = particles g"
  "servingSide (ground_bounce g) = servingSide g"
  "scoreDelayTimer (ground_bounce g) = scoreDelayTimer g"
  "framesCounter (ground_bounce g) = framesCounter g"
  "radius (ball (ground_bounce g)) = radius (ball g)"
  "x (position (ball (ground_bounce g))) = x (position (ball g))"
  by (simp_all add: ground_bounce_def)

lemma ground_particles_keeps [simp]:
  "gameState (ground_particles rnd g) = gameState g"
  "gameMode (ground_particles rnd g) = gameMode g"
  "pause (ground_particles rnd g) = pause g" "player1 (ground_particles rnd g) = player1 g"
  "player2 (ground_particles rnd g) = player2 g" "ball (ground_particles rnd g) = ball g"
  "servingSide (ground_particles rnd g) = servingSide g"
  "scoreDelayTimer (ground_particles rnd g) = scoreDelayTimer g"
  "framesCounter (ground_particles rnd g) = framesCounter g"
  by (simp_all add: ground_particles_def SpawnGroundParticles_def)


lemma frame_start_keeps [simp]:
  "gameState (frame_start inp g) = gameState g" "gameMode (frame_start inp g) = gameMode g"
  "player1 (frame_start inp g) = player1 g" "player2 (frame_start inp g) = player2 g"
  "ball (frame_start inp g) = ball g" "particles (frame_start inp g) = particles g"
  "servingSide (frame_start inp g) = servingSide g"
  "scoreDelayTimer (frame_start inp g) = scoreDelayTimer g"
  "framesCounter (frame_start inp g) = framesCounter g + 1"
  "pause (frame_start inp g) = pause (toggle_pause inp g)"
  by (simp_all add: frame_start_def toggle_pause_def)

text \<open>What a frame that runs the simulation computes.\<close>

lemma UpdateGame_frame:
  "frame_runs inp g \<Longrightarrow>
     UpdateGame inp g = ball_ground (random_particle inp) (before_ground inp (frame_start inp g))"
  by (auto simp add: frame_runs_def UpdateGame_def playing_case_def playing_frame_def
        frame_start_def toggle_pause_def split: if_splits)

text \<open>The scoring block.\<close>

lemma process_score_left:
  "x (position (ball g)) < real_of_int NET_X \<Longrightarrow>
     score (player2 (process_score g)) = score (player2 g) + 1
     \<and> score (player1 (process_score g)) = score (player1 g)
     \<and> servingSide (process_score g) = RIGHT"
  by (simp add: process_score_def Let_def)

lemma process_score_right:
  "\<not> x (position (ball g)) < real_of_int NET_X \<Longrightarrow>
     score (player1 (process_score g)) = score (player1 g) + 1
     \<and> score (player2 (process_score g)) = score (player2 g)
     \<and> servingSide (process_score g) = LEFT"
  by (simp add: process_score_def Let_def)

lemma process_score_keeps [simp]:
  "gameMode (process_score g) = gameMode g" "pause (process_score g) = pause g"
  "ball (process_score g) = ball g" "particles (process_score g) = particles g"
  "framesCounter (process_score g) = framesCounter g"
  "radius (player1 (process_score g)) = radius (player1 g)"
  "radius (player2 (process_score g)) = radius (player2 g)"
  "position (player1 (process_score g)) = position (player1 g)"
  "position (player2 (process_score g)) = position (player2 g)"
  "velocity (player1 (process_score g)) = velocity (player1 g)"
  "velocity (player2 (process_score g)) = velocity (player2 g)"
  "onGround (player1 (process_score g)) = onGround (player1 g)"
  "onGround (player2 (process_score g)) = onGround (player2 g)"
  by (simp_all add: process_score_def Let_def)

lemma process_score_state:
  "gameState (process_score g) =
     (if score (player1 (process_score g)) \<ge> WIN_SCORE \<or> score (player2 (process_score g)) \<ge> WIN_SCORE
      then GAMEOVER else gameState g)"
  "scoreDelayTimer (process_score g) =
     (if score (player1 (process_score g)) \<ge> WIN_SCORE \<or> score (player2 (process_score g)) \<ge> WIN_SCORE
      then scoreDelayTimer g else SCORE_DELAY_FRAMES)"
  by (simp_all add: process_score_def Let_def)

lemma score_unless_delay_keeps [simp]:
  "gameMode (score_unless_delay g) = gameMode g" "pause (score_unless_delay g) = pause g"
  "ball (score_unless_delay g) = ball g" "particles (score_unless_delay g) = particles g"
  "framesCounter (score_unless_delay g) = framesCounter g"
  "radius (player1 (score_unless_delay g)) = radius (player1 g)"
  "radius (player2 (score_unless_delay g)) = radius (player2 g)"
  "position (player1 (score_unless_delay g)) = position (player1 g)"
  "position (player2 (score_unless_delay g)) = position (player2 g)"
  "velocity (player1 (score_unless_delay g)) = velocity (player1 g)"
  "velocity (player2 (score_unless_delay g)) = velocity (player2 g)"
  "onGround (player1 (score_unless_delay g)) = onGround (player1 g)"
  "onGround (player2 (score_unless_delay g)) = onGround (player2 g)"
  by (simp_all add: score_unless_delay_def)

lemma ball_ground_keeps [simp]:
  "gameMode (ball_ground rnd g) = gameMode g" "pause (ball_ground rnd g) = pause g"
  "framesCounter (ball_ground rnd g) = framesCounter g"
  "radius (ball (ball_ground rnd g)) = radius (ball g)"
  "x (position (ball (ball_ground rnd g))) = x (position (ball g))"
  "radius (player1 (ball_ground rnd g)) = radius (player1 g)"
  "radius (player2 (ball_ground rnd g)) = radius (player2 g)"
  "position (player1 (ball_ground rnd g)) = position (player1 g)"
  "position (player2 (ball_ground rnd g)) = position (player2 g)"
  "velocity (player1 (ball_ground rnd g)) = velocity (player1 g)"
  "velocity (player2 (ball_ground rnd g)) = velocity (player2 g)"
  "onGround (player1 (ball_ground rnd g)) = onGround (player1 g)"
  "onGround (player2 (ball_ground rnd g)) = onGround (player2 g)"
  by (simp_all add: ball_ground_def)

text \<open>A ball that reaches the ground while no delay runs is scored.\<close>

lemma ball_ground_scores:
  "reaches_ground (ball g) \<Longrightarrow> scoreDelayTimer g = 0 \<Longrightarrow>
     ball_ground rnd g = process_score (ground_particles rnd (ground_bounce g))"
  by (simp add: ball_ground_def reaches_ground_def score_unless_delay_def)

text \<open>While the delay runs, or while the ball is in the air, nothing is scored.\<close>

lemma ball_ground_no_score:
  "\<not> reaches_ground (ball g) \<or> scoreDelayTimer g \<noteq> 0 \<Longrightarrow>
     gameState (ball_ground rnd g) = gameState g
     \<and> servingSide (ball_ground rnd g) = servingSide g
     \<and> scoreDelayTimer (ball_ground rnd g) = scoreDelayTimer g
     \<and> score (player1 (ball_ground rnd g)) = score (player1 g)
     \<and> score (player2 (ball_ground rnd g)) = score (player2 g)"
  by (auto simp add: ball_ground_def reaches_ground_def score_unless_delay_def)

subsection \<open>Evaluating frames on concrete states\<close>

lemma update_loop_inactive:
  "\<forall>p \<in> set ps. \<not> active p \<Longrightarrow> update_loop i ps = ps"
proof (induction i ps rule: update_loop.induct)
  case (1 i ps)
  show ?case
  proof (cases "i < MAX_PARTICLES")
    case True
    have "ps[i := update_particle (ps ! i)] = ps"
    proof (cases "i < length ps")
      case True
      with 1(2) have "\<not> active (ps ! i)" by simp
      then show ?thesis by (simp add: update_particle_def)
    next
      case False
      then have "length ps \<le> i" by simp
      then show ?thesis by (rule list_update_beyond)
    qed
    with 1 True show ?thesis by (simp add: update_loop.simps [of i ps])
  next
    case False
    then show ?thesis by (simp add: update_loop.simps [of i ps])
  qed
qed

lemma update_loop_replicate:
  "\<not> active p \<Longrightarrow> update_loop 0 (replicate n p) = replicate n p"
  by (rule update_loop_inactive) simp

lemma run_append: "run (inps @ inps') g = run inps' (run inps g)"
  by (induction inps arbitrary: g) simp_all

lemma run_replicate_numeral:
  "run (replicate (numeral k) inp) g = run (replicate (pred_numeral k) inp) (UpdateGame inp g)"
  by (simp add: numeral_eq_Suc)

lemma shift_trail_numeral:
  "shift_trail (numeral k) t = shift_trail (pred_numeral k) (t[numeral k := t ! pred_numeral k])"
  by (simp add: numeral_eq_Suc)

lemma replicate_TRAIL_LENGTH: "replicate TRAIL_LENGTH a = [a, a, a]"
  by (simp add: numeral_3_eq_3)

lemmas frame_defs =
  UpdateGame_def count_frame_def menu_case_def menu_navigate_def menu_enter_def
  gameover_case_def credits_case_def playing_case_def toggle_pause_def playing_frame_def
  before_ground_def before_players_def count_match_time_def UpdateParticles_def
  UpdatePlayerControls_def move_keys_def jump_key_def keep_left_side_def keep_right_side_def
  ai_if_single_def UpdateAI_def ai_cooldown_def ballComingToward_def ai_return_to_center_def
  ai_chase_def ai_jump_def players_physics_def player_physics_def player_integrate_def
  player_gravity_def player_ground_def score_delay_def ResetBall_def ball_physics_def
  ball_integrate_def ball_rotate_def UpdateBallTrail_def ball_walls_net_def ball_walls_def
  ball_net_def netRect_def CheckCollisionCircleRec_def CheckCollisionCircles_def
  ball_player1_def ball_player2_def ball_ground_def ground_bounce_def ground_particles_def
  SpawnGroundParticles_def score_unless_delay_def process_score_def Let_def
  update_loop_replicate run_replicate_numeral shift_trail_numeral replicate_TRAIL_LENGTH

lemmas example_defs =
  no_keys_def hold_A_def hold_D_def InitGame_def zero_Ball_def zero_Vector2_def
  zero_Particle_def

lemma start_two_player_state:
  "start_two_player =
     \<lparr>gameState = PLAYING, gameMode = TWO_PLAYER, pause = False, framesCounter = 2,
      player1 = \<lparr>position = \<lparr>x = 256, y = 668\<rparr>, velocity = \<lparr>x = 0, y = 0\<rparr>,
                 radius = 50, side = LEFT, score = 0, onGround = True\<rparr>,
      player2 = \<lparr>position = \<lparr>x = 768, y = 668\<rparr>, velocity = \<lparr>x = 0, y = 0\<rparr>,
                 radius = 50, side = RIGHT, score = 0, onGround = True\<rparr>,
      ball = \<lparr>position = \<lparr>x = 256, y = 100\<rparr>, velocity = \<lparr>x = 0, y = 0\<rparr>, radius = 35,
              trail = [\<lparr>x = 0, y = 0\<rparr>, \<lparr>x = 0, y = 0\<rparr>, \<lparr>x = 0, y = 0\<rparr>],
              trailCount = 0, rotation = 0\<rparr>,
      particles = replicate MAX_PARTICLES zero_Particle,
      aiJumpCooldown = 0, servingSide = LEFT, scoreDelayTimer = 0, menuSelection = 1,
      creditsScroll = 0, shouldExitGame = False, matchTimer = 0\<rparr>"
  by (simp add: start_two_player_def frame_defs no_keys_def InitGame_def zero_Ball_def zero_Vector2_def)

lemma before_first_landing_state:
  "before_first_landing =
     \<lparr>gameState = PLAYING, gameMode = TWO_PLAYER, pause = False, framesCounter = 56,
      player1 = \<lparr>position = \<lparr>x = 461, y = 668\<rparr>, velocity = \<lparr>x = 4, y = 0\<rparr>,
                 radius = 50, side = LEFT, score = 0, onGround = True\<rparr>,
      player2 = \<lparr>position = \<lparr>x = 768, y = 668\<rparr>, velocity = \<lparr>x = 0, y = 0\<rparr>,
                 radius = 50, side = RIGHT, score = 0, onGround = True\<rparr>,
      ball = \<lparr>position = \<lparr>x = 256, y = 3362 / 5\<rparr>, velocity = \<lparr>x = 0, y = 108 / 5\<rparr>,
              radius = 35,
              trail = [\<lparr>x = 256, y = 3362 / 5\<rparr>, \<lparr>x = 256, y = 3152 / 5\<rparr>, \<lparr>x = 256, y = 590\<rparr>],
              trailCount = 3, rotation = 0\<rparr>,
      particles = replicate MAX_PARTICLES zero_Particle,
      aiJumpCooldown = 0, servingSide = LEFT, scoreDelayTimer = 0, menuSelection = 1,
      creditsScroll = 0, shouldExitGame = False, matchTimer = 54\<rparr>"
  unfolding before_first_landing_def start_two_player_state
  by (simp add: frame_defs hold_D_def no_keys_def zero_Particle_def)

text \<open>The ball as the ground check finds it, in the example run.\<close>

lemma first_landing_ball:
  "ball_at_ground_check hold_D before_first_landing =
     \<lparr>position = \<lparr>x = 256, y = 694\<rparr>, velocity = \<lparr>x = 0, y = 22\<rparr>, radius = 35,
      trail = [\<lparr>x = 256, y = 3362 / 5\<rparr>, \<lparr>x = 256, y = 3152 / 5\<rparr>, \<lparr>x = 256, y = 590\<rparr>],
      trailCount = 3, rotation = 0\<rparr>"
  unfolding before_first_landing_state ball_at_ground_check_def frame_start_def
  by (simp add: frame_defs hold_D_def no_keys_def zero_Particle_def)

lemma first_landing_frame_runs: "frame_runs hold_D before_first_landing"
  unfolding before_first_landing_state
  by (simp add: frame_runs_def toggle_pause_def hold_D_def no_keys_def)

text \<open>
  C2. When the ball reaches the ground in a frame of \<^verbatim>\<open>PLAYING\<close> while no score delay
  runs: if its x is left of the net centre line, the right player's score grows by
  exactly 1, the serve goes to \<^verbatim>\<open>RIGHT\<close> and the left player's score is unchanged; if
  its x is right of the centre line, the left player's score grows by exactly 1, the
  serve goes to \<^verbatim>\<open>LEFT\<close> and the right player's score is unchanged.
\<close>

theorem ground_contact_scores_for_other_side:
  assumes "frame_runs inp g" and "scoreDelayTimer g = 0"
    and "reaches_ground (ball_at_ground_check inp g)"
  shows "(x (position (ball_at_ground_check inp g)) < real_of_int NET_X \<longrightarrow>
            score (player2 (UpdateGame inp g)) = score (player2 g) + 1
            \<and> servingSide (UpdateGame inp g) = RIGHT
            \<and> score (player1 (UpdateGame inp g)) = score (player1 g))
       \<and> (real_of_int NET_X < x (position (ball_at_ground_check inp g)) \<longrightarrow>
            score (player1 (UpdateGame inp g)) = score (player1 g) + 1
            \<and> servingSide (UpdateGame inp g) = LEFT
            \<and> score (player2 (UpdateGame inp g)) = score (player2 g))"
proof -
  let ?h = "before_ground inp (frame_start inp g)"
  let ?k = "ground_particles (random_particle inp) (ground_bounce ?h)"
  have timer: "scoreDelayTimer ?h = 0"
    using assms(2) by (simp add: before_ground_timer)
  have ground: "reaches_ground (ball ?h)"
    using assms(3) by (simp add: ball_at_ground_check_def)
  have frame: "UpdateGame inp g = process_score ?k"
    using UpdateGame_frame [OF assms(1)] ball_ground_scores [OF ground timer] by simp
  have xk: "x (position (ball ?k)) = x (position (ball_at_ground_check inp g))"
    by (simp add: ball_at_ground_check_def)
  have p1: "score (player1 ?k) = score (player1 g)" and p2: "score (player2 ?k) = score (player2 g)"
    by simp_all
  show ?thesis
  proof (intro conjI impI)
    assume "x (position (ball_at_ground_check inp g)) < real_of_int NET_X"
    then have "x (position (ball ?k)) < real_of_int NET_X" by (simp only: xk)
    from process_score_left [OF this] frame p1 p2
    show "score (player2 (UpdateGame inp g)) = score (player2 g) + 1"
      and "servingSide (UpdateGame inp g) = RIGHT"
      and "score (player1 (UpdateGame inp g)) = score (player1 g)"
      by simp_all
  next
    assume "real_of_int NET_X < x (position (ball_at_ground_check inp g))"
    then have "\<not> x (position (ball ?k)) < real_of_int NET_X" unfolding xk by simp
    from process_score_right [OF this] frame p1 p2
    show "score (player1 (UpdateGame inp g)) = score (player1 g) + 1"
      and "servingSide (UpdateGame inp g) = LEFT"
      and "score (player2 (UpdateGame inp g)) = score (player2 g)"
      by simp_all
  qed
qed

lemma match_point_example_ball:
  "position (ball_at_ground_check no_keys match_point_example) = \<lparr>x = 702, y = 687\<rparr>"
  "radius (ball_at_ground_check no_keys match_point_example) = 35"
  unfolding match_point_example_def ball_at_ground_check_def frame_start_def
  by (simp_all add: frame_defs no_keys_def zero_Particle_def)

theorem ground_contact_scores_for_other_side_witness:
  "frame_runs hold_D before_first_landing
   \<and> scoreDelayTimer before_first_landing = 0
   \<and> reaches_ground (ball_at_ground_check hold_D before_first_landing)
   \<and> x (position (ball_at_ground_check hold_D before_first_landing)) < real_of_int NET_X
   \<and> score (player2 (UpdateGame hold_D before_first_landing)) = 1
   \<and> servingSide (UpdateGame hold_D before_first_landing) = RIGHT
   \<and> score (player1 (UpdateGame hold_D before_first_landing)) = 0
   \<and> frame_runs no_keys match_point_example
   \<and> scoreDelayTimer match_point_example = 0
   \<and> reaches_ground (ball_at_ground_check no_keys match_point_example)
   \<and> real_of_int NET_X < x (position (ball_at_ground_check no_keys match_point_example))
   \<and> score (player1 (UpdateGame no_keys match_point_example)) = 10
   \<and> servingSide (UpdateGame no_keys match_point_example) = LEFT
   \<and> score (player2 (UpdateGame no_keys match_point_example)) = 7"
proof -
  have timer: "scoreDelayTimer before_first_landing = 0"
    and scores: "score (player1 before_first_landing) = 0" "score (player2 before_first_landing) = 0"
    unfolding before_first_landing_state by simp_all
  have ground: "reaches_ground (ball_at_ground_check hold_D before_first_landing)"
    unfolding first_landing_ball by (simp add: reaches_ground_def)
  have left: "x (position (ball_at_ground_check hold_D before_first_landing)) < real_of_int NET_X"
    unfolding first_landing_ball by simp
  have runs': "frame_runs no_keys match_point_example"
    and timer': "scoreDelayTimer match_point_example = 0"
    and scores': "score (player1 match_point_example) = 9" "score (player2 match_point_example) = 7"
    by (simp_all add: match_point_example_def frame_runs_def toggle_pause_def no_keys_def)
  have ground': "reaches_ground (ball_at_ground_check no_keys match_point_example)"
    by (simp add: reaches_ground_def match_point_example_ball)
  have right: "real_of_int NET_X < x (position (ball_at_ground_check no_keys match_point_example))"
    by (simp add: match_point_example_ball)
  from ground_contact_scores_for_other_side [OF first_landing_frame_runs timer ground]
    ground_contact_scores_for_other_side [OF runs' timer' ground']
    left right scores scores'
  show ?thesis
    using first_landing_frame_runs timer ground runs' timer' ground' by simp
qed

lemma sqrt_25: "sqrt 25 = 5"
  by (rule real_sqrt_unique) simp_all

lemma player_ball_collision_position:
  "position (player_ball_collision p b) =
     \<lparr>x = x (position p) + x (collision_normal p b) * (radius p + radius b),
      y = y (position p) + y (collision_normal p b) * (radius p + radius b)\<rparr>"
  by (simp add: player_ball_collision_def push_out_def clamp_speed_def velocity_influence_def
        energy_loss_def reflect_velocity_def Let_def)

lemma centre_line_example_ball:
  "position (ball_at_ground_check hold_LEFT centre_line_example) = \<lparr>x = 512, y = 736\<rparr>"
  unfolding centre_line_example_def ball_at_ground_check_def frame_start_def
  by (simp add: frame_defs hold_LEFT_def no_keys_def zero_Particle_def
        player_ball_collision_position collision_normal_def sqrt_25)

text \<open>
  C10. When the ball reaches the ground with its centre exactly on the net centre line
  (\<open>x = NET_X\<close>) while no score delay runs, the left player's score grows by 1 and the
  serve goes to \<^verbatim>\<open>LEFT\<close>: the landing on the line counts for the left player.
\<close>

theorem centre_line_landing_scores_for_left:
  assumes "frame_runs inp g" and "scoreDelayTimer g = 0"
    and "reaches_ground (ball_at_ground_check inp g)"
    and "x (position (ball_at_ground_check inp g)) = real_of_int NET_X"
  shows "score (player1 (UpdateGame inp g)) = score (player1 g) + 1
         \<and> servingSide (UpdateGame inp g) = LEFT
         \<and> score (player2 (UpdateGame inp g)) = score (player2 g)"
proof -
  let ?h = "before_ground inp (frame_start inp g)"
  let ?k = "ground_particles (random_particle inp) (ground_bounce ?h)"
  have timer: "scoreDelayTimer ?h = 0"
    using assms(2) by (simp add: before_ground_timer)
  have ground: "reaches_ground (ball ?h)"
    using assms(3) by (simp add: ball_at_ground_check_def)
  have frame: "UpdateGame inp g = process_score ?k"
    using UpdateGame_frame [OF assms(1)] ball_ground_scores [OF ground timer] by simp
  have "x (position (ball ?k)) = real_of_int NET_X"
    using assms(4) by (simp add: ball_at_ground_check_def)
  then have "\<not> x (position (ball ?k)) < real_of_int NET_X"
    by simp
  from process_score_right [OF this] frame show ?thesis
    by simp
qed

theorem centre_line_landing_scores_for_left_witness:
  "frame_runs hold_LEFT centre_line_example
   \<and> scoreDelayTimer centre_line_example = 0
   \<and> reaches_ground (ball_at_ground_check hold_LEFT centre_line_example)
   \<and> x (position (ball_at_ground_check hold_LEFT centre_line_example)) = real_of_int NET_X
   \<and> score (player1 centre_line_example) = 2
   \<and> score (player1 (UpdateGame hold_LEFT centre_line_example)) = 3
   \<and> servingSide (UpdateGame hold_LEFT centre_line_example) = LEFT
   \<and> score (player2 (UpdateGame hold_LEFT centre_line_example)) = 3"
proof -
  have runs: "frame_runs hold_LEFT centre_line_example"
    by (simp add: centre_line_example_def frame_runs_def toggle_pause_def hold_LEFT_def no_keys_def)
  have timer: "scoreDelayTimer centre_line_example = 0"
    and scores: "score (player1 centre_line_example) = 2" "score (player2 centre_line_example) = 3"
    by (simp_all add: centre_line_example_def)
  have "radius (ball_at_ground_check hold_LEFT centre_line_example) = 35"
    by (simp add: ball_at_ground_check_def centre_line_example_def)
  then have ground: "reaches_ground (ball_at_ground_check hold_LEFT centre_line_example)"
    by (simp add: reaches_ground_def centre_line_example_ball)
  have line: "x (position (ball_at_ground_check hold_LEFT centre_line_example)) = real_of_int NET_X"
    by (simp add: centre_line_example_ball)
  from centre_line_landing_scores_for_left [OF runs timer ground line] scores
  show ?thesis
    using runs timer ground line by simp
qed

subsection \<open>Scores from frame to frame\<close>

text \<open>One frame of the simulation scores at most one point, for one player.\<close>

lemma playing_frame_scores:
  "(score (player1 (playing_frame inp g)) = score (player1 g)
      \<and> score (player2 (playing_frame inp g)) = score (player2 g)
      \<and> gameState (playing_frame inp g) = gameState g)
   \<or> (score (player1 (playing_frame inp g)) = score (player1 g) + 1
      \<and> score (player2 (playing_frame inp g)) = score (player2 g)
      \<and> gameState (playing_frame inp g) =
           (if score (player1 g) + 1 \<ge> WIN_SCORE \<or> score (player2 g) \<ge> WIN_SCORE
            then GAMEOVER else gameState g))
   \<or> (score (player1 (playing_frame inp g)) = score (player1 g)
      \<and> score (player2 (playing_frame inp g)) = score (player2 g) + 1
      \<and> gameState (playing_frame inp g) =
           (if score (player1 g) \<ge> WIN_SCORE \<or> score (player2 g) + 1 \<ge> WIN_SCORE
            then GAMEOVER else gameState g))"
proof -
  let ?h = "before_ground inp g"
  let ?k = "ground_particles (random_particle inp) (ground_bounce ?h)"
  show ?thesis
  proof (cases "reaches_ground (ball ?h) \<and> scoreDelayTimer ?h = 0")
    case False
    then have "\<not> reaches_ground (ball ?h) \<or> scoreDelayTimer ?h \<noteq> 0" by simp
    from ball_ground_no_score [OF this, of "random_particle inp"] show ?thesis
      by (simp add: playing_frame_def)
  next
    case True
    then have frame: "playing_frame inp g = process_score ?k"
      by (simp add: playing_frame_def ball_ground_scores)
    have same: "score (player1 ?k) = score (player1 g)" "score (player2 ?k) = score (player2 g)"
      "gameState ?k = gameState g"
      by simp_all
    show ?thesis
    proof (cases "x (position (ball ?k)) < real_of_int NET_X")
      case True
      from process_score_left [OF True] process_score_state(1) [of ?k] same frame
      show ?thesis by simp
    next
      case False
      from process_score_right [OF False] process_score_state(1) [of ?k] same frame
      show ?thesis by simp
    qed
  qed
qed

lemma UpdateGame_PLAYING_scores:
  assumes "gameState g = PLAYING"
  shows "(score (player1 (UpdateGame inp g)) = score (player1 g)
          \<and> score (player2 (UpdateGame inp g)) = score (player2 g)
          \<and> (gameState (UpdateGame inp g) = PLAYING \<or> gameState (UpdateGame inp g) = MENU))
       \<or> (score (player1 (UpdateGame inp g)) = score (player1 g) + 1
          \<and> score (player2 (UpdateGame inp g)) = score (player2 g)
          \<and> gameState (UpdateGame inp g) =
               (if score (player1 g) + 1 \<ge> WIN_SCORE \<or> score (player2 g) \<ge> WIN_SCORE
                then GAMEOVER else PLAYING))
       \<or> (score (player1 (UpdateGame inp g)) = score (player1 g)
          \<and> score (player2 (UpdateGame inp g)) = score (player2 g) + 1
          \<and> gameState (UpdateGame inp g) =
               (if score (player1 g) \<ge> WIN_SCORE \<or> score (player2 g) + 1 \<ge> WIN_SCORE
                then GAMEOVER else PLAYING))"
proof (cases "frame_runs inp g")
  case True
  then have "UpdateGame inp g = playing_frame inp (frame_start inp g)"
    by (simp add: UpdateGame_frame playing_frame_def)
  moreover have "gameState (frame_start inp g) = PLAYING"
    "score (player1 (frame_start inp g)) = score (player1 g)"
    "score (player2 (frame_start inp g)) = score (player2 g)"
    using assms by simp_all
  ultimately show ?thesis
    using playing_frame_scores [of inp "frame_start inp g"] by presburger
next
  case False
  with assms have "score (player1 (UpdateGame inp g)) = score (player1 g)
      \<and> score (player2 (UpdateGame inp g)) = score (player2 g)
      \<and> (gameState (UpdateGame inp g) = PLAYING \<or> gameState (UpdateGame inp g) = MENU)"
    by (auto simp add: frame_runs_def UpdateGame_def playing_case_def toggle_pause_def
          split: if_splits)
  then show ?thesis by simp
qed

lemma UpdateGame_other_scores:
  assumes "gameState g \<noteq> PLAYING"
  shows "(score (player1 (UpdateGame inp g)) = score (player1 g)
          \<and> score (player2 (UpdateGame inp g)) = score (player2 g)
          \<and> (gameState (UpdateGame inp g) = gameState g
              \<or> gameState g = CREDITS \<and> gameState (UpdateGame inp g) = MENU
              \<or> gameState g = MENU \<and> gameState (UpdateGame inp g) = CREDITS))
       \<or> (score (player1 (UpdateGame inp g)) = 0
          \<and> score (player2 (UpdateGame inp g)) = 0
          \<and> (gameState (UpdateGame inp g) = MENU \<or> gameState (UpdateGame inp g) = PLAYING))"
proof (cases "gameState g")
  case MENU
  then show ?thesis
    by (simp add: UpdateGame_def menu_case_def menu_enter_def menu_navigate_def Let_def)
next
  case PLAYING
  with assms show ?thesis by simp
next
  case GAMEOVER
  then show ?thesis
    by (simp add: UpdateGame_def gameover_case_def)
next
  case CREDITS
  then show ?thesis
    by (simp add: UpdateGame_def credits_case_def Let_def)
qed

lemma scores_in_play_UpdateGame:
  assumes "scores_in_play g"
  shows "scores_in_play (UpdateGame inp g)"
proof (cases "gameState g = PLAYING")
  case True
  with assms UpdateGame_PLAYING_scores [OF True, of inp] show ?thesis
    by (auto simp add: scores_in_play_def split: if_splits)
next
  case False
  with assms UpdateGame_other_scores [OF False, of inp] show ?thesis
    by (auto simp add: scores_in_play_def)
qed

lemma scores_in_play_run:
  "scores_in_play g \<Longrightarrow> scores_in_play (run inps g)"
  by (induction inps arbitrary: g) (simp_all add: scores_in_play_UpdateGame)

text \<open>
  C3. In the same frame in which a player's score first reaches 10 the game goes from
  \<^verbatim>\<open>PLAYING\<close> to \<^verbatim>\<open>GAMEOVER\<close>, never in a later one, and along the flow of the game
  no score exceeds 10: a frame of \<^verbatim>\<open>PLAYING\<close> adds at most one point, to one player,
  and outside \<^verbatim>\<open>PLAYING\<close> no point is scored (scores stay or are reset to 0).
\<close>

theorem win_detection:
  assumes "scores_in_play g"
  shows "scores_in_play (run inps g)
       \<and> (score (player1 g) < WIN_SCORE \<and> score (player2 g) < WIN_SCORE
           \<and> (score (player1 (UpdateGame inp g)) = WIN_SCORE
               \<or> score (player2 (UpdateGame inp g)) = WIN_SCORE)
          \<longrightarrow> gameState g = PLAYING \<and> gameState (UpdateGame inp g) = GAMEOVER)
       \<and> (gameState g \<noteq> GAMEOVER \<and> gameState (UpdateGame inp g) = GAMEOVER
          \<longrightarrow> gameState g = PLAYING
              \<and> (score (player1 (UpdateGame inp g)) = WIN_SCORE
                  \<or> score (player2 (UpdateGame inp g)) = WIN_SCORE))
       \<and> (gameState g = PLAYING
          \<longrightarrow> score (player1 (UpdateGame inp g)) = score (player1 g)
                \<and> score (player2 (UpdateGame inp g)) = score (player2 g)
              \<or> score (player1 (UpdateGame inp g)) = score (player1 g) + 1
                \<and> score (player2 (UpdateGame inp g)) = score (player2 g)
              \<or> score (player1 (UpdateGame inp g)) = score (player1 g)
                \<and> score (player2 (UpdateGame inp g)) = score (player2 g) + 1)
       \<and> (gameState g \<noteq> PLAYING
          \<longrightarrow> score (player1 (UpdateGame inp g)) = score (player1 g)
                \<and> score (player2 (UpdateGame inp g)) = score (player2 g)
              \<or> score (player1 (UpdateGame inp g)) = 0
                \<and> score (player2 (UpdateGame inp g)) = 0)"
proof (intro conjI)
  show "scores_in_play (run inps g)"
    using assms by (rule scores_in_play_run)
next
  show "score (player1 g) < WIN_SCORE \<and> score (player2 g) < WIN_SCORE
           \<and> (score (player1 (UpdateGame inp g)) = WIN_SCORE
               \<or> score (player2 (UpdateGame inp g)) = WIN_SCORE)
          \<longrightarrow> gameState g = PLAYING \<and> gameState (UpdateGame inp g) = GAMEOVER"
  proof (cases "gameState g = PLAYING")
    case True
    from UpdateGame_PLAYING_scores [OF True, of inp] True show ?thesis
      by (auto split: if_splits)
  next
    case False
    from UpdateGame_other_scores [OF False, of inp] show ?thesis
      by auto
  qed
next
  show "gameState g \<noteq> GAMEOVER \<and> gameState (UpdateGame inp g) = GAMEOVER
          \<longrightarrow> gameState g = PLAYING
              \<and> (score (player1 (UpdateGame inp g)) = WIN_SCORE
                  \<or> score (player2 (UpdateGame inp g)) = WIN_SCORE)"
  proof (cases "gameState g = PLAYING")
    case True
    from UpdateGame_PLAYING_scores [OF True, of inp] True assms show ?thesis
      by (auto simp add: scores_in_play_def split: if_splits)
  next
    case False
    from UpdateGame_other_scores [OF False, of inp] show ?thesis
      by auto
  qed
next
  show "gameState g = PLAYING
          \<longrightarrow> score (player1 (UpdateGame inp g)) = score (player1 g)
                \<and> score (player2 (UpdateGame inp g)) = score (player2 g)
              \<or> score (player1 (UpdateGame inp g)) = score (player1 g) + 1
                \<and> score (player2 (UpdateGame inp g)) = score (player2 g)
              \<or> score (player1 (UpdateGame inp g)) = score (player1 g)
                \<and> score (player2 (UpdateGame inp g)) = score (player2 g) + 1"
    using UpdateGame_PLAYING_scores [of g inp] by auto
next
  show "gameState g \<noteq> PLAYING
          \<longrightarrow> score (player1 (UpdateGame inp g)) = score (player1 g)
                \<and> score (player2 (UpdateGame inp g)) = score (player2 g)
              \<or> score (player1 (UpdateGame inp g)) = 0
                \<and> score (player2 (UpdateGame inp g)) = 0"
    using UpdateGame_other_scores [of g inp] by auto
qed

lemma match_point_example_frame:
  "score (player1 (UpdateGame no_keys match_point_example)) = 10"
  "score (player2 (UpdateGame no_keys match_point_example)) = 7"
  "gameState (UpdateGame no_keys match_point_example) = GAMEOVER"
  unfolding match_point_example_def
  by (simp_all add: frame_defs no_keys_def zero_Particle_def)

text \<open>The program starts with the scores in play, and so they are in every run.\<close>

lemma scores_in_play_InitGame: "scores_in_play InitGame"
  by (simp add: scores_in_play_def InitGame_def ResetBall_def)

theorem win_detection_witness:
  "scores_in_play match_point_example
   \<and> gameState match_point_example = PLAYING
   \<and> score (player1 match_point_example) = 9
   \<and> score (player1 (UpdateGame no_keys match_point_example)) = WIN_SCORE
   \<and> gameState (UpdateGame no_keys match_point_example) = GAMEOVER
   \<and> scores_in_play (run [no_keys, no_keys] match_point_example)
   \<and> scores_in_play InitGame
   \<and> scores_in_play (run (replicate 55 hold_D) start_two_player)"
proof -
  have start: "scores_in_play match_point_example"
    "gameState match_point_example = PLAYING"
    "score (player1 match_point_example) = 9" "score (player2 match_point_example) = 7"
    by (simp_all add: match_point_example_def scores_in_play_def)
  have "run (replicate 55 hold_D) start_two_player
          = run ([no_keys\<lparr>KEY_DOWN_pressed := True\<rparr>, no_keys\<lparr>KEY_ENTER_pressed := True\<rparr>]
                 @ replicate 55 hold_D) InitGame"
    by (simp add: start_two_player_def run_append)
  with win_detection [OF scores_in_play_InitGame,
      of "[no_keys\<lparr>KEY_DOWN_pressed := True\<rparr>, no_keys\<lparr>KEY_ENTER_pressed := True\<rparr>]
          @ replicate 55 hold_D" no_keys]
  have "scores_in_play (run (replicate 55 hold_D) start_two_player)"
    by simp
  with win_detection [OF start(1), of "[no_keys, no_keys]" no_keys]
  show ?thesis
    using start match_point_example_frame(1) scores_in_play_InitGame by simp
qed

subsection \<open>The particle pool\<close>

lemma active_inactive_count: "active_count ps + inactive_count ps = length ps"
  by (simp add: active_count_def inactive_count_def sum_length_filter_compl)

lemma find_inactive_Some:
  "find_inactive ps j = Some k \<Longrightarrow> j \<le> k \<and> k < MAX_PARTICLES \<and> \<not> active (ps ! k)"
proof (induction ps j rule: find_inactive.induct)
  case (1 ps j)
  show ?case
  proof (cases "j < MAX_PARTICLES \<and> active (ps ! j)")
    case True
    with 1(2) have "find_inactive ps (j + 1) = Some k"
      by (simp add: find_inactive.simps [of ps j])
    with 1(1) True show ?thesis by fastforce
  next
    case False
    with 1(2) show ?thesis
      by (auto simp add: find_inactive.simps [of ps j] split: if_splits)
  qed
qed

lemma find_inactive_None:
  "find_inactive ps j = None \<Longrightarrow> j \<le> i \<Longrightarrow> i < MAX_PARTICLES \<Longrightarrow> active (ps ! i)"
proof (induction ps j rule: find_inactive.induct)
  case (1 ps j)
  from 1(2) 1(3) 1(4) have here: "j < MAX_PARTICLES" "active (ps ! j)"
    and rest: "find_inactive ps (j + 1) = None"
    by (auto simp add: find_inactive.simps [of ps j] split: if_splits)
  show ?case
  proof (cases "i = j")
    case True
    with here show ?thesis by simp
  next
    case False
    with 1(3) have "j + 1 \<le> i" by simp
    with 1(1) here rest 1(4) show ?thesis by simp
  qed
qed

lemma find_inactive_None_count:
  assumes "find_inactive ps 0 = None" and "length ps = MAX_PARTICLES"
  shows "inactive_count ps = 0"
proof -
  have "\<forall>p \<in> set ps. active p"
  proof
    fix p assume "p \<in> set ps"
    then obtain i where "i < length ps" "ps ! i = p" by (auto simp add: in_set_conv_nth)
    with find_inactive_None [OF assms(1), of i] assms(2) show "active p" by auto
  qed
  then show ?thesis by (simp add: inactive_count_def)
qed

lemma active_count_claim:
  assumes "k < length ps" and "\<not> active (ps ! k)" and "active q"
  shows "active_count (ps[k := q]) = active_count ps + 1"
proof -
  have "ps = take k ps @ ps ! k # drop (Suc k) ps"
    using assms(1) by (simp add: id_take_nth_drop)
  then have "active_count ps = active_count (take k ps) + active_count (drop (Suc k) ps)"
    using assms(2) by (metis active_count_def filter.simps(2) filter_append length_append)
  moreover have "ps[k := q] = take k ps @ q # drop (Suc k) ps"
    using assms(1) by (simp add: upd_conv_take_nth_drop)
  then have "active_count (ps[k := q]) = active_count (take k ps) + 1 + active_count (drop (Suc k) ps)"
    using assms(3) by (simp add: active_count_def)
  ultimately show ?thesis by simp
qed

lemma new_particle_active: "active (new_particle pos r p)"
  by (simp add: new_particle_def Let_def split: prod.splits)


text \<open>One pass of the outer loop: claim the first inactive slot, if there is one.\<close>

lemma claim_slot_count:
  assumes "length ps = MAX_PARTICLES"
  shows "active_count (case find_inactive ps 0 of
                         Some j \<Rightarrow> ps[j := new_particle pos r (ps ! j)] | None \<Rightarrow> ps)
         = active_count ps + (if inactive_count ps = 0 then 0 else 1)"
proof (cases "find_inactive ps 0")
  case None
  with find_inactive_None_count [OF None assms] show ?thesis by simp
next
  case (Some j)
  from find_inactive_Some [OF Some] assms have j: "j < length ps" "\<not> active (ps ! j)"
    by simp_all
  then have "ps ! j \<in> set ps" by simp
  with j(2) have "filter (\<lambda>p. \<not> active p) ps \<noteq> []"
    by (auto simp add: filter_empty_conv)
  then have "inactive_count ps \<noteq> 0" by (simp add: inactive_count_def)
  with Some active_count_claim [OF j new_particle_active] show ?thesis by simp
qed

lemma claim_slot_length:
  "length (case find_inactive ps 0 of
             Some j \<Rightarrow> ps[j := new_particle pos r (ps ! j)] | None \<Rightarrow> ps) = length ps"
  by (simp split: option.splits)

lemma claim_slot_keeps_active:
  assumes "active (ps ! i)"
  shows "(case find_inactive ps 0 of
            Some j \<Rightarrow> ps[j := new_particle pos r (ps ! j)] | None \<Rightarrow> ps) ! i = ps ! i"
proof (cases "find_inactive ps 0")
  case None
  then show ?thesis by simp
next
  case (Some j)
  from find_inactive_Some [OF Some] assms have "j \<noteq> i" by auto
  with Some show ?thesis by simp
qed

lemma spawn_loop_length: "length (spawn_loop pos count rnd i ps) = length ps"
proof (induction pos count rnd i ps rule: spawn_loop.induct)
  case (1 pos count rnd i ps)
  show ?case
  proof (cases "int i < count \<and> i < MAX_PARTICLES")
    case True
    with 1 show ?thesis
      by (simp add: spawn_loop.simps [of pos count rnd i ps] claim_slot_length)
  next
    case False
    then show ?thesis by (auto simp add: spawn_loop.simps [of pos count rnd i ps])
  qed
qed

lemma spawn_loop_keeps_active:
  "active (ps ! k) \<Longrightarrow> spawn_loop pos count rnd i ps ! k = ps ! k"
proof (induction pos count rnd i ps rule: spawn_loop.induct)
  case (1 pos count rnd i ps)
  show ?case
  proof (cases "int i < count \<and> i < MAX_PARTICLES")
    case True
    let ?ps = "case find_inactive ps 0 of
                 Some j \<Rightarrow> ps[j := new_particle pos (rnd i) (ps ! j)] | None \<Rightarrow> ps"
    have same: "?ps ! k = ps ! k"
      using 1(2) by (rule claim_slot_keeps_active)
    with 1(2) have "active (?ps ! k)" by simp
    with 1(1) True have "spawn_loop pos count rnd (i + 1) ?ps ! k = ?ps ! k" by simp
    with same True show ?thesis
      by (simp add: spawn_loop.simps [of pos count rnd i ps])
  next
    case False
    then show ?thesis by (auto simp add: spawn_loop.simps [of pos count rnd i ps])
  qed
qed

lemma spawn_loop_count:
  "length ps = MAX_PARTICLES \<Longrightarrow>
     active_count (spawn_loop pos count rnd i ps)
       = active_count ps + min (nat (min count (int MAX_PARTICLES)) - i) (inactive_count ps)"
proof (induction pos count rnd i ps rule: spawn_loop.induct)
  case (1 pos count rnd i ps)
  show ?case
  proof (cases "int i < count \<and> i < MAX_PARTICLES")
    case True
    let ?ps = "case find_inactive ps 0 of
                 Some j \<Rightarrow> ps[j := new_particle pos (rnd i) (ps ! j)] | None \<Rightarrow> ps"
    have len: "length ?ps = MAX_PARTICLES"
      using 1(2) by (simp add: claim_slot_length)
    have act: "active_count ?ps = active_count ps + (if inactive_count ps = 0 then 0 else 1)"
      using 1(2) by (rule claim_slot_count)
    have "active_count ?ps + inactive_count ?ps = active_count ps + inactive_count ps"
      using len 1(2) by (simp add: active_inactive_count)
    with act have inact: "inactive_count ?ps = inactive_count ps - 1"
      by (simp split: if_splits)
    have "active_count (spawn_loop pos count rnd (i + 1) ?ps)
            = active_count ?ps + min (nat (min count (int MAX_PARTICLES)) - (i + 1)) (inactive_count ?ps)"
      using 1(1) True len by simp
    moreover have "spawn_loop pos count rnd i ps = spawn_loop pos count rnd (i + 1) ?ps"
      using True by (simp add: spawn_loop.simps [of pos count rnd i ps])
    moreover have "i < nat (min count (int MAX_PARTICLES))"
      using True by (auto simp add: min_def)
    ultimately show ?thesis
      using act inact by (simp split: if_splits) linarith
  next
    case False
    then have "nat (min count (int MAX_PARTICLES)) - i = 0" by auto
    with False show ?thesis by (auto simp add: spawn_loop.simps [of pos count rnd i ps])
  qed
qed

text \<open>
  C8. Emitting particles with requested count \<open>n\<close> into the pool of 100 slots of which
  \<open>k\<close> are inactive activates exactly \<open>min n (min k 100)\<close> particles and drops the
  rest: the pool keeps its 100 slots, and slots that were active are left as they were.
  Emitting 15 into an empty pool gives exactly 15 active slots, emitting 200 when all 100
  slots are free gives exactly 100.
\<close>

theorem particle_emission_fills_free_slots:
  assumes "length (particles g) = MAX_PARTICLES"
  shows "active_count (particles (SpawnGroundParticles pos n rnd g))
           = active_count (particles g)
             + min (nat n) (min (inactive_count (particles g)) MAX_PARTICLES)
       \<and> length (particles (SpawnGroundParticles pos n rnd g)) = MAX_PARTICLES
       \<and> (\<forall>k < MAX_PARTICLES. active (particles g ! k) \<longrightarrow>
             particles (SpawnGroundParticles pos n rnd g) ! k = particles g ! k)"
proof -
  have "nat (min n (int MAX_PARTICLES)) - 0 = min (nat n) MAX_PARTICLES"
    by (simp add: min_def) linarith
  with spawn_loop_count [OF assms, of pos n rnd 0]
  have "active_count (spawn_loop pos n rnd 0 (particles g))
          = active_count (particles g)
            + min (nat n) (min (inactive_count (particles g)) MAX_PARTICLES)"
    by (simp add: min.commute min.left_commute)
  then show ?thesis
    using assms by (simp add: SpawnGroundParticles_def spawn_loop_length spawn_loop_keeps_active)
qed

theorem particle_emission_fills_free_slots_witness:
  "length (particles InitGame) = MAX_PARTICLES
   \<and> active_count (particles InitGame) = 0
   \<and> inactive_count (particles InitGame) = 100
   \<and> active_count (particles (SpawnGroundParticles \<lparr>x = 256, y = 718\<rparr> 15
                                (random_particle no_keys) InitGame)) = 15
   \<and> active_count (particles (SpawnGroundParticles \<lparr>x = 256, y = 718\<rparr> 200
                                (random_particle no_keys) InitGame)) = 100"
proof -
  have pool: "length (particles InitGame) = MAX_PARTICLES"
    "active_count (particles InitGame) = 0" "inactive_count (particles InitGame) = 100"
    by (simp_all add: InitGame_def active_count_def inactive_count_def zero_Particle_def)
  from particle_emission_fills_free_slots [OF pool(1), of "\<lparr>x = 256, y = 718\<rparr>" 15 "random_particle no_keys"]
    particle_emission_fills_free_slots [OF pool(1), of "\<lparr>x = 256, y = 718\<rparr>" 200 "random_particle no_keys"]
  show ?thesis
    using pool by simp
qed

subsection \<open>The player-ball collision\<close>

text \<open>The block of a player that hits the ball, and the frame around the two blocks.\<close>

lemma ball_player1_hit:
  "player1_hits g \<Longrightarrow> ball (ball_player1 g) = player_ball_collision (player1 g) (ball g)"
  by (simp add: player1_hits_def ball_player1_def)

lemma ball_player2_hit:
  "player2_hits g \<Longrightarrow> ball (ball_player2 g) = player_ball_collision (player2 g) (ball g)"
  by (simp add: player2_hits_def ball_player2_def)

lemma UpdateGame_players:
  "frame_runs inp g \<Longrightarrow>
     UpdateGame inp g = ball_ground (random_particle inp) (ball_player2 (at_player2_check inp g))"
  by (simp add: UpdateGame_frame before_ground_def at_player2_check_def at_player1_check_def)

text \<open>The source's normal and reflection are the unit normal and the mirror formula.\<close>

lemma collision_normal_unit_normal:
  "0 < centre_distance p b \<Longrightarrow> collision_normal p b = unit_normal p b"
  by (simp add: collision_normal_def unit_normal_def centre_distance_def Let_def)

lemma reflect_velocity_mirror:
  "reflect_velocity n b = b\<lparr>velocity := mirror (velocity b) n\<rparr>"
  by (simp add: reflect_velocity_def mirror_def dot_product_def Let_def)

lemma player_ball_collision_reflected:
  assumes "0 < centre_distance p b"
  shows "player_ball_collision p b =
           push_out p (unit_normal p b)
             (clamp_speed (velocity_influence p (energy_loss (reflected p b))))"
  by (simp add: player_ball_collision_def Let_def collision_normal_unit_normal [OF assms]
        reflect_velocity_mirror reflected_def)

text \<open>A ball whose squared speed is at most 225 passes the clamp unchanged.\<close>

lemma clamp_speed_slow:
  assumes "x (velocity b) * x (velocity b) + y (velocity b) * y (velocity b) \<le> 225"
  shows "clamp_speed b = b"
proof -
  have "sqrt (x (velocity b) * x (velocity b) + y (velocity b) * y (velocity b)) \<le> sqrt (15 * 15)"
    using assms by (intro real_sqrt_le_mono) simp
  then show ?thesis
    by (simp add: clamp_speed_def Let_def)
qed

text \<open>In exact arithmetic the unit normal has length 1.\<close>

lemma unit_normal_length:
  assumes "0 < centre_distance p b"
  shows "dot_product (unit_normal p b) (unit_normal p b) = 1"
proof -
  define dx dy where "dx = x (position b) - x (position p)"
    and "dy = y (position b) - y (position p)"
  define s where "s = centre_distance p b"
  have s: "0 < s" "s = sqrt (dx * dx + dy * dy)"
    using assms by (simp_all add: s_def centre_distance_def dx_def dy_def)
  then have "0 < dx * dx + dy * dy"
    by simp
  then have square: "s * s = dx * dx + dy * dy"
    by (simp add: s(2))
  have "(dx / s) * (dx / s) + (dy / s) * (dy / s) = (dx * dx + dy * dy) / (s * s)"
    by (simp add: add_divide_distrib)
  also have "\<dots> = 1"
    using s(1) by (simp add: square [symmetric])
  finally show ?thesis
    by (simp add: dot_product_def unit_normal_def s_def dx_def dy_def)
qed

text \<open>The examples.\<close>

lemma sqrt_361: "sqrt 361 = 19"
  by (rule real_sqrt_unique) simp_all

lemma sqrt_484: "sqrt 484 = 22"
  by (rule real_sqrt_unique) simp_all

lemma sqrt_676: "sqrt 676 = 26"
  by (rule real_sqrt_unique) simp_all

lemma sqrt_6084: "sqrt 6084 = 78"
  by (rule real_sqrt_unique) simp_all

lemma before_first_hit_state:
  "before_first_hit =
     \<lparr>gameState = PLAYING, gameMode = TWO_PLAYER, pause = False, framesCounter = 51,
      player1 = \<lparr>position = \<lparr>x = 256, y = 668\<rparr>, velocity = \<lparr>x = 0, y = 0\<rparr>,
                 radius = 50, side = LEFT, score = 0, onGround = True\<rparr>,
      player2 = \<lparr>position = \<lparr>x = 768, y = 668\<rparr>, velocity = \<lparr>x = 0, y = 0\<rparr>,
                 radius = 50, side = RIGHT, score = 0, onGround = True\<rparr>,
      ball = \<lparr>position = \<lparr>x = 256, y = 2852 / 5\<rparr>, velocity = \<lparr>x = 0, y = 98 / 5\<rparr>,
              radius = 35,
              trail = [\<lparr>x = 256, y = 2756 / 5\<rparr>, \<lparr>x = 256, y = 514\<rparr>, \<lparr>x = 256, y = 2392 / 5\<rparr>],
              trailCount = 3, rotation = 0\<rparr>,
      particles = replicate MAX_PARTICLES zero_Particle,
      aiJumpCooldown = 0, servingSide = LEFT, scoreDelayTimer = 0, menuSelection = 1,
      creditsScroll = 0, shouldExitGame = False, matchTimer = 49\<rparr>"
  unfolding before_first_hit_def start_two_player_state
  by (simp add: frame_defs no_keys_def zero_Particle_def)

lemma first_landing_state:
  "first_landing =
     \<lparr>gameState = PLAYING, gameMode = TWO_PLAYER, pause = False, framesCounter = 57,
      player1 = \<lparr>position = \<lparr>x = 461, y = 668\<rparr>, velocity = \<lparr>x = 4, y = 0\<rparr>,
                 radius = 50, side = LEFT, score = 0, onGround = True\<rparr>,
      player2 = \<lparr>position = \<lparr>x = 768, y = 668\<rparr>, velocity = \<lparr>x = 0, y = 0\<rparr>,
                 radius = 50, side = RIGHT, score = 1, onGround = True\<rparr>,
      ball = \<lparr>position = \<lparr>x = 256, y = 683\<rparr>, velocity = \<lparr>x = 0, y = - 22\<rparr>,
              radius = 35,
              trail = [\<lparr>x = 256, y = 3362 / 5\<rparr>, \<lparr>x = 256, y = 3152 / 5\<rparr>, \<lparr>x = 256, y = 590\<rparr>],
              trailCount = 3, rotation = 0\<rparr>,
      particles = spawn_loop \<lparr>x = 256, y = 718\<rparr> 15 (\<lambda>i. (- 90, 4, 1)) 0
                    (replicate MAX_PARTICLES zero_Particle),
      aiJumpCooldown = 0, servingSide = RIGHT, scoreDelayTimer = 120, menuSelection = 1,
      creditsScroll = 0, shouldExitGame = False, matchTimer = 55\<rparr>"
  unfolding first_landing_def before_first_landing_state
  by (simp add: frame_defs hold_D_def no_keys_def zero_Particle_def)

text \<open>
  The 50th frame of the untouched match, at the player-1 block: the ball, falling with
  velocity \<open>(0, 20)\<close>, overlaps player 1 straight below it.
\<close>

lemma first_hit_check:
  "frame_runs no_keys before_first_hit"
  "scoreDelayTimer (at_player1_check no_keys before_first_hit) = 0"
  "player1 (at_player1_check no_keys before_first_hit) =
     \<lparr>position = \<lparr>x = 256, y = 668\<rparr>, velocity = \<lparr>x = 0, y = 0\<rparr>,
      radius = 50, side = LEFT, score = 0, onGround = True\<rparr>"
  "player2 (at_player1_check no_keys before_first_hit) =
     \<lparr>position = \<lparr>x = 768, y = 668\<rparr>, velocity = \<lparr>x = 0, y = 0\<rparr>,
      radius = 50, side = RIGHT, score = 0, onGround = True\<rparr>"
  "ball (at_player1_check no_keys before_first_hit) =
     \<lparr>position = \<lparr>x = 256, y = 590\<rparr>, velocity = \<lparr>x = 0, y = 20\<rparr>, radius = 35,
      trail = [\<lparr>x = 256, y = 590\<rparr>, \<lparr>x = 256, y = 2756 / 5\<rparr>, \<lparr>x = 256, y = 514\<rparr>],
      trailCount = 3, rotation = 0\<rparr>"
  unfolding before_first_hit_state at_player1_check_def frame_start_def
  by (simp_all add: frame_runs_def frame_defs no_keys_def zero_Particle_def)

text \<open>
  The frame of the centre-line example, at the player-2 block: player 1 is far from the
  ball, and player 2, walking to the left, overlaps it.
\<close>

lemma centre_line_check:
  "frame_runs hold_LEFT centre_line_example"
  "scoreDelayTimer (at_player2_check hold_LEFT centre_line_example) = 0"
  "player2 (at_player2_check hold_LEFT centre_line_example) =
     \<lparr>position = \<lparr>x = 563, y = 668\<rparr>, velocity = \<lparr>x = - 4, y = 0\<rparr>,
      radius = 50, side = RIGHT, score = 3, onGround = True\<rparr>"
  "ball (at_player2_check hold_LEFT centre_line_example) =
     \<lparr>position = \<lparr>x = 560, y = 672\<rparr>, velocity = \<lparr>x = 0, y = 2 / 5\<rparr>, radius = 35,
      trail = [\<lparr>x = 560, y = 672\<rparr>, \<lparr>x = 560, y = 672\<rparr>, \<lparr>x = 560, y = 672\<rparr>],
      trailCount = 3, rotation = 0\<rparr>"
  unfolding centre_line_example_def at_player2_check_def at_player1_check_def frame_start_def
  by (simp_all add: frame_runs_def frame_defs hold_LEFT_def no_keys_def zero_Particle_def)

text \<open>
  C4. In a frame that runs the simulation, the two player-ball blocks are what the frame
  does between the net collision and the ground check. When the block of a player fires
  (no score delay, the circles overlap) and the centres are at a distance above zero, the
  ball it leaves is the ball that has the mirrored velocity \<open>v' = v - 2 (v \<cdot> n) n\<close>, for
  the incoming velocity \<open>v\<close> and the unit vector \<open>n\<close> from the player's centre to the
  ball's, with the 5 percent damping, the player's influence, the clamp and the push-out
  applied to it in this order: \<open>v'\<close> is the velocity right after the reflection and
  before the damping.
\<close>

theorem reflection_law:
  assumes "frame_runs inp g"
  shows "UpdateGame inp g
           = ball_ground (random_particle inp) (ball_player2 (at_player2_check inp g))
       \<and> at_player2_check inp g = ball_player1 (at_player1_check inp g)
       \<and> (player1_hits (at_player1_check inp g)
            \<and> 0 < centre_distance (player1 (at_player1_check inp g))
                     (ball (at_player1_check inp g)) \<longrightarrow>
          ball (at_player2_check inp g) =
            push_out (player1 (at_player1_check inp g))
              (unit_normal (player1 (at_player1_check inp g)) (ball (at_player1_check inp g)))
              (clamp_speed (velocity_influence (player1 (at_player1_check inp g))
                 (energy_loss (reflected (player1 (at_player1_check inp g))
                                 (ball (at_player1_check inp g)))))))
       \<and> (player2_hits (at_player2_check inp g)
            \<and> 0 < centre_distance (player2 (at_player2_check inp g))
                     (ball (at_player2_check inp g)) \<longrightarrow>
          ball (ball_player2 (at_player2_check inp g)) =
            push_out (player2 (at_player2_check inp g))
              (unit_normal (player2 (at_player2_check inp g)) (ball (at_player2_check inp g)))
              (clamp_speed (velocity_influence (player2 (at_player2_check inp g))
                 (energy_loss (reflected (player2 (at_player2_check inp g))
                                 (ball (at_player2_check inp g)))))))
       \<and> velocity (reflected p b) =
           \<lparr>x = x (velocity b)
                  - 2 * (x (velocity b) * x (unit_normal p b)
                         + y (velocity b) * y (unit_normal p b)) * x (unit_normal p b),
            y = y (velocity b)
                  - 2 * (x (velocity b) * x (unit_normal p b)
                         + y (velocity b) * y (unit_normal p b)) * y (unit_normal p b)\<rparr>"
proof (intro conjI impI)
  show "UpdateGame inp g
      = ball_ground (random_particle inp) (ball_player2 (at_player2_check inp g))"
    using assms by (rule UpdateGame_players)
  show "at_player2_check inp g = ball_player1 (at_player1_check inp g)"
    by (simp add: at_player2_check_def)
next
  let ?h = "at_player1_check inp g"
  assume "player1_hits ?h \<and> 0 < centre_distance (player1 ?h) (ball ?h)"
  then show "ball (at_player2_check inp g) =
      push_out (player1 ?h) (unit_normal (player1 ?h) (ball ?h))
        (clamp_speed (velocity_influence (player1 ?h)
           (energy_loss (reflected (player1 ?h) (ball ?h)))))"
    by (simp add: at_player2_check_def ball_player1_hit player_ball_collision_reflected)
next
  let ?k = "at_player2_check inp g"
  assume "player2_hits ?k \<and> 0 < centre_distance (player2 ?k) (ball ?k)"
  then show "ball (ball_player2 ?k) =
      push_out (player2 ?k) (unit_normal (player2 ?k) (ball ?k))
        (clamp_speed (velocity_influence (player2 ?k)
           (energy_loss (reflected (player2 ?k) (ball ?k)))))"
    by (simp add: ball_player2_hit player_ball_collision_reflected)
next
  show "velocity (reflected p b) =
           \<lparr>x = x (velocity b)
                  - 2 * (x (velocity b) * x (unit_normal p b)
                         + y (velocity b) * y (unit_normal p b)) * x (unit_normal p b),
            y = y (velocity b)
                  - 2 * (x (velocity b) * x (unit_normal p b)
                         + y (velocity b) * y (unit_normal p b)) * y (unit_normal p b)\<rparr>"
    by (simp add: reflected_def mirror_def dot_product_def)
qed

theorem reflection_law_witness:
  "frame_runs no_keys before_first_hit
   \<and> player1_hits (at_player1_check no_keys before_first_hit)
   \<and> centre_distance (player1 (at_player1_check no_keys before_first_hit))
        (ball (at_player1_check no_keys before_first_hit)) = 78
   \<and> velocity (ball (at_player1_check no_keys before_first_hit)) = \<lparr>x = 0, y = 20\<rparr>
   \<and> velocity (reflected (player1 (at_player1_check no_keys before_first_hit))
                  (ball (at_player1_check no_keys before_first_hit))) = \<lparr>x = 0, y = - 20\<rparr>
   \<and> position (ball (UpdateGame no_keys before_first_hit)) = \<lparr>x = 256, y = 583\<rparr>
   \<and> velocity (ball (UpdateGame no_keys before_first_hit)) = \<lparr>x = 0, y = - 15\<rparr>
   \<and> frame_runs hold_LEFT centre_line_example
   \<and> player2_hits (at_player2_check hold_LEFT centre_line_example)
   \<and> centre_distance (player2 (at_player2_check hold_LEFT centre_line_example))
        (ball (at_player2_check hold_LEFT centre_line_example)) = 5
   \<and> velocity (ball (at_player2_check hold_LEFT centre_line_example)) = \<lparr>x = 0, y = 2 / 5\<rparr>
   \<and> velocity (reflected (player2 (at_player2_check hold_LEFT centre_line_example))
                  (ball (at_player2_check hold_LEFT centre_line_example)))
       = \<lparr>x = 48 / 125, y = - (14 / 125)\<rparr>
   \<and> velocity (ball (ball_player2 (at_player2_check hold_LEFT centre_line_example)))
       = \<lparr>x = - (1522 / 625), y = - (133 / 1250)\<rparr>"
proof -
  let ?h = "at_player1_check no_keys before_first_hit"
  let ?k = "at_player2_check hold_LEFT centre_line_example"
  note law1 = reflection_law [OF first_hit_check(1), of "player1 ?h" "ball ?h"]
  note law2 = reflection_law [OF centre_line_check(1), of "player2 ?k" "ball ?k"]
  have hits1: "player1_hits ?h"
    by (simp add: player1_hits_def first_hit_check CheckCollisionCircles_def)
  have far1: "centre_distance (player1 ?h) (ball ?h) = 78"
    by (simp add: centre_distance_def first_hit_check sqrt_6084)
  have normal1: "unit_normal (player1 ?h) (ball ?h) = \<lparr>x = 0, y = - 1\<rparr>"
    by (simp add: unit_normal_def far1) (simp add: first_hit_check)
  have mirrored1: "velocity (reflected (player1 ?h) (ball ?h)) = \<lparr>x = 0, y = - 20\<rparr>"
    using law1 [THEN conjunct2, THEN conjunct2, THEN conjunct2, THEN conjunct2]
    by (simp only: normal1) (simp add: first_hit_check)
  have "ball (at_player2_check no_keys before_first_hit) =
      push_out (player1 ?h) (unit_normal (player1 ?h) (ball ?h))
        (clamp_speed (velocity_influence (player1 ?h)
           (energy_loss (reflected (player1 ?h) (ball ?h)))))"
    using law1 hits1 far1 by auto
  then have after1: "ball (at_player2_check no_keys before_first_hit) =
      \<lparr>position = \<lparr>x = 256, y = 583\<rparr>, velocity = \<lparr>x = 0, y = - 15\<rparr>, radius = 35,
       trail = [\<lparr>x = 256, y = 590\<rparr>, \<lparr>x = 256, y = 2756 / 5\<rparr>, \<lparr>x = 256, y = 514\<rparr>],
       trailCount = 3, rotation = 0\<rparr>"
    by (simp only: reflected_def normal1)
       (simp add: mirror_def dot_product_def energy_loss_def velocity_influence_def
          clamp_speed_def Let_def push_out_def first_hit_check sqrt_361)
  have others1: "player2 (at_player2_check no_keys before_first_hit) = player2 ?h"
      "scoreDelayTimer (at_player2_check no_keys before_first_hit) = 0"
    by (simp_all add: at_player2_check_def first_hit_check)
  have "ball (UpdateGame no_keys before_first_hit) = ball (at_player2_check no_keys before_first_hit)"
    using law1
    by (simp add: ball_player2_def ball_ground_def CheckCollisionCircles_def after1 others1
          first_hit_check)
  then have end1: "position (ball (UpdateGame no_keys before_first_hit)) = \<lparr>x = 256, y = 583\<rparr>"
      "velocity (ball (UpdateGame no_keys before_first_hit)) = \<lparr>x = 0, y = - 15\<rparr>"
    by (simp_all add: after1)
  have hits2: "player2_hits ?k"
    by (simp add: player2_hits_def centre_line_check CheckCollisionCircles_def)
  have far2: "centre_distance (player2 ?k) (ball ?k) = 5"
    by (simp add: centre_distance_def centre_line_check sqrt_25)
  have normal2: "unit_normal (player2 ?k) (ball ?k) = \<lparr>x = - (3 / 5), y = 4 / 5\<rparr>"
    by (simp add: unit_normal_def far2) (simp add: centre_line_check)
  have mirrored2: "velocity (reflected (player2 ?k) (ball ?k)) = \<lparr>x = 48 / 125, y = - (14 / 125)\<rparr>"
    using law2 [THEN conjunct2, THEN conjunct2, THEN conjunct2, THEN conjunct2]
    by (simp only: normal2) (simp add: centre_line_check)
  have "ball (ball_player2 ?k) =
      push_out (player2 ?k) (unit_normal (player2 ?k) (ball ?k))
        (clamp_speed (velocity_influence (player2 ?k)
           (energy_loss (reflected (player2 ?k) (ball ?k)))))"
    using law2 hits2 far2 by auto
  moreover have "velocity_influence (player2 ?k) (energy_loss (reflected (player2 ?k) (ball ?k)))
      = \<lparr>position = \<lparr>x = 560, y = 672\<rparr>,
         velocity = \<lparr>x = - (1522 / 625), y = - (133 / 1250)\<rparr>, radius = 35,
         trail = [\<lparr>x = 560, y = 672\<rparr>, \<lparr>x = 560, y = 672\<rparr>, \<lparr>x = 560, y = 672\<rparr>],
         trailCount = 3, rotation = 0\<rparr>"
    by (simp only: reflected_def normal2)
       (simp add: mirror_def dot_product_def energy_loss_def velocity_influence_def
          centre_line_check)
  moreover have "clamp_speed
       \<lparr>position = \<lparr>x = 560, y = 672\<rparr>,
        velocity = \<lparr>x = - (1522 / 625), y = - (133 / 1250)\<rparr>, radius = 35,
        trail = [\<lparr>x = 560, y = 672\<rparr>, \<lparr>x = 560, y = 672\<rparr>, \<lparr>x = 560, y = 672\<rparr>],
        trailCount = 3, rotation = 0\<rparr>
      = \<lparr>position = \<lparr>x = 560, y = 672\<rparr>,
         velocity = \<lparr>x = - (1522 / 625), y = - (133 / 1250)\<rparr>, radius = 35,
         trail = [\<lparr>x = 560, y = 672\<rparr>, \<lparr>x = 560, y = 672\<rparr>, \<lparr>x = 560, y = 672\<rparr>],
         trailCount = 3, rotation = 0\<rparr>"
    by (rule clamp_speed_slow) simp
  ultimately have after2:
    "velocity (ball (ball_player2 ?k)) = \<lparr>x = - (1522 / 625), y = - (133 / 1250)\<rparr>"
    by (simp add: push_out_def)
  show ?thesis
    using first_hit_check(1) centre_line_check(1) hits1 far1 mirrored1 end1 hits2 far2
      mirrored2 after2
    by (simp add: first_hit_check centre_line_check)
qed

subsection \<open>The speed clamp and the rounding of float arithmetic\<close>

text \<open>Without rounding the clamp of the float model is the clamp of the frame.\<close>

lemma speed_fl_exact: "speed_fl (\<lambda>t. t) b = ball_speed b"
  by (simp add: speed_fl_def ball_speed_def)

lemma clamp_speed_fl_exact: "clamp_speed_fl (\<lambda>t. t) b = clamp_speed b"
  by (simp add: clamp_speed_fl_def clamp_speed_def speed_fl_def Let_def)

text \<open>The velocity that a player-ball block leaves is the one that leaves the clamp.\<close>

lemma player_ball_collision_velocity:
  "velocity (player_ball_collision p b) =
     velocity (clamp_speed (velocity_influence p
       (energy_loss (reflect_velocity (collision_normal p b) b))))"
  by (simp add: player_ball_collision_def push_out_def Let_def)

text \<open>Walls, ceiling, net and ground only change signs, and the net damps the fall.\<close>

lemma ball_walls_speed: "ball_speed (ball_walls b) = ball_speed b"
  by (simp add: ball_walls_def ball_speed_def Let_def)

lemma ball_net_horizontal: "\<bar>x (velocity (ball_net b))\<bar> = \<bar>x (velocity b)\<bar>"
  by (simp add: ball_net_def Let_def)

lemma ball_ground_speed:
  "ball_speed (ball (ball_ground rnd g)) = ball_speed (ball g)"
  by (simp add: ball_ground_def ground_bounce_def ball_speed_def)

text \<open>The error of one rounded operation, and the sizes of squares and roots.\<close>

lemma rounding_error:
  assumes "binary32_accurate fl" and "\<bar>t\<bar> \<le> 10000000"
  shows "\<bar>fl t - t\<bar> \<le> \<bar>t\<bar> / 8388608 + 1 / 1000000000000000000000000000000"
proof -
  have "\<bar>fl t - t\<bar> \<le> \<bar>t\<bar> / 2 ^ 23 + 1 / 2 ^ 149"
    using assms by (simp add: binary32_accurate_def)
  moreover have "(1::real) / 2 ^ 149 \<le> 1 / 1000000000000000000000000000000"
    by simp
  ultimately show ?thesis by simp
qed

lemma sqrt_le_Suc: "\<bar>sqrt t\<bar> \<le> 1 + \<bar>t\<bar>"
proof -
  have "sqrt \<bar>t\<bar> \<le> 1 + \<bar>t\<bar>"
    by (rule real_le_lsqrt) (simp_all add: power2_eq_square algebra_simps)
  then show ?thesis by (simp add: real_sqrt_abs')
qed

lemma square_bound:
  fixes a :: real
  assumes "\<bar>a\<bar> \<le> 1000"
  shows "0 \<le> a * a" "a * a \<le> 1000000"
proof -
  show "0 \<le> a * a" by simp
  have "\<bar>a\<bar> * \<bar>a\<bar> \<le> 1000 * 1000"
    using assms by (intro mult_mono) simp_all
  then show "a * a \<le> 1000000" by (simp add: abs_mult_self_eq)
qed

text \<open>
  The speed of line 737, computed with rounding from the components \<open>a\<close> and \<open>b\<close>, when
  it is above 15: it lies within 4 roundings of the exact magnitude.
\<close>

lemma rounded_speed_bounds:
  fixes a b :: real
  assumes acc: "binary32_accurate fl"
    and ra: "\<bar>a\<bar> \<le> 1000" and rb: "\<bar>b\<bar> \<le> 1000"
    and r: "r = fl (sqrt (fl (fl (a * a) + fl (b * b))))"
    and big: "15 < r"
  shows "2097151 / 2097152 * sqrt (a * a + b * b) \<le> r"
    and "r \<le> 2097153 / 2097152 * sqrt (a * a + b * b)"
    and "13 \<le> sqrt (a * a + b * b)"
proof -
  define A B T where "A = a * a" and "B = b * b" and "T = a * a + b * b"
  have A: "0 \<le> A" "A \<le> 1000000" and B: "0 \<le> B" "B \<le> 1000000"
    using square_bound [OF ra] square_bound [OF rb] by (simp_all add: A_def B_def)
  have T: "T = A + B" by (simp add: T_def A_def B_def)
  define q1 q2 where "q1 = fl A" and "q2 = fl B"
  have q1: "\<bar>q1 - A\<bar> \<le> \<bar>A\<bar> / 8388608 + 1 / 1000000000000000000000000000000"
    unfolding q1_def using A by (intro rounding_error [OF acc]) simp
  have q2: "\<bar>q2 - B\<bar> \<le> \<bar>B\<bar> / 8388608 + 1 / 1000000000000000000000000000000"
    unfolding q2_def using B by (intro rounding_error [OF acc]) simp
  define s where "s = q1 + q2"
  have s_lo: "T - T / 8388608 - 2 / 1000000000000000000000000000000 \<le> s"
    using q1 q2 A B unfolding s_def T by argo
  have s_hi: "s \<le> T + T / 8388608 + 2 / 1000000000000000000000000000000"
    using q1 q2 A B unfolding s_def T by argo
  have s_range: "\<bar>s\<bar> \<le> 10000000"
    using s_lo s_hi A B unfolding T by argo
  define q where "q = fl s"
  have q: "\<bar>q - s\<bar> \<le> \<bar>s\<bar> / 8388608 + 1 / 1000000000000000000000000000000"
    unfolding q_def by (rule rounding_error [OF acc s_range])
  define sq where "sq = sqrt q"
  have "\<bar>q\<bar> \<le> 3000000"
    using q s_lo s_hi A B unfolding T by argo
  then have sq_range: "\<bar>sq\<bar> \<le> 10000000"
    using sqrt_le_Suc [of q] unfolding sq_def by argo
  have r_eq: "r = fl sq"
    by (simp add: r sq_def q_def s_def q1_def q2_def A_def B_def)
  have rr: "\<bar>r - sq\<bar> \<le> \<bar>sq\<bar> / 8388608 + 1 / 1000000000000000000000000000000"
    unfolding r_eq by (rule rounding_error [OF acc sq_range])
  have sq14: "14 < sq"
    using rr big by argo
  then have "0 < sq"
    by simp
  then have q_pos: "0 < q"
    by (simp add: sq_def)
  have "14 * 14 < sq * sq"
    using sq14 by (intro mult_strict_mono) simp_all
  then have q196: "196 < q"
    using q_pos by (simp add: sq_def)
  have s195: "195 < s"
    using q q196 by argo
  have T194: "194 < T"
    using s_hi s195 by argo
  define V where "V = sqrt T"
  have V: "0 \<le> V" "V * V = T"
    using T194 by (simp_all add: V_def)
  have "sqrt (13 * 13) \<le> sqrt T"
    using T194 by (intro real_sqrt_le_mono) simp
  then have V13: "13 \<le> V"
    by (simp add: V_def)
  have q_lo: "4194303 / 4194304 * (4194303 / 4194304) * T \<le> q"
    using q s_lo s195 T194 by argo
  have q_hi: "q \<le> 4194305 / 4194304 * (4194305 / 4194304) * T"
    using q s_hi s195 T194 by argo
  have "(4194303 / 4194304 * V)\<^sup>2 = 4194303 / 4194304 * (4194303 / 4194304) * (V * V)"
    by (simp add: power2_eq_square)
  then have "(4194303 / 4194304 * V)\<^sup>2 \<le> q"
    using q_lo V by simp
  then have sq_lo: "4194303 / 4194304 * V \<le> sq"
    unfolding sq_def by (rule real_le_rsqrt)
  have "(4194305 / 4194304 * V)\<^sup>2 = 4194305 / 4194304 * (4194305 / 4194304) * (V * V)"
    by (simp add: power2_eq_square)
  then have "q \<le> (4194305 / 4194304 * V)\<^sup>2"
    using q_hi V by simp
  then have sq_hi: "sq \<le> 4194305 / 4194304 * V"
    unfolding sq_def using V by (intro real_le_lsqrt) simp_all
  show "2097151 / 2097152 * sqrt (a * a + b * b) \<le> r"
    using rr sq_lo sq14 V13 unfolding V_def T_def by argo
  show "r \<le> 2097153 / 2097152 * sqrt (a * a + b * b)"
    using rr sq_hi sq14 V13 unfolding V_def T_def by argo
  show "13 \<le> sqrt (a * a + b * b)"
    using V13 by (simp add: V_def T_def)
qed

text \<open>One component of the rescaled velocity: divided, rounded, multiplied, rounded.\<close>

lemma rounded_component:
  fixes a r :: real
  assumes acc: "binary32_accurate fl"
    and big: "15 < r"
    and a: "\<bar>a\<bar> \<le> 2097152 / 2097151 * r"
  shows "\<bar>fl (fl (a / r) * 15) - 15 / r * a\<bar> \<le> 1 / 200000"
proof -
  define w where "w = a / r"
  have "\<bar>a\<bar> / r \<le> 2097152 / 2097151"
    using a big by (simp add: pos_divide_le_eq)
  then have w: "\<bar>w\<bar> \<le> 2097152 / 2097151"
    using big by (simp add: w_def)
  define tx where "tx = fl w"
  have tx: "\<bar>tx - w\<bar> \<le> \<bar>w\<bar> / 8388608 + 1 / 1000000000000000000000000000000"
    unfolding tx_def using w by (intro rounding_error [OF acc]) argo
  define z where "z = tx * 15"
  have z_range: "\<bar>z\<bar> \<le> 10000000"
    unfolding z_def using tx w by argo
  have z: "\<bar>fl z - z\<bar> \<le> \<bar>z\<bar> / 8388608 + 1 / 1000000000000000000000000000000"
    by (rule rounding_error [OF acc z_range])
  have "\<bar>fl z - 15 * w\<bar> \<le> 1 / 200000"
    using z tx w unfolding z_def by argo
  moreover have "15 / r * a = 15 * w"
    by (simp add: w_def)
  ultimately show ?thesis
    by (simp add: z_def tx_def w_def)
qed

text \<open>The lengths of two vectors that are close to each other, and of a scaled vector.\<close>

lemma near_vector_length:
  fixes px py cx cy :: real
  assumes "\<bar>cx - px\<bar> \<le> d" and "\<bar>cy - py\<bar> \<le> d"
  shows "sqrt (cx * cx + cy * cy) \<le> sqrt (px * px + py * py) + 2 * d"
    and "sqrt (px * px + py * py) \<le> sqrt (cx * cx + cy * cy) + 2 * d"
proof -
  have "sqrt ((px + (cx - px))\<^sup>2 + (py + (cy - py))\<^sup>2)
          \<le> sqrt (px\<^sup>2 + py\<^sup>2) + sqrt ((cx - px)\<^sup>2 + (cy - py)\<^sup>2)"
    by (rule real_sqrt_sum_squares_triangle_ineq)
  moreover have "sqrt ((cx + (px - cx))\<^sup>2 + (cy + (py - cy))\<^sup>2)
          \<le> sqrt (cx\<^sup>2 + cy\<^sup>2) + sqrt ((px - cx)\<^sup>2 + (py - cy)\<^sup>2)"
    by (rule real_sqrt_sum_squares_triangle_ineq)
  moreover have "sqrt ((cx - px)\<^sup>2 + (cy - py)\<^sup>2) \<le> \<bar>cx - px\<bar> + \<bar>cy - py\<bar>"
    by (rule sqrt_sum_squares_le_sum_abs)
  moreover have "sqrt ((px - cx)\<^sup>2 + (py - cy)\<^sup>2) \<le> \<bar>px - cx\<bar> + \<bar>py - cy\<bar>"
    by (rule sqrt_sum_squares_le_sum_abs)
  ultimately show "sqrt (cx * cx + cy * cy) \<le> sqrt (px * px + py * py) + 2 * d"
    and "sqrt (px * px + py * py) \<le> sqrt (cx * cx + cy * cy) + 2 * d"
    using assms by (simp_all add: power2_eq_square)
qed

lemma scaled_vector_length:
  fixes a b r :: real
  assumes "0 < r"
  shows "sqrt (15 / r * a * (15 / r * a) + 15 / r * b * (15 / r * b))
           = 15 * sqrt (a * a + b * b) / r"
proof (rule real_sqrt_unique)
  define V where "V = sqrt (a * a + b * b)"
  have V: "V * V = a * a + b * b" "0 \<le> V"
    by (simp_all add: V_def)
  have "(15 * V / r)\<^sup>2 = (15 / r) * (15 / r) * (V * V)"
    by (simp add: power2_eq_square)
  also have "\<dots> = 15 / r * a * (15 / r * a) + 15 / r * b * (15 / r * b)"
    unfolding V by (simp add: algebra_simps add_divide_distrib)
  finally show "(15 * sqrt (a * a + b * b) / r)\<^sup>2
      = 15 / r * a * (15 / r * a) + 15 / r * b * (15 / r * b)"
    by (simp only: V_def)
  show "0 \<le> 15 * sqrt (a * a + b * b) / r"
    using assms by simp
qed

text \<open>
  The rescaling of lines 741-742 with rounding: the new velocity \<open>(cx, cy)\<close> has a
  magnitude within \<open>0.0001\<close> of 15, and lies within \<open>0.000005\<close>, in each component, of
  the old velocity scaled by \<open>15 / r\<close>.
\<close>

lemma rounded_clamp:
  fixes a b :: real
  assumes acc: "binary32_accurate fl"
    and ra: "\<bar>a\<bar> \<le> 1000" and rb: "\<bar>b\<bar> \<le> 1000"
    and r: "r = fl (sqrt (fl (fl (a * a) + fl (b * b))))"
    and big: "15 < r"
    and cx: "cx = fl (fl (a / r) * 15)" and cy: "cy = fl (fl (b / r) * 15)"
  shows "sqrt (cx * cx + cy * cy) \<le> 150001 / 10000"
    and "149999 / 10000 \<le> sqrt (cx * cx + cy * cy)"
    and "\<bar>cx - 15 / r * a\<bar> \<le> 1 / 200000"
    and "\<bar>cy - 15 / r * b\<bar> \<le> 1 / 200000"
proof -
  define V where "V = sqrt (a * a + b * b)"
  note bounds = rounded_speed_bounds [OF acc ra rb r big, folded V_def]
  have "sqrt (a * a) \<le> sqrt (a * a + b * b)" "sqrt (b * b) \<le> sqrt (a * a + b * b)"
    by (rule real_sqrt_le_mono, simp)+
  then have ab: "\<bar>a\<bar> \<le> V" "\<bar>b\<bar> \<le> V"
    by (simp_all only: V_def real_sqrt_abs2)
  have a: "\<bar>a\<bar> \<le> 2097152 / 2097151 * r" and b: "\<bar>b\<bar> \<le> 2097152 / 2097151 * r"
    using ab bounds(1) by argo+
  show x: "\<bar>cx - 15 / r * a\<bar> \<le> 1 / 200000"
    unfolding cx by (rule rounded_component [OF acc big a])
  show y: "\<bar>cy - 15 / r * b\<bar> \<le> 1 / 200000"
    unfolding cy by (rule rounded_component [OF acc big b])
  have "0 < r" using big by simp
  then have P: "sqrt (15 / r * a * (15 / r * a) + 15 / r * b * (15 / r * b)) = 15 * V / r"
    unfolding V_def by (rule scaled_vector_length)
  have "15 * V \<le> 1500001 / 100000 * r" "1499999 / 100000 * r \<le> 15 * V"
    using bounds by argo+
  then have "15 * V / r \<le> 1500001 / 100000" "1499999 / 100000 \<le> 15 * V / r"
    using big by (simp_all add: pos_divide_le_eq pos_le_divide_eq)
  then show "sqrt (cx * cx + cy * cy) \<le> 150001 / 10000"
    and "149999 / 10000 \<le> sqrt (cx * cx + cy * cy)"
    using near_vector_length [OF x y] unfolding P by argo+
qed

text \<open>Line 737 run once more, on a velocity of magnitude at most \<open>15.0001\<close>.\<close>

lemma rounded_speed_again:
  fixes a b :: real
  assumes acc: "binary32_accurate fl"
    and len: "sqrt (a * a + b * b) \<le> 150001 / 10000"
  shows "fl (sqrt (fl (fl (a * a) + fl (b * b)))) \<le> 150002 / 10000"
proof (cases "15 < fl (sqrt (fl (fl (a * a) + fl (b * b))))")
  case True
  have "sqrt (a * a) \<le> sqrt (a * a + b * b)" "sqrt (b * b) \<le> sqrt (a * a + b * b)"
    by (rule real_sqrt_le_mono, simp)+
  then have "\<bar>a\<bar> \<le> sqrt (a * a + b * b)" "\<bar>b\<bar> \<le> sqrt (a * a + b * b)"
    by (simp_all only: real_sqrt_abs2)
  then have ra: "\<bar>a\<bar> \<le> 1000" and rb: "\<bar>b\<bar> \<le> 1000"
    using len by argo+
  from rounded_speed_bounds(2) [OF acc ra rb refl True] len
  show ?thesis by argo
next
  case False
  then show ?thesis by argo
qed

text \<open>The example rounding is as accurate as binary32.\<close>

lemma binary32_example_root:
  fixes t :: real
  assumes "0 \<le> t" and "t * t = 14745601 / 65536"
  shows "15 \<le> t" and "t \<le> 7500001 / 500000"
proof -
  show "15 \<le> t"
  proof (rule ccontr)
    assume "\<not> 15 \<le> t"
    then have "t * t \<le> 15 * 15"
      using assms(1) by (intro mult_mono) simp_all
    then show False using assms(2) by simp
  qed
  show "t \<le> 7500001 / 500000"
  proof (rule ccontr)
    assume "\<not> t \<le> 7500001 / 500000"
    then have "7500001 / 500000 * (7500001 / 500000) \<le> t * t"
      by (intro mult_mono) simp_all
    then show False using assms(2) by simp
  qed
qed

lemma binary32_example_accurate: "binary32_accurate binary32_example"
  unfolding binary32_accurate_def
proof (intro allI impI)
  fix t :: real
  show "\<bar>binary32_example t - t\<bar> \<le> \<bar>t\<bar> / 2 ^ 23 + 1 / 2 ^ 149"
  proof (cases "0 \<le> t \<and> t * t = 14745601 / 65536")
    case True
    then have "15 \<le> t" "t \<le> 7500001 / 500000"
      using binary32_example_root [of t] by simp_all
    then have "\<bar>15728641 / 1048576 - t\<bar> \<le> \<bar>t\<bar> / 8388608"
      by argo
    then show ?thesis
      using True by (simp add: binary32_example_def)
  next
    case False
    then show ?thesis
      by (auto simp add: binary32_example_def)
  qed
qed

lemma fast_ball_speed_fl: "speed_fl binary32_example fast_ball_example = 26"
  by (simp add: speed_fl_def fast_ball_example_def binary32_example_def sqrt_676)

lemma fast_ball_clamped:
  "clamp_speed_fl binary32_example fast_ball_example =
     fast_ball_example\<lparr>velocity := \<lparr>x = 6049477 / 1048576, y = - (14518745 / 1048576)\<rparr>\<rparr>"
  by (simp add: clamp_speed_fl_def fast_ball_speed_fl)
     (simp add: fast_ball_example_def binary32_example_def)

lemma fast_ball_speed_again:
  "speed_fl binary32_example (clamp_speed_fl binary32_example fast_ball_example)
     = 15728641 / 1048576"
  by (simp add: fast_ball_clamped speed_fl_def)
     (simp add: binary32_example_def)

lemma fast_ball_magnitude: "15 < ball_speed (clamp_speed_fl binary32_example fast_ball_example)"
proof -
  have "sqrt (15 * 15) < sqrt (6049477 / 1048576 * (6049477 / 1048576)
      + 14518745 / 1048576 * (14518745 / 1048576))"
    by (rule real_sqrt_less_mono) simp
  then show ?thesis
    by (simp add: fast_ball_clamped ball_speed_def)
qed

text \<open>
  C5, as the code has it. The speed clamp belongs to the two player-ball blocks only:
  the velocity that such a block leaves is the velocity that leaves the clamp. The clamp
  computes the speed (line 737) and leaves a ball alone whose computed speed is not above
  15. Otherwise it divides both components by that speed and multiplies them by 15, and
  with float operations as accurate as those of binary32, on components of at most 1000
  in magnitude, the new velocity has a magnitude between \<open>14.9999\<close> and \<open>15.0001\<close>, line
  737 run again on it gives at most \<open>15.0002\<close>, and each component is within \<open>0.00001\<close> of
  the old one scaled by the positive factor \<open>15 / speed\<close>: the direction is the old one
  up to rounding. The magnitude can lie above 15: the ball with velocity \<open>(10, -24)\<close>,
  clamped with the roundings of binary32, is such a ball. Without rounding this clamp is
  the clamp of the frame. Walls, ceiling and ground reflect the ball without a change of
  its speed, the net keeps the magnitude of the horizontal velocity, and none of them
  clamps.
\<close>

theorem player_collision_clamp_within_rounding:
  assumes "binary32_accurate fl"
    and "\<bar>x (velocity b)\<bar> \<le> 1000" and "\<bar>y (velocity b)\<bar> \<le> 1000"
  shows "(speed_fl fl b \<le> BALL_MAX_SPEED \<longrightarrow> clamp_speed_fl fl b = b)
       \<and> (BALL_MAX_SPEED < speed_fl fl b \<longrightarrow>
            149999 / 10000 \<le> ball_speed (clamp_speed_fl fl b)
            \<and> ball_speed (clamp_speed_fl fl b) \<le> 150001 / 10000
            \<and> speed_fl fl (clamp_speed_fl fl b) \<le> 150002 / 10000
            \<and> \<bar>x (velocity (clamp_speed_fl fl b))
                 - BALL_MAX_SPEED / speed_fl fl b * x (velocity b)\<bar> \<le> 1 / 100000
            \<and> \<bar>y (velocity (clamp_speed_fl fl b))
                 - BALL_MAX_SPEED / speed_fl fl b * y (velocity b)\<bar> \<le> 1 / 100000)
       \<and> clamp_speed c = clamp_speed_fl (\<lambda>t. t) c
       \<and> (player1_hits g \<longrightarrow>
            velocity (ball (ball_player1 g)) =
              velocity (clamp_speed (velocity_influence (player1 g)
                (energy_loss (reflect_velocity (collision_normal (player1 g) (ball g)) (ball g))))))
       \<and> (player2_hits g \<longrightarrow>
            velocity (ball (ball_player2 g)) =
              velocity (clamp_speed (velocity_influence (player2 g)
                (energy_loss (reflect_velocity (collision_normal (player2 g) (ball g)) (ball g))))))
       \<and> ball_speed (ball_walls c) = ball_speed c
       \<and> \<bar>x (velocity (ball_net c))\<bar> = \<bar>x (velocity c)\<bar>
       \<and> ball_speed (ball (ball_ground rnd g)) = ball_speed (ball g)"
proof (intro conjI impI)
  assume "speed_fl fl b \<le> BALL_MAX_SPEED"
  then show "clamp_speed_fl fl b = b"
    by (simp add: clamp_speed_fl_def)
next
  assume fast: "BALL_MAX_SPEED < speed_fl fl b"
  define r where "r = speed_fl fl b"
  define cx cy where "cx = fl (fl (x (velocity b) / r) * 15)"
    and "cy = fl (fl (y (velocity b) / r) * 15)"
  have r: "r = fl (sqrt (fl (fl (x (velocity b) * x (velocity b))
                             + fl (y (velocity b) * y (velocity b)))))"
    by (simp add: r_def speed_fl_def)
  have big: "15 < r"
    using fast by (simp add: r_def)
  have clamped: "velocity (clamp_speed_fl fl b) = \<lparr>x = cx, y = cy\<rparr>"
    using fast by (simp add: clamp_speed_fl_def cx_def cy_def r_def)
  note bounds = rounded_clamp [OF assms r big cx_def cy_def]
  show "149999 / 10000 \<le> ball_speed (clamp_speed_fl fl b)"
    and "ball_speed (clamp_speed_fl fl b) \<le> 150001 / 10000"
    using bounds(1,2) by (simp_all add: ball_speed_def clamped)
  show "speed_fl fl (clamp_speed_fl fl b) \<le> 150002 / 10000"
    using rounded_speed_again [OF assms(1) bounds(1)] by (simp add: speed_fl_def clamped)
  show "\<bar>x (velocity (clamp_speed_fl fl b)) - BALL_MAX_SPEED / speed_fl fl b * x (velocity b)\<bar>
      \<le> 1 / 100000"
    using bounds(3) by (simp add: clamped r_def)
  show "\<bar>y (velocity (clamp_speed_fl fl b)) - BALL_MAX_SPEED / speed_fl fl b * y (velocity b)\<bar>
      \<le> 1 / 100000"
    using bounds(4) by (simp add: clamped r_def)
next
  show "clamp_speed c = clamp_speed_fl (\<lambda>t. t) c"
    by (simp add: clamp_speed_fl_exact)
next
  assume "player1_hits g"
  then show "velocity (ball (ball_player1 g)) =
      velocity (clamp_speed (velocity_influence (player1 g)
        (energy_loss (reflect_velocity (collision_normal (player1 g) (ball g)) (ball g)))))"
    by (simp add: ball_player1_hit player_ball_collision_velocity)
next
  assume "player2_hits g"
  then show "velocity (ball (ball_player2 g)) =
      velocity (clamp_speed (velocity_influence (player2 g)
        (energy_loss (reflect_velocity (collision_normal (player2 g) (ball g)) (ball g)))))"
    by (simp add: ball_player2_hit player_ball_collision_velocity)
next
  show "ball_speed (ball_walls c) = ball_speed c"
    by (rule ball_walls_speed)
  show "\<bar>x (velocity (ball_net c))\<bar> = \<bar>x (velocity c)\<bar>"
    by (rule ball_net_horizontal)
  show "ball_speed (ball (ball_ground rnd g)) = ball_speed (ball g)"
    by (rule ball_ground_speed)
qed

theorem player_collision_clamp_within_rounding_witness:
  "binary32_accurate binary32_example
   \<and> velocity fast_ball_example = \<lparr>x = 10, y = - 24\<rparr>
   \<and> speed_fl binary32_example fast_ball_example = 26
   \<and> velocity (clamp_speed_fl binary32_example fast_ball_example)
       = \<lparr>x = 6049477 / 1048576, y = - (14518745 / 1048576)\<rparr>
   \<and> 15 < ball_speed (clamp_speed_fl binary32_example fast_ball_example)
   \<and> ball_speed (clamp_speed_fl binary32_example fast_ball_example) \<le> 150001 / 10000
   \<and> speed_fl binary32_example (clamp_speed_fl binary32_example fast_ball_example)
       = 15728641 / 1048576
   \<and> 15 < speed_fl binary32_example (clamp_speed_fl binary32_example fast_ball_example)
   \<and> speed_fl binary32_example (ball centre_line_example) = 0
   \<and> clamp_speed_fl binary32_example (ball centre_line_example) = ball centre_line_example
   \<and> player1_hits (at_player1_check no_keys before_first_hit)
   \<and> velocity (ball (at_player1_check no_keys before_first_hit)) = \<lparr>x = 0, y = 20\<rparr>
   \<and> velocity (ball (ball_player1 (at_player1_check no_keys before_first_hit)))
       = \<lparr>x = 0, y = - 15\<rparr>"
proof -
  let ?h = "at_player1_check no_keys before_first_hit"
  have range: "\<bar>x (velocity fast_ball_example)\<bar> \<le> 1000" "\<bar>y (velocity fast_ball_example)\<bar> \<le> 1000"
    by (simp_all add: fast_ball_example_def)
  have rest: "\<bar>x (velocity (ball centre_line_example))\<bar> \<le> 1000"
      "\<bar>y (velocity (ball centre_line_example))\<bar> \<le> 1000"
    by (simp_all add: centre_line_example_def)
  note fast = player_collision_clamp_within_rounding
    [OF binary32_example_accurate range, of fast_ball_example ?h "random_particle no_keys"]
  note slow = player_collision_clamp_within_rounding
    [OF binary32_example_accurate rest, of fast_ball_example ?h "random_particle no_keys"]
  have bound: "ball_speed (clamp_speed_fl binary32_example fast_ball_example) \<le> 150001 / 10000"
    using fast by (simp add: fast_ball_speed_fl)
  have resting: "speed_fl binary32_example (ball centre_line_example) = 0"
    by (simp add: speed_fl_def centre_line_example_def binary32_example_def)
  then have unchanged:
    "clamp_speed_fl binary32_example (ball centre_line_example) = ball centre_line_example"
    using slow by simp
  have hits: "player1_hits ?h"
    by (simp add: player1_hits_def first_hit_check CheckCollisionCircles_def)
  then have "velocity (ball (ball_player1 ?h)) =
      velocity (clamp_speed (velocity_influence (player1 ?h)
        (energy_loss (reflect_velocity (collision_normal (player1 ?h) (ball ?h)) (ball ?h)))))"
    using fast by simp
  then have hit: "velocity (ball (ball_player1 ?h)) = \<lparr>x = 0, y = - 15\<rparr>"
    by (simp add: first_hit_check collision_normal_def reflect_velocity_def energy_loss_def
          velocity_influence_def clamp_speed_def Let_def sqrt_6084 sqrt_361)
  show ?thesis
    using binary32_example_accurate fast_ball_speed_fl fast_ball_clamped fast_ball_magnitude
      fast_ball_speed_again bound resting unchanged hits hit
    by (simp add: first_hit_check) (simp add: fast_ball_example_def)
qed

text \<open>
  As stated, C5 fails at the ground: in the example run the served ball is dropped, no
  player touches it, and after the ground collision of the landing frame it leaves the
  ground with speed 22.
\<close>

theorem ground_collision_exceeds_max_speed:
  "reaches_ground (ball_at_ground_check hold_D before_first_landing)
   \<and> ball_speed (ball (UpdateGame hold_D before_first_landing)) = 22
   \<and> \<not> ball_speed (ball (UpdateGame hold_D before_first_landing)) \<le> BALL_MAX_SPEED"
proof -
  have "reaches_ground (ball_at_ground_check hold_D before_first_landing)"
    unfolding first_landing_ball by (simp add: reaches_ground_def)
  moreover have "ball_speed (ball (UpdateGame hold_D before_first_landing)) = 22"
    using first_landing_state by (simp add: first_landing_def ball_speed_def sqrt_484)
  ultimately show ?thesis by simp
qed

subsection \<open>Frames during the score delay\<close>

lemma ball_physics_ball:
  "ball g = ball h \<Longrightarrow> framesCounter g = framesCounter h \<Longrightarrow>
     ball (ball_physics g) = ball (ball_physics h)"
  by (simp add: ball_physics_def Let_def)

lemma ball_walls_net_ball: "ball (ball_walls_net g) = ball_net (ball_walls (ball g))"
  by (simp add: ball_walls_net_def)

lemma ball_ground_ball:
  "ball g = ball h \<Longrightarrow> ball (ball_ground rnd g) = ball (ball_ground rnd' h)"
  by (simp add: ball_ground_def ground_bounce_def)

lemma score_delay_running:
  "1 < scoreDelayTimer g \<Longrightarrow> ball (score_delay g) = ball g"
  by (simp add: score_delay_def Let_def)

text \<open>While the timer stays positive, the two player-ball blocks do nothing.\<close>

lemma player_blocks_skipped:
  "scoreDelayTimer g \<noteq> 0 \<Longrightarrow> ball_player1 g = g \<and> ball_player2 g = g"
  by (simp add: ball_player1_def ball_player2_def)

lemma delay_frame:
  assumes "frame_runs inp g" and "1 < scoreDelayTimer g"
  shows "before_ground inp (frame_start inp g) = before_players inp (frame_start inp g)"
    and "ball (before_players inp (frame_start inp g))
           = ball_net (ball_walls (ball (ball_physics (count_frame g))))"
    and "UpdateGame inp g
           = ball_ground (random_particle inp) (before_players inp (frame_start inp g))"
    and "scoreDelayTimer (UpdateGame inp g) = scoreDelayTimer g - 1"
    and "gameState (UpdateGame inp g) = PLAYING"
    and "servingSide (UpdateGame inp g) = servingSide g"
    and "score (player1 (UpdateGame inp g)) = score (player1 g)"
    and "score (player2 (UpdateGame inp g)) = score (player2 g)"
    and "pause (UpdateGame inp g) = False"
proof -
  let ?h = "before_players inp (frame_start inp g)"
  have timer: "scoreDelayTimer ?h = scoreDelayTimer g - 1"
    using assms(2) by (simp add: before_players_timer)
  with assms(2) have running: "scoreDelayTimer ?h \<noteq> 0" by simp
  show skipped: "before_ground inp (frame_start inp g) = ?h"
    using player_blocks_skipped [OF running] by (simp add: before_ground_def)
  let ?k = "players_physics (ai_if_single inp (UpdatePlayerControls inp
              (UpdateParticles (count_match_time (frame_start inp g)))))"
  have "1 < scoreDelayTimer ?k" using assms(2) by simp
  then have "ball (score_delay ?k) = ball (count_frame g)"
    by (simp add: score_delay_running)
  moreover have "framesCounter (score_delay ?k) = framesCounter (count_frame g)"
    by simp
  ultimately have "ball (ball_physics (score_delay ?k)) = ball (ball_physics (count_frame g))"
    by (rule ball_physics_ball)
  then show "ball ?h = ball_net (ball_walls (ball (ball_physics (count_frame g))))"
    by (simp add: before_players_def ball_walls_net_ball)
  show frame: "UpdateGame inp g = ball_ground (random_particle inp) ?h"
    using UpdateGame_frame [OF assms(1)] skipped by simp
  from running have "\<not> reaches_ground (ball ?h) \<or> scoreDelayTimer ?h \<noteq> 0" by simp
  note quiet = ball_ground_no_score [OF this, of "random_particle inp"]
  from quiet frame timer show "scoreDelayTimer (UpdateGame inp g) = scoreDelayTimer g - 1"
    by simp
  from quiet frame assms(1) show "gameState (UpdateGame inp g) = PLAYING"
    by (simp add: frame_runs_def)
  from quiet frame show "servingSide (UpdateGame inp g) = servingSide g"
    and "score (player1 (UpdateGame inp g)) = score (player1 g)"
    and "score (player2 (UpdateGame inp g)) = score (player2 g)"
    by simp_all
  from frame assms(1) show "pause (UpdateGame inp g) = False"
    by (simp add: frame_runs_def)
qed


text \<open>
  C7, as the code has it. In every frame in which the score delay is still running
  after the frame's countdown step (the timer was above 1), both player-ball collision
  blocks are skipped, so the players have no effect on the ball, and nothing is scored.
  The ball is not held in place: it moves on exactly as its own integration, the walls,
  the ceiling, the net and the ground bounce make it move.
\<close>

theorem delay_suppresses_player_collisions:
  assumes "frame_runs inp g" and "1 < scoreDelayTimer g"
  shows "before_ground inp (frame_start inp g) = before_players inp (frame_start inp g)
       \<and> ball (UpdateGame inp g)
           = ball (ball_ground (random_particle inp) (ball_walls_net (ball_physics (count_frame g))))
       \<and> scoreDelayTimer (UpdateGame inp g) = scoreDelayTimer g - 1
       \<and> score (player1 (UpdateGame inp g)) = score (player1 g)
       \<and> score (player2 (UpdateGame inp g)) = score (player2 g)
       \<and> servingSide (UpdateGame inp g) = servingSide g
       \<and> gameState (UpdateGame inp g) = PLAYING"
proof -
  note frame = delay_frame [OF assms]
  have "ball (before_players inp (frame_start inp g))
          = ball (ball_walls_net (ball_physics (count_frame g)))"
    using frame(2) by (simp add: ball_walls_net_ball)
  then have "ball (ball_ground (random_particle inp) (before_players inp (frame_start inp g)))
          = ball (ball_ground (random_particle inp) (ball_walls_net (ball_physics (count_frame g))))"
    by (rule ball_ground_ball)
  with frame show ?thesis by simp
qed

lemma first_landing_frame:
  "frame_runs no_keys first_landing" "scoreDelayTimer first_landing = 120"
  "position (ball first_landing) = \<lparr>x = 256, y = 683\<rparr>"
  "velocity (ball first_landing) = \<lparr>x = 0, y = - 22\<rparr>"
  "score (player1 first_landing) = 0" "score (player2 first_landing) = 1"
  "servingSide first_landing = RIGHT"
  unfolding first_landing_state
  by (simp_all add: frame_runs_def toggle_pause_def no_keys_def)

lemma after_first_landing_ball:
  "position (ball (UpdateGame no_keys first_landing)) = \<lparr>x = 256, y = 661\<rparr>"
  "scoreDelayTimer (UpdateGame no_keys first_landing) = 119"
  unfolding first_landing_state
  by (simp_all add: frame_defs no_keys_def)

theorem delay_suppresses_player_collisions_witness:
  "frame_runs no_keys first_landing \<and> 1 < scoreDelayTimer first_landing
   \<and> before_ground no_keys (frame_start no_keys first_landing)
       = before_players no_keys (frame_start no_keys first_landing)
   \<and> scoreDelayTimer (UpdateGame no_keys first_landing) = 119
   \<and> score (player1 (UpdateGame no_keys first_landing)) = 0
   \<and> score (player2 (UpdateGame no_keys first_landing)) = 1
   \<and> servingSide (UpdateGame no_keys first_landing) = RIGHT"
proof -
  have running: "1 < scoreDelayTimer first_landing"
    by (simp add: first_landing_frame(2))
  from delay_suppresses_player_collisions [OF first_landing_frame(1) running]
  show ?thesis
    using first_landing_frame by simp
qed

text \<open>
  As stated, C7 fails where it says that the ball stays in its resting position: in the
  example run the ball lands at \<open>y = 683\<close>, the delay starts, and one frame later, with
  the timer at 119, the ball is at \<open>y = 661\<close>, on its way up again.
\<close>

theorem ball_moves_during_delay:
  "0 < scoreDelayTimer first_landing
   \<and> 0 < scoreDelayTimer (UpdateGame no_keys first_landing)
   \<and> position (ball first_landing) = \<lparr>x = 256, y = 683\<rparr>
   \<and> position (ball (UpdateGame no_keys first_landing)) = \<lparr>x = 256, y = 661\<rparr>
   \<and> position (ball (UpdateGame no_keys first_landing)) \<noteq> position (ball first_landing)"
  by (simp add: first_landing_frame after_first_landing_ball)

subsection \<open>How high a blob gets\<close>

lemma jumps_from_ground_move_keys:
  "jumps_from_ground p \<Longrightarrow> jumps_from_ground (move_keys l r p)"
  by (simp add: jumps_from_ground_def)

lemma jumps_from_ground_jump_key:
  "jumps_from_ground p \<Longrightarrow> jumps_from_ground (jump_key k p)"
  by (simp add: jumps_from_ground_def jump_key_def)

lemma jumps_from_ground_keep_left_side:
  "jumps_from_ground p \<Longrightarrow> jumps_from_ground (keep_left_side p)"
  by (simp add: jumps_from_ground_def)

lemma jumps_from_ground_keep_right_side:
  "jumps_from_ground p \<Longrightarrow> jumps_from_ground (keep_right_side p)"
  by (simp add: jumps_from_ground_def)

lemma jumps_from_ground_ai_return_to_center:
  "jumps_from_ground p \<Longrightarrow> jumps_from_ground (ai_return_to_center p)"
  by (simp add: jumps_from_ground_def)

lemma jumps_from_ground_ai_chase:
  "jumps_from_ground p \<Longrightarrow> jumps_from_ground (ai_chase d p)"
  by (simp add: jumps_from_ground_def)

lemma jumps_from_ground_player_physics:
  assumes "jumps_from_ground p"
  shows "jumps_from_ground (player_physics p)"
proof -
  define py vy where "py = y (position p)" and "vy = y (velocity p)"
  from assms have inv: "radius p = 50" "- 12 \<le> vy" "488 \<le> py + 15 * min vy 0"
    by (simp_all add: jumps_from_ground_def py_def vy_def)
  show ?thesis
  proof (cases "py + vy + 50 \<ge> 718")
    case True
    with inv show ?thesis
      by (simp add: jumps_from_ground_def player_physics_def player_ground_def
            player_gravity_def player_integrate_def Let_def py_def vy_def)
  next
    case False
    have "488 \<le> py + vy + 15 * min (min (vy + 0.8) 15) 0"
      using inv by (simp add: min_def split: if_splits)
    with False inv show ?thesis
      by (simp add: jumps_from_ground_def player_physics_def player_ground_def
            player_gravity_def player_integrate_def Let_def py_def vy_def min_def
          split: if_splits)
  qed
qed


lemma jumps_from_ground_score [simp]:
  "jumps_from_ground (p\<lparr>score := s\<rparr>) = jumps_from_ground p"
  by (simp add: jumps_from_ground_def)

lemma jumps_from_ground_cong:
  "radius p = radius q \<Longrightarrow> position p = position q \<Longrightarrow> velocity p = velocity q \<Longrightarrow>
     onGround p = onGround q \<Longrightarrow> jumps_from_ground p = jumps_from_ground q"
  by (simp add: jumps_from_ground_def)

lemma jumps_from_ground_height: "jumps_from_ground p \<Longrightarrow> 488 \<le> y (position p)"
  by (simp add: jumps_from_ground_def min_def split: if_splits)

lemma jumps_from_ground_UpdatePlayerControls:
  assumes "jumps_from_ground (player1 g)" and "jumps_from_ground (player2 g)"
  shows "jumps_from_ground (player1 (UpdatePlayerControls inp g))"
    and "jumps_from_ground (player2 (UpdatePlayerControls inp g))"
  using assms
  by (simp_all add: UpdatePlayerControls_def Let_def jumps_from_ground_keep_left_side
        jumps_from_ground_keep_right_side jumps_from_ground_jump_key jumps_from_ground_move_keys)

lemma jumps_from_ground_ai_jump:
  "jumps_from_ground (player2 g) \<Longrightarrow> jumps_from_ground (player2 (ai_jump r d g))"
  by (auto simp add: ai_jump_def Let_def jumps_from_ground_def)

lemma jumps_from_ground_UpdateAI:
  assumes "jumps_from_ground (player2 g)"
  shows "jumps_from_ground (player2 (UpdateAI r g))"
proof -
  have "jumps_from_ground (player2 (ai_cooldown g))" using assms by simp
  then show ?thesis
    by (simp add: UpdateAI_def Let_def jumps_from_ground_ai_return_to_center
          jumps_from_ground_ai_jump jumps_from_ground_keep_right_side jumps_from_ground_ai_chase)
qed

lemma jumps_from_ground_before_players:
  assumes "jumps_from_ground (player1 g)" and "jumps_from_ground (player2 g)"
  shows "jumps_from_ground (player1 (before_players inp g))"
    and "jumps_from_ground (player2 (before_players inp g))"
proof -
  let ?c = "UpdatePlayerControls inp (UpdateParticles (count_match_time g))"
  have c: "jumps_from_ground (player1 ?c)" "jumps_from_ground (player2 ?c)"
    using assms by (simp_all add: jumps_from_ground_UpdatePlayerControls)
  have a: "jumps_from_ground (player1 (ai_if_single inp ?c))"
    "jumps_from_ground (player2 (ai_if_single inp ?c))"
    using c by (simp_all add: ai_if_single_def jumps_from_ground_UpdateAI)
  have p: "player1 (before_players inp g) = player_physics (player1 (ai_if_single inp ?c))"
    "player2 (before_players inp g) = player_physics (player2 (ai_if_single inp ?c))"
    by (simp_all add: before_players_def players_physics_def)
  from a show "jumps_from_ground (player1 (before_players inp g))"
    and "jumps_from_ground (player2 (before_players inp g))"
    by (simp_all add: p jumps_from_ground_player_physics)
qed

lemma jumps_from_ground_frame:
  assumes "frame_runs inp g"
    and "jumps_from_ground (player1 g)" and "jumps_from_ground (player2 g)"
  shows "jumps_from_ground (player1 (UpdateGame inp g))"
    and "jumps_from_ground (player2 (UpdateGame inp g))"
proof -
  let ?h = "before_players inp (frame_start inp g)"
  have h: "jumps_from_ground (player1 ?h)" "jumps_from_ground (player2 ?h)"
    using assms(2,3) by (simp_all add: jumps_from_ground_before_players)
  have "jumps_from_ground (player1 (UpdateGame inp g)) = jumps_from_ground (player1 ?h)"
    by (rule jumps_from_ground_cong) (simp_all add: UpdateGame_frame [OF assms(1)])
  with h show "jumps_from_ground (player1 (UpdateGame inp g))" by simp
  have "jumps_from_ground (player2 (UpdateGame inp g)) = jumps_from_ground (player2 ?h)"
    by (rule jumps_from_ground_cong) (simp_all add: UpdateGame_frame [OF assms(1)])
  with h show "jumps_from_ground (player2 (UpdateGame inp g))" by simp
qed

subsection \<open>The score delay from its start to the reset of the ball\<close>

lemma frame_keeps:
  assumes "frame_runs inp g"
  shows "radius (ball (UpdateGame inp g)) = radius (ball g)"
    and "framesCounter (UpdateGame inp g) = framesCounter g + 1"
    and "gameMode (UpdateGame inp g) = gameMode g"
  by (simp_all add: UpdateGame_frame [OF assms])

lemma run_snoc: "run (inps @ [inp]) g = UpdateGame inp (run inps g)"
  by (simp add: run_append)

lemma delay_run:
  assumes "gameState g = PLAYING" and "\<not> pause g"
    and "\<forall>i \<in> set inps. \<not> KEY_ESCAPE_pressed i \<and> \<not> KEY_P_pressed i"
    and "int (length inps) < scoreDelayTimer g"
    and "jumps_from_ground (player1 g)" and "jumps_from_ground (player2 g)"
  shows "gameState (run inps g) = PLAYING \<and> \<not> pause (run inps g)
       \<and> scoreDelayTimer (run inps g) = scoreDelayTimer g - int (length inps)
       \<and> servingSide (run inps g) = servingSide g
       \<and> score (player1 (run inps g)) = score (player1 g)
       \<and> score (player2 (run inps g)) = score (player2 g)
       \<and> radius (ball (run inps g)) = radius (ball g)
       \<and> framesCounter (run inps g) = framesCounter g + int (length inps)
       \<and> jumps_from_ground (player1 (run inps g))
       \<and> jumps_from_ground (player2 (run inps g))"
  using assms
proof (induction inps arbitrary: g)
  case Nil
  then show ?case by simp
next
  case (Cons inp inps)
  from Cons.prems(1,2,3) have runs: "frame_runs inp g"
    by (simp add: frame_runs_def toggle_pause_def)
  from Cons.prems(4) have timer: "1 < scoreDelayTimer g" by simp
  note frame = delay_frame [OF runs timer]
  note jumps = jumps_from_ground_frame [OF runs Cons.prems(5,6)]
  let ?g = "UpdateGame inp g"
  have "gameState (run inps ?g) = PLAYING \<and> \<not> pause (run inps ?g)
       \<and> scoreDelayTimer (run inps ?g) = scoreDelayTimer ?g - int (length inps)
       \<and> servingSide (run inps ?g) = servingSide ?g
       \<and> score (player1 (run inps ?g)) = score (player1 ?g)
       \<and> score (player2 (run inps ?g)) = score (player2 ?g)
       \<and> radius (ball (run inps ?g)) = radius (ball ?g)
       \<and> framesCounter (run inps ?g) = framesCounter ?g + int (length inps)
       \<and> jumps_from_ground (player1 (run inps ?g))
       \<and> jumps_from_ground (player2 (run inps ?g))"
  proof (rule Cons.IH)
    show "gameState ?g = PLAYING" by (rule frame(5))
    show "\<not> pause ?g" by (simp add: frame(9))
    show "\<forall>i \<in> set inps. \<not> KEY_ESCAPE_pressed i \<and> \<not> KEY_P_pressed i"
      using Cons.prems(3) by simp
    show "int (length inps) < scoreDelayTimer ?g"
      using Cons.prems(4) by (simp add: frame(4))
    show "jumps_from_ground (player1 ?g)" by (rule jumps(1))
    show "jumps_from_ground (player2 ?g)" by (rule jumps(2))
  qed
  then show ?case
    using frame(4,6,7,8) frame_keeps [OF runs] by simp
qed

text \<open>A blob never gets near a ball at the height of the serve.\<close>

lemma no_collision_at_serve_height:
  assumes "y c = 100" and "488 \<le> y q"
  shows "\<not> CheckCollisionCircles c 35 q 50"
proof -
  define a b where "a = (x q - x c) * (x q - x c)" and "b = (y q - y c) * (y q - y c)"
  have "388 * 388 \<le> b"
    unfolding b_def using assms by (intro mult_mono) simp_all
  moreover have "0 \<le> a" by (simp add: a_def)
  ultimately have "\<not> a + b \<le> 85 * 85" by linarith
  then show ?thesis
    by (simp add: CheckCollisionCircles_def a_def b_def)
qed


lemma ball_walls_inside:
  "radius b < x (position b) \<Longrightarrow> x (position b) + radius b < real_of_int SCREEN_WIDTH \<Longrightarrow>
     radius b < y (position b) \<Longrightarrow> ball_walls b = b"
  by (simp add: ball_walls_def Let_def)

lemma ball_net_far:
  "NET_WIDTH / 2 + radius b < \<bar>x (position b) - real_of_int NET_X\<bar> \<Longrightarrow> ball_net b = b"
  by (simp add: ball_net_def netRect_def CheckCollisionCircleRec_def Let_def)

lemma score_delay_expires:
  assumes "scoreDelayTimer g = 1"
  shows "score_delay g = ResetBall (g\<lparr>scoreDelayTimer := 0\<rparr>)"
  using assms by (simp add: score_delay_def Let_def)

lemma served_ball_physics:
  assumes "position (ball g) = \<lparr>x = sx, y = 100\<rparr>" and "velocity (ball g) = \<lparr>x = 0, y = 0\<rparr>"
    and "rotation (ball g) = 0" and "trailCount (ball g) = 0"
  shows "position (ball (ball_physics g)) = \<lparr>x = sx, y = 100\<rparr>"
    and "velocity (ball (ball_physics g)) = \<lparr>x = 0, y = BALL_GRAVITY\<rparr>"
    and "rotation (ball (ball_physics g)) = 0"
    and "trailCount (ball (ball_physics g)) = (if framesCounter g mod 2 = 0 then 1 else 0)"
  using assms
  by (simp_all add: ball_physics_def ball_integrate_def ball_rotate_def UpdateBallTrail_def Let_def)


text \<open>
  The frame in which the timer reaches 0: \<^verbatim>\<open>ResetBall\<close> runs, and the rest of the frame
  then moves the freshly served ball by one step of gravity.
\<close>

lemma reset_frame:
  assumes "frame_runs inp g" and "scoreDelayTimer g = 1" and "radius (ball g) = BALL_RADIUS"
    and "jumps_from_ground (player1 g)" and "jumps_from_ground (player2 g)"
  defines "sx \<equiv> (if servingSide g = LEFT then real_of_int (SCREEN_WIDTH div 4)
                  else real_of_int (SCREEN_WIDTH * 3 div 4))"
  shows "position (ball (UpdateGame inp g)) = \<lparr>x = sx, y = 100\<rparr>"
    and "velocity (ball (UpdateGame inp g)) = \<lparr>x = 0, y = BALL_GRAVITY\<rparr>"
    and "rotation (ball (UpdateGame inp g)) = 0"
    and "trailCount (ball (UpdateGame inp g)) = (if (framesCounter g + 1) mod 2 = 0 then 1 else 0)"
    and "scoreDelayTimer (UpdateGame inp g) = 0"
    and "servingSide (UpdateGame inp g) = servingSide g"
    and "score (player1 (UpdateGame inp g)) = score (player1 g)"
    and "score (player2 (UpdateGame inp g)) = score (player2 g)"
    and "gameState (UpdateGame inp g) = PLAYING"
proof -
  define k where "k = players_physics (ai_if_single inp (UpdatePlayerControls inp
                        (UpdateParticles (count_match_time (frame_start inp g)))))"
  define r where "r = score_delay k"
  define p where "p = ball_physics r"
  define h where "h = before_players inp (frame_start inp g)"
  have k: "scoreDelayTimer k = 1" "radius (ball k) = 35" "servingSide k = servingSide g"
    "framesCounter k = framesCounter g + 1"
    using assms(2,3) by (simp_all add: k_def)
  have sx: "sx = 256 \<or> sx = 768" by (simp add: sx_def)
  have r: "r = ResetBall (k\<lparr>scoreDelayTimer := 0\<rparr>)"
    unfolding r_def using k(1) by (rule score_delay_expires)
  have ball_r: "position (ball r) = \<lparr>x = sx, y = 100\<rparr>" "velocity (ball r) = \<lparr>x = 0, y = 0\<rparr>"
    "rotation (ball r) = 0" "trailCount (ball r) = 0"
    by (simp_all add: r ResetBall_def k sx_def)
  have state_r: "scoreDelayTimer r = 0" "framesCounter r = framesCounter g + 1"
    "radius (ball r) = 35"
    by (simp_all add: r k)
  note ball_p = served_ball_physics [OF ball_r, folded p_def, unfolded state_r]
  have state_p: "scoreDelayTimer p = 0" "radius (ball p) = 35"
    by (simp_all add: p_def state_r)
  have "ball_walls (ball p) = ball p"
    using sx by (intro ball_walls_inside) (auto simp add: ball_p state_p)
  moreover have "ball_net (ball p) = ball p"
    using sx by (intro ball_net_far) (auto simp add: ball_p state_p)
  ultimately have walls_net: "ball_walls_net p = p"
    by (simp add: ball_walls_net_def)
  have h: "h = p"
    using walls_net by (simp add: h_def p_def r_def k_def before_players_def)
  have players: "jumps_from_ground (player1 h)" "jumps_from_ground (player2 h)"
    using assms(4,5) by (simp_all add: h_def jumps_from_ground_before_players)
  have radii: "radius (player1 h) = 50" "radius (player2 h) = 50"
    using players by (simp_all add: jumps_from_ground_def)
  have serve_height: "y (position (ball h)) = 100" and radius_h: "radius (ball h) = 35"
    by (simp_all add: h ball_p state_p)
  have miss1: "\<not> CheckCollisionCircles (position (ball h)) (radius (ball h))
                   (position (player1 h)) (radius (player1 h))"
    unfolding radius_h radii
    using serve_height jumps_from_ground_height [OF players(1)]
    by (rule no_collision_at_serve_height)
  have miss2: "\<not> CheckCollisionCircles (position (ball h)) (radius (ball h))
                   (position (player2 h)) (radius (player2 h))"
    unfolding radius_h radii
    using serve_height jumps_from_ground_height [OF players(2)]
    by (rule no_collision_at_serve_height)
  have before: "before_ground inp (frame_start inp g) = h"
    using miss1 miss2
    by (simp add: before_ground_def h_def [symmetric] ball_player1_def ball_player2_def)
  have "\<not> reaches_ground (ball h)"
    by (simp add: reaches_ground_def serve_height radius_h)
  then have frame: "UpdateGame inp g = p"
    using UpdateGame_frame [OF assms(1)] before h
    by (simp add: ball_ground_def reaches_ground_def)
  show "position (ball (UpdateGame inp g)) = \<lparr>x = sx, y = 100\<rparr>"
    and "velocity (ball (UpdateGame inp g)) = \<lparr>x = 0, y = BALL_GRAVITY\<rparr>"
    and "rotation (ball (UpdateGame inp g)) = 0"
    and "trailCount (ball (UpdateGame inp g)) = (if (framesCounter g + 1) mod 2 = 0 then 1 else 0)"
    and "scoreDelayTimer (UpdateGame inp g) = 0"
    by (simp_all add: frame ball_p state_p)
  have "servingSide h = servingSide g" "score (player1 h) = score (player1 g)"
    "score (player2 h) = score (player2 g)" "gameState h = gameState g"
    by (simp_all add: h_def)
  with assms(1) show "servingSide (UpdateGame inp g) = servingSide g"
    and "score (player1 (UpdateGame inp g)) = score (player1 g)"
    and "score (player2 (UpdateGame inp g)) = score (player2 g)"
    and "gameState (UpdateGame inp g) = PLAYING"
    by (simp_all add: frame h [symmetric] frame_runs_def)
qed

lemma landing_starts_delay:
  assumes "frame_runs inp g" and "scoreDelayTimer g = 0"
    and "reaches_ground (ball_at_ground_check inp g)"
    and "score (player1 (UpdateGame inp g)) < WIN_SCORE"
    and "score (player2 (UpdateGame inp g)) < WIN_SCORE"
  shows "scoreDelayTimer (UpdateGame inp g) = SCORE_DELAY_FRAMES"
    and "gameState (UpdateGame inp g) = PLAYING"
    and "pause (UpdateGame inp g) = False"
proof -
  let ?h = "before_ground inp (frame_start inp g)"
  let ?k = "ground_particles (random_particle inp) (ground_bounce ?h)"
  have timer: "scoreDelayTimer ?h = 0"
    using assms(2) by (simp add: before_ground_timer)
  have ground: "reaches_ground (ball ?h)"
    using assms(3) by (simp add: ball_at_ground_check_def)
  have frame: "UpdateGame inp g = process_score ?k"
    using UpdateGame_frame [OF assms(1)] ball_ground_scores [OF ground timer] by simp
  from process_score_state [of ?k] assms(4,5) frame
  show "scoreDelayTimer (UpdateGame inp g) = SCORE_DELAY_FRAMES"
    by simp
  from process_score_state [of ?k] assms(1,4,5) frame
  show "gameState (UpdateGame inp g) = PLAYING"
    by (simp add: frame_runs_def)
  from assms(1) frame show "pause (UpdateGame inp g) = False"
    by (simp add: frame_runs_def)
qed

lemma delay_then_reset:
  assumes "gameState g = PLAYING" and "\<not> pause g"
    and "scoreDelayTimer g = SCORE_DELAY_FRAMES" and "radius (ball g) = BALL_RADIUS"
    and "jumps_from_ground (player1 g)" and "jumps_from_ground (player2 g)"
    and "length inps = 120"
    and "\<forall>i \<in> set inps. \<not> KEY_ESCAPE_pressed i \<and> \<not> KEY_P_pressed i"
  shows "n < 120 \<Longrightarrow> scoreDelayTimer (run (take n inps) g) = SCORE_DELAY_FRAMES - int n"
    and "scoreDelayTimer (run inps g) = 0"
    and "position (ball (run inps g)) =
           \<lparr>x = (if servingSide g = LEFT then real_of_int (SCREEN_WIDTH div 4)
                   else real_of_int (SCREEN_WIDTH * 3 div 4)), y = 100\<rparr>"
    and "velocity (ball (run inps g)) = \<lparr>x = 0, y = BALL_GRAVITY\<rparr>"
    and "rotation (ball (run inps g)) = 0"
    and "trailCount (ball (run inps g)) = (if framesCounter (run inps g) mod 2 = 0 then 1 else 0)"
    and "servingSide (run inps g) = servingSide g"
    and "score (player1 (run inps g)) = score (player1 g)"
    and "score (player2 (run inps g)) = score (player2 g)"
    and "gameState (run inps g) = PLAYING"
proof -
  have quiet: "\<forall>i \<in> set (take m inps). \<not> KEY_ESCAPE_pressed i \<and> \<not> KEY_P_pressed i" for m
    using assms(8) by (meson in_set_takeD)
  {
    assume "n < 120"
    then have "int (length (take n inps)) < scoreDelayTimer g"
      using assms(3,7) by simp
    from delay_run [OF assms(1,2) quiet this assms(5,6)] \<open>n < 120\<close> assms(3,7)
    show "scoreDelayTimer (run (take n inps) g) = SCORE_DELAY_FRAMES - int n"
      by simp
  }
  define mid where "mid = run (take 119 inps) g"
  have "take (Suc 119) inps = take 119 inps @ [inps ! 119]"
    using assms(7) by (intro take_Suc_conv_app_nth) simp
  moreover have "take (Suc 119) inps = inps"
    using assms(7) by simp
  ultimately have split: "inps = take 119 inps @ [inps ! 119]"
    by simp
  have final: "run inps g = UpdateGame (inps ! 119) mid"
    unfolding mid_def by (subst split) (simp only: run_snoc)
  have "int (length (take 119 inps)) < scoreDelayTimer g"
    using assms(3,7) by simp
  from delay_run [OF assms(1,2) quiet this assms(5,6)] assms(3,4,7)
  have mid: "gameState mid = PLAYING" "\<not> pause mid" "scoreDelayTimer mid = 1"
    "servingSide mid = servingSide g" "score (player1 mid) = score (player1 g)"
    "score (player2 mid) = score (player2 g)" "radius (ball mid) = 35"
    "framesCounter mid = framesCounter g + 119"
    "jumps_from_ground (player1 mid)" "jumps_from_ground (player2 mid)"
    by (simp_all add: mid_def)
  have "inps ! 119 \<in> set inps" using assms(7) by simp
  with assms(8) mid(1,2) have runs: "frame_runs (inps ! 119) mid"
    by (simp add: frame_runs_def toggle_pause_def)
  note reset = reset_frame [OF runs mid(3) mid(7) mid(9) mid(10)]
  show "scoreDelayTimer (run inps g) = 0"
    and "position (ball (run inps g)) =
           \<lparr>x = (if servingSide g = LEFT then real_of_int (SCREEN_WIDTH div 4)
                   else real_of_int (SCREEN_WIDTH * 3 div 4)), y = 100\<rparr>"
    and "velocity (ball (run inps g)) = \<lparr>x = 0, y = BALL_GRAVITY\<rparr>"
    and "rotation (ball (run inps g)) = 0"
    and "trailCount (ball (run inps g)) = (if framesCounter (run inps g) mod 2 = 0 then 1 else 0)"
    and "servingSide (run inps g) = servingSide g"
    and "score (player1 (run inps g)) = score (player1 g)"
    and "score (player2 (run inps g)) = score (player2 g)"
    and "gameState (run inps g) = PLAYING"
    using reset mid frame_keeps(2) [OF runs] by (simp_all add: final)
qed


text \<open>
  Starting a match from the menu resets the scores, the match timer and the ball, and
  leaves the score delay timer and the serving side as the last match left them.
\<close>

lemma menu_case_keeps_delay:
  "scoreDelayTimer (menu_case inp g) = scoreDelayTimer g"
  "servingSide (menu_case inp g) = servingSide g"
  by (simp_all add: menu_case_def menu_enter_def menu_navigate_def Let_def)

text \<open>Every state the program reaches keeps the ball's radius and the blobs' reach.\<close>

lemma shape_UpdateGame:
  assumes "radius (ball g) = BALL_RADIUS"
    and "jumps_from_ground (player1 g)" and "jumps_from_ground (player2 g)"
  shows "radius (ball (UpdateGame inp g)) = BALL_RADIUS
       \<and> jumps_from_ground (player1 (UpdateGame inp g))
       \<and> jumps_from_ground (player2 (UpdateGame inp g))"
proof (cases "frame_runs inp g")
  case True
  with assms frame_keeps(1) [OF True] jumps_from_ground_frame [OF True assms(2,3)]
  show ?thesis by simp
next
  case False
  show ?thesis
  proof (cases "gameState g")
    case MENU
    with assms show ?thesis
      by (simp add: UpdateGame_def menu_case_def menu_enter_def menu_navigate_def Let_def)
  next
    case PLAYING
    with False assms show ?thesis
      by (auto simp add: frame_runs_def UpdateGame_def playing_case_def toggle_pause_def
            split: if_splits)
  next
    case GAMEOVER
    with assms show ?thesis
      by (simp add: UpdateGame_def gameover_case_def)
  next
    case CREDITS
    with assms show ?thesis
      by (simp add: UpdateGame_def credits_case_def Let_def)
  qed
qed

lemma shape_run:
  "radius (ball g) = BALL_RADIUS \<Longrightarrow> jumps_from_ground (player1 g) \<Longrightarrow>
   jumps_from_ground (player2 g) \<Longrightarrow>
     radius (ball (run inps g)) = BALL_RADIUS
     \<and> jumps_from_ground (player1 (run inps g))
     \<and> jumps_from_ground (player2 (run inps g))"
proof (induction inps arbitrary: g)
  case Nil
  then show ?case by simp
next
  case (Cons inp inps)
  from shape_UpdateGame [OF Cons.prems, of inp] Cons.IH [of "UpdateGame inp g"]
  show ?case by simp
qed

lemma shape_InitGame:
  "radius (ball (run inps InitGame)) = BALL_RADIUS
   \<and> jumps_from_ground (player1 (run inps InitGame))
   \<and> jumps_from_ground (player2 (run inps InitGame))"
  by (rule shape_run) (simp_all add: InitGame_def ResetBall_def jumps_from_ground_def)

text \<open>
  C6, as the code has it. In a match with scores (0, 0) and no score delay running, let
  the ball reach the ground at \<open>x < NET_X\<close>: the scores become (0, 1) and the serve goes
  to \<^verbatim>\<open>RIGHT\<close>. Over the next 120 frames of play (no Escape, no pause) the timer counts
  down from 120, and it is in the 120th frame that the ball is reset: at the end of that
  frame the ball is at the right-side spawn point \<open>(SCREEN_WIDTH * 3 / 4, 100)\<close> with
  rotation 0 and horizontal velocity 0. The frame goes on after the reset, so the ball
  already has the vertical velocity of one step of gravity, 0.4, and the trail count is 1
  when the frame counter is even and 0 when it is odd.
\<close>

theorem serve_reset_after_delay:
  assumes "frame_runs inp g" and "scoreDelayTimer g = 0"
    and "score (player1 g) = 0" and "score (player2 g) = 0"
    and "reaches_ground (ball_at_ground_check inp g)"
    and "x (position (ball_at_ground_check inp g)) < real_of_int NET_X"
    and "radius (ball g) = BALL_RADIUS"
    and "jumps_from_ground (player1 g)" and "jumps_from_ground (player2 g)"
    and "length inps = 120"
    and "\<forall>i \<in> set inps. \<not> KEY_ESCAPE_pressed i \<and> \<not> KEY_P_pressed i"
  shows "score (player1 (UpdateGame inp g)) = 0 \<and> score (player2 (UpdateGame inp g)) = 1
       \<and> servingSide (UpdateGame inp g) = RIGHT
       \<and> (\<forall>n < 120. scoreDelayTimer (run (take n inps) (UpdateGame inp g))
                          = SCORE_DELAY_FRAMES - int n)
       \<and> scoreDelayTimer (run inps (UpdateGame inp g)) = 0
       \<and> position (ball (run inps (UpdateGame inp g)))
           = \<lparr>x = real_of_int (SCREEN_WIDTH * 3 div 4), y = 100\<rparr>
       \<and> velocity (ball (run inps (UpdateGame inp g))) = \<lparr>x = 0, y = BALL_GRAVITY\<rparr>
       \<and> rotation (ball (run inps (UpdateGame inp g))) = 0
       \<and> trailCount (ball (run inps (UpdateGame inp g)))
           = (if framesCounter (run inps (UpdateGame inp g)) mod 2 = 0 then 1 else 0)
       \<and> score (player1 (run inps (UpdateGame inp g))) = 0
       \<and> score (player2 (run inps (UpdateGame inp g))) = 1
       \<and> servingSide (run inps (UpdateGame inp g)) = RIGHT"
proof -
  let ?g = "UpdateGame inp g"
  let ?h = "before_ground inp (frame_start inp g)"
  let ?k = "ground_particles (random_particle inp) (ground_bounce ?h)"
  have timer: "scoreDelayTimer ?h = 0"
    using assms(2) by (simp add: before_ground_timer)
  have ground: "reaches_ground (ball ?h)"
    using assms(5) by (simp add: ball_at_ground_check_def)
  have frame: "?g = process_score ?k"
    using UpdateGame_frame [OF assms(1)] ball_ground_scores [OF ground timer] by simp
  have "x (position (ball ?k)) < real_of_int NET_X"
    using assms(6) by (simp add: ball_at_ground_check_def)
  from process_score_left [OF this] frame assms(3,4)
  have scored: "score (player1 ?g) = 0" "score (player2 ?g) = 1" "servingSide ?g = RIGHT"
    by simp_all
  have started: "scoreDelayTimer ?g = SCORE_DELAY_FRAMES" "gameState ?g = PLAYING" "\<not> pause ?g"
    using landing_starts_delay [OF assms(1,2,5)] scored by simp_all
  have shape: "radius (ball ?g) = BALL_RADIUS" "jumps_from_ground (player1 ?g)"
    "jumps_from_ground (player2 ?g)"
    using shape_UpdateGame [OF assms(7,8,9), of inp] by simp_all
  note delay = delay_then_reset [OF started(2,3,1) shape assms(10,11)]
  from delay(1) have "\<forall>n < 120. scoreDelayTimer (run (take n inps) ?g) = SCORE_DELAY_FRAMES - int n"
    by blast
  with scored delay(2-9) show ?thesis
    by simp
qed


lemma before_first_landing_shape:
  "scoreDelayTimer before_first_landing = 0"
  "score (player1 before_first_landing) = 0" "score (player2 before_first_landing) = 0"
  "radius (ball before_first_landing) = BALL_RADIUS"
  "jumps_from_ground (player1 before_first_landing)"
  "jumps_from_ground (player2 before_first_landing)"
  unfolding before_first_landing_state
  by (simp_all add: jumps_from_ground_def)

theorem serve_reset_after_delay_witness:
  "frame_runs hold_D before_first_landing
   \<and> reaches_ground (ball_at_ground_check hold_D before_first_landing)
   \<and> x (position (ball_at_ground_check hold_D before_first_landing)) < real_of_int NET_X
   \<and> length (replicate 120 no_keys) = 120
   \<and> score (player1 first_landing) = 0 \<and> score (player2 first_landing) = 1
   \<and> servingSide first_landing = RIGHT
   \<and> scoreDelayTimer (run (take 119 (replicate 120 no_keys)) first_landing) = 1
   \<and> scoreDelayTimer (run (replicate 120 no_keys) first_landing) = 0
   \<and> position (ball (run (replicate 120 no_keys) first_landing)) = \<lparr>x = 768, y = 100\<rparr>
   \<and> velocity (ball (run (replicate 120 no_keys) first_landing)) = \<lparr>x = 0, y = 2 / 5\<rparr>
   \<and> rotation (ball (run (replicate 120 no_keys) first_landing)) = 0"
proof -
  have ground: "reaches_ground (ball_at_ground_check hold_D before_first_landing)"
    unfolding first_landing_ball by (simp add: reaches_ground_def)
  have left: "x (position (ball_at_ground_check hold_D before_first_landing)) < real_of_int NET_X"
    unfolding first_landing_ball by simp
  have len: "length (replicate 120 no_keys) = 120"
    by simp
  have quiet: "\<forall>i \<in> set (replicate 120 no_keys). \<not> KEY_ESCAPE_pressed i \<and> \<not> KEY_P_pressed i"
    by (simp add: no_keys_def)
  note shape = before_first_landing_shape
  from serve_reset_after_delay [OF first_landing_frame_runs shape(1,2,3) ground left shape(4,5,6)
      len quiet]
  show ?thesis
    using first_landing_frame_runs ground left
    by (simp add: first_landing_def [symmetric])
qed

text \<open>
  As stated, C6 fails where it says that the ball has zero velocity 120 frames later: in
  the example run the ball has landed on the left, the scores are (0, 1) and the serve is
  \<^verbatim>\<open>RIGHT\<close>; 120 frames later the ball is at the right-side spawn point, and its
  velocity is \<open>(0, 0.4)\<close>.
\<close>

theorem served_ball_already_falls:
  "score (player1 first_landing) = 0 \<and> score (player2 first_landing) = 1
   \<and> servingSide first_landing = RIGHT
   \<and> scoreDelayTimer first_landing = SCORE_DELAY_FRAMES
   \<and> position (ball (run (replicate 120 no_keys) first_landing)) = \<lparr>x = 768, y = 100\<rparr>
   \<and> velocity (ball (run (replicate 120 no_keys) first_landing)) = \<lparr>x = 0, y = 2 / 5\<rparr>
   \<and> velocity (ball (run (replicate 120 no_keys) first_landing)) \<noteq> \<lparr>x = 0, y = 0\<rparr>"
proof -
  have start: "gameState first_landing = PLAYING" "\<not> pause first_landing"
    "scoreDelayTimer first_landing = SCORE_DELAY_FRAMES" "radius (ball first_landing) = BALL_RADIUS"
    "jumps_from_ground (player1 first_landing)" "jumps_from_ground (player2 first_landing)"
    unfolding first_landing_state by (simp_all add: jumps_from_ground_def)
  have len: "length (replicate 120 no_keys) = 120"
    by simp
  have quiet: "\<forall>i \<in> set (replicate 120 no_keys). \<not> KEY_ESCAPE_pressed i \<and> \<not> KEY_P_pressed i"
    by (simp add: no_keys_def)
  note reset = delay_then_reset [OF start len quiet]
  have "velocity (ball (run (replicate 120 no_keys) first_landing)) = \<lparr>x = 0, y = 2 / 5\<rparr>"
    using reset(4) by simp
  moreover have "position (ball (run (replicate 120 no_keys) first_landing)) = \<lparr>x = 768, y = 100\<rparr>"
    using reset(3) by (simp add: first_landing_frame(7))
  ultimately show ?thesis
    by (simp add: first_landing_frame start(3))
qed

subsection \<open>The AI while the ball is not coming\<close>

lemma ai_return_to_center_velocity: "x (velocity (ai_return_to_center p)) = 0"
  by (simp add: ai_return_to_center_def Let_def)

lemma ai_return_to_center_step:
  "outside_band (ai_return_to_center p) = max 0 (outside_band p - PLAYER_MOVE_SPEED * 0.6)"
  by (simp add: ai_return_to_center_def outside_band_def Let_def max_def abs_if)

lemma ai_return_to_center_holds:
  "outside_band p = 0 \<Longrightarrow> x (position (ai_return_to_center p)) = x (position p)"
  by (simp add: ai_return_to_center_def outside_band_def Let_def max_def abs_if split: if_splits)

lemma UpdateAI_idle:
  assumes "\<not> ballComingToward g"
  shows "player2 (UpdateAI r g) = ai_return_to_center (player2 g)"
    and "\<not> ballComingToward (UpdateAI r g)"
proof -
  have same: "ballComingToward (ai_cooldown g) = ballComingToward g"
    by (simp add: ballComingToward_def)
  with assms show "player2 (UpdateAI r g) = ai_return_to_center (player2 g)"
    by (simp add: UpdateAI_def Let_def)
  show "\<not> ballComingToward (UpdateAI r g)"
    using assms by (auto simp add: ballComingToward_def)
qed

lemma ai_frames_idle:
  assumes "\<not> ballComingToward g"
  shows "outside_band (player2 (ai_frames rs g))
           = max 0 (outside_band (player2 g) - PLAYER_MOVE_SPEED * 0.6 * real (length rs))"
    and "rs \<noteq> [] \<Longrightarrow> x (velocity (player2 (ai_frames rs g))) = 0"
    and "outside_band (player2 g) = 0 \<Longrightarrow>
           x (position (player2 (ai_frames rs g))) = x (position (player2 g))"
    and "ball (ai_frames rs g) = ball g"
  using assms
proof (induction rs arbitrary: g)
  case Nil
  {
    case 1 show ?case by (simp add: outside_band_def)
  next
    case 2 then show ?case by simp
  next
    case 3 show ?case by simp
  next
    case 4 show ?case by simp
  }
next
  case (Cons r rs)
  {
    case 1
    note idle = UpdateAI_idle [OF 1, of r]
    from Cons.IH(1) [OF idle(2)] show ?case
      by (simp add: idle(1) ai_return_to_center_step max_def algebra_simps)
  next
    case 2
    note idle = UpdateAI_idle [OF 2(2), of r]
    show ?case
    proof (cases "rs = []")
      case True
      then show ?thesis by (simp add: idle(1) ai_return_to_center_velocity)
    next
      case False
      from Cons.IH(2) [OF False idle(2)] show ?thesis by simp
    qed
  next
    case 3
    note idle = UpdateAI_idle [OF 3(2), of r]
    have "outside_band (player2 (UpdateAI r g)) = 0"
      using 3(1) by (simp add: idle(1) ai_return_to_center_step)
    from Cons.IH(3) [OF this idle(2)] 3(1) show ?case
      by (simp add: idle(1) ai_return_to_center_holds)
  next
    case 4
    note idle = UpdateAI_idle [OF 4, of r]
    from Cons.IH(4) [OF idle(2)] show ?case by simp
  }
qed


lemma ai_frames_append: "ai_frames (rs @ rs') g = ai_frames rs' (ai_frames rs g)"
  by (induction rs arbitrary: g) simp_all

lemma ai_frames_replicate_numeral:
  "ai_frames (replicate (numeral k) r) g = ai_frames (replicate (pred_numeral k) r) (UpdateAI r g)"
  by (simp add: numeral_eq_Suc)

lemma outside_band_0: "outside_band p = 0 \<longleftrightarrow> \<bar>x (position p) - ai_targetX\<bar> \<le> AI_POSITION_TOLERANCE"
  by (simp add: outside_band_def max_def)

text \<open>
  C9, as the code has it. The AI returns to the midpoint when the ball is not coming,
  which is when the ball is on the left half and does not move to the right; how far the
  ball is from the AI player plays no part. In every such frame the AI publishes zero
  horizontal velocity, outside the tolerance band it moves by 2.4 towards the midpoint
  \<open>NET_X + (SCREEN_WIDTH - NET_X) / 2\<close>, so that after enough frames it is within 20 of
  it, and from then on its position stays as it is.
\<close>

theorem ai_returns_to_midpoint:
  assumes "x (position (ball g)) < real_of_int NET_X" and "x (velocity (ball g)) \<le> 0"
  shows "outside_band (player2 (ai_frames rs g))
           = max 0 (outside_band (player2 g) - PLAYER_MOVE_SPEED * 0.6 * real (length rs))
       \<and> (outside_band (player2 g) \<le> PLAYER_MOVE_SPEED * 0.6 * real (length rs) \<longrightarrow>
            \<bar>x (position (player2 (ai_frames rs g))) - ai_targetX\<bar> \<le> AI_POSITION_TOLERANCE
            \<and> x (position (player2 (ai_frames (rs @ later) g)))
                = x (position (player2 (ai_frames rs g))))
       \<and> (rs \<noteq> [] \<longrightarrow> x (velocity (player2 (ai_frames rs g))) = 0)
       \<and> ball (ai_frames rs g) = ball g"
proof -
  from assms have idle: "\<not> ballComingToward g"
    by (simp add: ballComingToward_def)
  note frames = ai_frames_idle [OF idle, of rs]
  have idle': "\<not> ballComingToward (ai_frames rs g)"
    using idle by (simp only: ballComingToward_def frames(4)) simp
  have "\<bar>x (position (player2 (ai_frames rs g))) - ai_targetX\<bar> \<le> AI_POSITION_TOLERANCE
        \<and> x (position (player2 (ai_frames (rs @ later) g)))
            = x (position (player2 (ai_frames rs g)))"
    if "outside_band (player2 g) \<le> PLAYER_MOVE_SPEED * 0.6 * real (length rs)"
  proof -
    from that frames(1) have inside: "outside_band (player2 (ai_frames rs g)) = 0"
      by simp
    from ai_frames_idle(3) [OF idle' inside, of later] inside show ?thesis
      by (simp add: ai_frames_append outside_band_0)
  qed
  with frames show ?thesis
    by blast
qed

lemma ai_idle_example_start:
  "x (position (ball ai_idle_example)) < real_of_int NET_X"
  "x (velocity (ball ai_idle_example)) \<le> 0"
  "outside_band (player2 ai_idle_example) = 112"
  by (simp_all add: ai_idle_example_def outside_band_def)

theorem ai_returns_to_midpoint_witness:
  "x (position (ball ai_idle_example)) < real_of_int NET_X
   \<and> x (velocity (ball ai_idle_example)) \<le> 0
   \<and> outside_band (player2 ai_idle_example) = 112
   \<and> \<bar>x (position (player2 (ai_frames (replicate 47 50) ai_idle_example))) - ai_targetX\<bar>
       \<le> AI_POSITION_TOLERANCE
   \<and> x (position (player2 (ai_frames (replicate 47 50 @ replicate 30 50) ai_idle_example)))
       = x (position (player2 (ai_frames (replicate 47 50) ai_idle_example)))
   \<and> x (velocity (player2 (ai_frames (replicate 47 50) ai_idle_example))) = 0"
proof -
  from ai_returns_to_midpoint [OF ai_idle_example_start(1,2), of "replicate 47 50" "replicate 30 50"]
  show ?thesis
    using ai_idle_example_start by simp
qed

text \<open>
  As stated, C9 fails when the resting ball is on the AI's own half. The ball rests at
  \<open>x = 950\<close>, 182 away from the AI player, who stands at the midpoint \<open>x = 768\<close>:
  the AI walks towards the ball with horizontal velocity 3.2, and after ten frames it is
  at \<open>x = 800\<close>, outside the tolerance band.
\<close>

theorem ai_chases_resting_ball_on_its_half:
  "velocity (ball ai_right_example) = \<lparr>x = 0, y = 0\<rparr>
   \<and> AI_REACTION_DISTANCE
       < \<bar>x (position (ball ai_right_example)) - x (position (player2 ai_right_example))\<bar>
   \<and> x (position (player2 ai_right_example)) = ai_targetX
   \<and> x (position (player2 (UpdateAI 50 ai_right_example))) = 3856 / 5
   \<and> x (velocity (player2 (UpdateAI 50 ai_right_example))) = 16 / 5
   \<and> x (position (player2 (ai_frames (replicate 10 50) ai_right_example))) = 800
   \<and> \<not> \<bar>x (position (player2 (ai_frames (replicate 10 50) ai_right_example))) - ai_targetX\<bar>
         \<le> AI_POSITION_TOLERANCE"
  unfolding ai_right_example_def
  by (simp add: frame_defs ai_frames_replicate_numeral)

subsection \<open>The blobs and their halves\<close>

text \<open>The clamp of lines 330-337 puts player 1 between the left wall and the net.\<close>

lemma keep_left_side_range:
  assumes "2 * radius p \<le> real_of_int NET_X - NET_WIDTH / 2"
  shows "radius p \<le> x (position (keep_left_side p))"
    and "x (position (keep_left_side p)) + radius p \<le> real_of_int NET_X - NET_WIDTH / 2"
  using assms by (simp_all add: keep_left_side_def Let_def)

text \<open>
  The integration that follows moves the blob once more, by the velocity the keys have
  set: a frame ends with player 1 up to 4 outside that range, still left of the net's
  centre line.
\<close>

lemma move_keys_velocity:
  "x (velocity (move_keys l r p)) = - 4 \<or> x (velocity (move_keys l r p)) = 0
   \<or> x (velocity (move_keys l r p)) = 4"
  by (simp add: move_keys_def)

lemma player1_frame_range:
  assumes "frame_runs inp g" and "radius (player1 g) = PLAYER_RADIUS"
  shows "46 \<le> x (position (player1 (UpdateGame inp g)))"
    and "x (position (player1 (UpdateGame inp g))) \<le> 461"
proof -
  define q where "q = jump_key (KEY_W_pressed inp)
                        (move_keys (KEY_A_down inp) (KEY_D_down inp) (player1 g))"
  have radius: "radius q = 50"
    using assms(2) by (simp add: q_def)
  then have "2 * radius q \<le> real_of_int NET_X - NET_WIDTH / 2"
    by simp
  note range = keep_left_side_range [OF this, unfolded radius]
  have velocity: "x (velocity q) = - 4 \<or> x (velocity q) = 0 \<or> x (velocity q) = 4"
    using move_keys_velocity [of "KEY_A_down inp" "KEY_D_down inp" "player1 g"]
    by (simp add: q_def)
  have "x (position (player1 (UpdateGame inp g)))
          = x (position (keep_left_side q)) + x (velocity q)"
    by (simp add: UpdateGame_frame [OF assms(1)] before_players_def players_physics_def
          ai_if_single_def UpdateAI_keeps UpdatePlayerControls_def Let_def q_def
          player_physics_def player_ground_def player_gravity_def player_integrate_def)
  with range velocity show "46 \<le> x (position (player1 (UpdateGame inp g)))"
    and "x (position (player1 (UpdateGame inp g))) \<le> 461"
    by auto
qed

lemma at_left_wall_state:
  "at_left_wall =
     \<lparr>gameState = PLAYING, gameMode = TWO_PLAYER, pause = False, framesCounter = 28,
      player1 = \<lparr>position = \<lparr>x = 48, y = 668\<rparr>, velocity = \<lparr>x = - 4, y = 0\<rparr>,
                 radius = 50, side = LEFT, score = 0, onGround = True\<rparr>,
      player2 = \<lparr>position = \<lparr>x = 768, y = 668\<rparr>, velocity = \<lparr>x = 0, y = 0\<rparr>,
                 radius = 50, side = RIGHT, score = 0, onGround = True\<rparr>,
      ball = \<lparr>position = \<lparr>x = 256, y = 230\<rparr>, velocity = \<lparr>x = 0, y = 52 / 5\<rparr>,
              radius = 35,
              trail = [\<lparr>x = 256, y = 230\<rparr>, \<lparr>x = 256, y = 1052 / 5\<rparr>, \<lparr>x = 256, y = 962 / 5\<rparr>],
              trailCount = 3, rotation = 0\<rparr>,
      particles = replicate MAX_PARTICLES zero_Particle,
      aiJumpCooldown = 0, servingSide = LEFT, scoreDelayTimer = 0, menuSelection = 1,
      creditsScroll = 0, shouldExitGame = False, matchTimer = 26\<rparr>"
  unfolding at_left_wall_def start_two_player_state
  by (simp add: frame_defs hold_A_def no_keys_def zero_Particle_def)

text \<open>
  C1 is what the clamps of \<^verbatim>\<open>UpdatePlayerControls\<close> are there for, and the code misses
  it: after the clamp, lines 589 and 591 add the horizontal velocity to the position once
  more. In the example run player 1, walking left, ends the 26th frame at \<open>x = 48\<close>,
  less than its radius 50; in the next frame the clamp puts it back to \<open>x = 50\<close> and
  the frame ends with it at \<open>x = 46\<close>. Walking right, it ends its frames at
  \<open>x = 461\<close>, so that \<open>x + radius = 511\<close> is beyond the near edge 507 of the net.
\<close>

theorem player_ends_frame_outside_its_range:
  "gameState at_left_wall = PLAYING
   \<and> radius (player1 at_left_wall) = 50
   \<and> x (position (player1 at_left_wall)) = 48
   \<and> x (position (player1 (UpdatePlayerControls hold_A at_left_wall))) = 50
   \<and> gameState (UpdateGame hold_A at_left_wall) = PLAYING
   \<and> radius (player1 (UpdateGame hold_A at_left_wall)) = 50
   \<and> x (position (player1 (UpdateGame hold_A at_left_wall))) = 46
   \<and> \<not> radius (player1 (UpdateGame hold_A at_left_wall))
         \<le> x (position (player1 (UpdateGame hold_A at_left_wall)))
   \<and> gameState before_first_landing = PLAYING
   \<and> radius (player1 before_first_landing) = 50
   \<and> x (position (player1 before_first_landing)) = 461
   \<and> \<not> x (position (player1 before_first_landing)) + radius (player1 before_first_landing)
         \<le> real_of_int NET_X - NET_WIDTH / 2"
proof -
  have "gameState at_left_wall = PLAYING" "radius (player1 at_left_wall) = 50"
    "x (position (player1 at_left_wall)) = 48"
    unfolding at_left_wall_state by simp_all
  moreover have "x (position (player1 (UpdatePlayerControls hold_A at_left_wall))) = 50"
    unfolding at_left_wall_state
    by (simp add: UpdatePlayerControls_def move_keys_def jump_key_def keep_left_side_def
          keep_right_side_def Let_def hold_A_def no_keys_def)
  moreover have "gameState (UpdateGame hold_A at_left_wall) = PLAYING"
    "radius (player1 (UpdateGame hold_A at_left_wall)) = 50"
    "x (position (player1 (UpdateGame hold_A at_left_wall))) = 46"
    unfolding at_left_wall_state
    by (simp_all add: frame_defs hold_A_def no_keys_def zero_Particle_def)
  moreover have "gameState before_first_landing = PLAYING"
    "radius (player1 before_first_landing) = 50"
    "x (position (player1 before_first_landing)) = 461"
    unfolding before_first_landing_state by simp_all
  ultimately show ?thesis by simp
qed

end
